theory Spec2Isabelle
  imports Complex_Main "HOL-Library.Multiset"
begin

section \<open>Python values, dictionaries and exceptions\<close>

text \<open>
  The agent passes JSON-like values around (\<open>Dict[str, Any]\<close>, \<open>Any\<close>): tool
  arguments, tool result payloads, accumulated results. They are modelled by one
  datatype. \<open>PDatetime\<close> stands for a \<open>datetime\<close> object (written as its ISO text);
  it is the one value here that \<open>json.dumps\<close> refuses without \<open>default=str\<close>.
  A float is modelled by the real number it denotes, so comparisons are exact.
\<close>

datatype pyval =
    PNone
  | PBool bool
  | PInt int
  | PFloat real
  | PStr string
  | PDatetime string
  | PList "pyval list"
  | PDict "(string \<times> pyval) list"

type_synonym pydict = "(string \<times> pyval) list"

datatype pyexc =
    KeyError string
  | TypeError string
  | AttributeError string
  | ValidationError string string
  | Raised string

text \<open>\<open>str(e)\<close>: a \<open>KeyError\<close> prints the repr of its key, a \<open>TypeError\<close> and an
  \<open>AttributeError\<close> their message. A pydantic \<open>ValidationError\<close> prints a title line,
  \<open>1 validation error for <Model>\<close>, and below it the field, the reason and a link, which
  depend on the version of the library: \<open>ValidationError title detail\<close> carries the title
  and the lines below it, the latter taken from the collaborators. \<open>Raised msg\<close> is any
  exception of a collaborator (embedding model, vector index, chat-completion provider,
  database driver) whose \<open>str\<close> is \<open>msg\<close>.\<close>

definition quoted :: "string \<Rightarrow> string" where
  "quoted s = CHR 0x27 # s @ [CHR 0x27]"

fun str_exc :: "pyexc \<Rightarrow> string" where
  "str_exc (KeyError k) = quoted k"
| "str_exc (TypeError m) = m"
| "str_exc (AttributeError m) = m"
| "str_exc (ValidationError title detail) = title @ [CHR 0x0A] @ detail"
| "str_exc (Raised m) = m"

text \<open>Sequencing of a computation that may raise: the first exception wins.\<close>

definition and_then :: "pyexc + 'a \<Rightarrow> ('a \<Rightarrow> pyexc + 'b) \<Rightarrow> pyexc + 'b" where
  "and_then r f = (case r of Inl e \<Rightarrow> Inl e | Inr x \<Rightarrow> f x)"

text \<open>\<open>sep.join(parts)\<close>\<close>

fun join_with :: "string \<Rightarrow> string list \<Rightarrow> string" where
  "join_with sep [] = []"
| "join_with sep [s] = s"
| "join_with sep (s # t # ts) = s @ sep @ join_with sep (t # ts)"

text \<open>Truth value of an object in a condition (\<open>if x:\<close>, \<open>x or y\<close>).\<close>

fun truthy :: "pyval \<Rightarrow> bool" where
  "truthy PNone = False"
| "truthy (PBool b) = b"
| "truthy (PInt n) = (n \<noteq> 0)"
| "truthy (PFloat r) = (r \<noteq> 0)"
| "truthy (PStr s) = (s \<noteq> [])"
| "truthy (PDatetime d) = True"
| "truthy (PList xs) = (xs \<noteq> [])"
| "truthy (PDict kvs) = (kvs \<noteq> [])"

text \<open>\<open>d.get(k)\<close>, \<open>d.get(k, default)\<close> and \<open>d[k]\<close>.\<close>

definition dict_get :: "pydict \<Rightarrow> string \<Rightarrow> pyval" where
  "dict_get d k = (case map_of d k of None \<Rightarrow> PNone | Some v \<Rightarrow> v)"

definition dict_get_default :: "pydict \<Rightarrow> string \<Rightarrow> pyval \<Rightarrow> pyval" where
  "dict_get_default d k dflt = (case map_of d k of None \<Rightarrow> dflt | Some v \<Rightarrow> v)"

definition dict_item :: "pydict \<Rightarrow> string \<Rightarrow> pyexc + pyval" where
  "dict_item d k = (case map_of d k of None \<Rightarrow> Inl (KeyError k) | Some v \<Rightarrow> Inr v)"

fun type_name :: "pyval \<Rightarrow> string" where
  "type_name PNone = ''NoneType''"
| "type_name (PBool b) = ''bool''"
| "type_name (PInt n) = ''int''"
| "type_name (PFloat r) = ''float''"
| "type_name (PStr s) = ''str''"
| "type_name (PDatetime d) = ''datetime.datetime''"
| "type_name (PList xs) = ''list''"
| "type_name (PDict kvs) = ''dict''"

text \<open>The numeric value of an \<open>int\<close>, \<open>bool\<close> or \<open>float\<close> object; nothing else
  compares with or adds to an \<open>int\<close>.\<close>

fun num_of :: "pyval \<Rightarrow> real option" where
  "num_of (PBool b) = Some (if b then 1 else 0)"
| "num_of (PInt n) = Some (of_int n)"
| "num_of (PFloat r) = Some r"
| "num_of v = None"

text \<open>\<open>min(a, b)\<close> with \<open>b\<close> an \<open>int\<close>: the builtin keeps \<open>a\<close> unless \<open>b < a\<close>,
  and \<open>b < a\<close> raises \<open>TypeError\<close> when \<open>a\<close> is not a number.\<close>

definition py_min_int :: "pyval \<Rightarrow> int \<Rightarrow> pyexc + pyval" where
  "py_min_int a b =
     (case num_of a of
        None \<Rightarrow> Inl (TypeError (quoted ''<'' @ '' not supported between instances of ''
                        @ quoted ''int'' @ '' and '' @ quoted (type_name a)))
      | Some x \<Rightarrow> Inr (if of_int b < x then PInt b else a))"

text \<open>\<open>a + 1\<close>: a number is added to; a \<open>str\<close> and a \<open>list\<close> take \<open>+\<close> for
  concatenation and refuse the \<open>int\<close>; the other types have no \<open>+\<close>.\<close>

fun py_add_one :: "pyval \<Rightarrow> pyexc + pyval" where
  "py_add_one (PBool b) = Inr (PInt ((if b then 1 else 0) + 1))"
| "py_add_one (PInt n) = Inr (PInt (n + 1))"
| "py_add_one (PFloat r) = Inr (PFloat (r + 1))"
| "py_add_one (PStr s) = Inl (TypeError (''can only concatenate str (not '' @ [CHR 0x22] @ ''int''
                        @ [CHR 0x22] @ '') to str''))"
| "py_add_one (PList xs) = Inl (TypeError (''can only concatenate list (not '' @ [CHR 0x22]
                        @ ''int'' @ [CHR 0x22] @ '') to list''))"
| "py_add_one v = Inl (TypeError (''unsupported operand type(s) for +: '' @ quoted (type_name v)
                        @ '' and '' @ quoted ''int''))"

text \<open>\<open>xs[:k]\<close>: a negative \<open>k\<close> counts from the end, \<open>None\<close> keeps everything, a
  \<open>bool\<close> is an index, anything else is a \<open>TypeError\<close>.\<close>

definition slice_int :: "'a list \<Rightarrow> int \<Rightarrow> 'a list" where
  "slice_int xs k = (if 0 \<le> k then take (nat k) xs else take (length xs - nat (- k)) xs)"

fun py_slice_to :: "'a list \<Rightarrow> pyval \<Rightarrow> pyexc + 'a list" where
  "py_slice_to xs PNone = Inr xs"
| "py_slice_to xs (PBool b) = Inr (slice_int xs (if b then 1 else 0))"
| "py_slice_to xs (PInt k) = Inr (slice_int xs k)"
| "py_slice_to xs v =
     Inl (TypeError ''slice indices must be integers or None or have an __index__ method'')"

text \<open>\<open>round(x, ndigits)\<close>: to the nearest multiple of \<open>10 ^ - ndigits\<close>, a tie going
  to the even one. CPython rounds the exact value of the double \<open>x\<close> in this way and
  returns the double nearest to the decimal found; the model, whose \<open>x\<close> is that exact
  value, keeps the decimal itself. (The literal \<open>0.30015\<close> denotes a double just below
  the tie, which rounds to 0.3001; the real number 0.30015 is a tie and no double.)\<close>

definition round_half_even :: "real \<Rightarrow> int" where
  "round_half_even y =
     (let f = \<lfloor>y\<rfloor>; d = y - of_int f
      in if d < 1/2 then f else if 1/2 < d then f + 1 else if even f then f else f + 1)"

definition py_round :: "real \<Rightarrow> nat \<Rightarrow> real" where
  "py_round x ndigits = of_int (round_half_even (x * 10 ^ ndigits)) / 10 ^ ndigits"

section \<open>The catalog store (models.py, schemas.py)\<close>

text \<open>A row of \<open>products\<close>, with every field \<open>ProductResponse\<close> requires present.
  \<open>ProductResponse\<close> has the same fields (without \<open>updated_at\<close>), and
  \<open>ProductResponse.model_validate\<close> copies them. A \<open>DateTime\<close> column of a product or
  an order is written as its ISO text, so \<open>isoformat()\<close> returns the field; the
  \<open>created_at\<close> of a message, which the history is ordered by, is a point on the clock.\<close>

record Product =
  p_id :: int
  p_name :: string
  p_description :: "string option"
  p_price :: real
  p_category :: string
  p_brand :: "string option"
  p_image_url :: "string option"
  p_stock_quantity :: int
  p_is_active :: bool
  p_created_at :: string

type_synonym ProductResponse = Product

definition model_validate :: "Product \<Rightarrow> ProductResponse" where
  "model_validate p = p"

record Order =
  o_id :: int
  o_user_id :: int
  o_total_amount :: real
  o_status :: string
  o_shipping_address :: string
  o_created_at :: string

record ConversationSession =
  s_id :: string
  s_user_id :: "int option"
  s_is_active :: bool

record ConversationMessage =
  m_id :: int
  m_session_id :: string
  m_role :: string
  m_content :: string
  m_intent :: "string option"
  m_entities :: "pyval option"
  m_tool_calls :: "pyval option"
  m_tool_results :: "pyval option"
  m_created_at :: int

text \<open>The database session \<open>db\<close>: the four tables the agent touches, each in insertion
  order, and the driver behind the session. The database is whatever \<open>database_url\<close>
  names (SQLite unless configured), and it is the driver that decides what the comparison
  \<open>Column == v\<close> of an \<open>Integer\<close> column with a bound Python value \<open>v\<close> selects:
  \<open>bind_id v\<close> is the exception raised for a value the driver does not bind, or else the
  test on the column that the comparison amounts to. \<open>content_null_error\<close> is the text of
  the exception raised when a message without content is committed. Apart from these two
  a query is a read of the table and a commit an append to it.\<close>

record Session =
  products :: "Product list"
  orders :: "Order list"
  conversation_sessions :: "ConversationSession list"
  conversation_messages :: "ConversationMessage list"
  bind_id :: "pyval \<Rightarrow> pyexc + (int \<Rightarrow> bool)"
  content_null_error :: string

text \<open>Python's \<open>n == v\<close> for an \<open>int\<close> \<open>n\<close>: numbers compare by value (\<open>True\<close> is
  1, \<open>1 == 1.0\<close>), and a value that is no number, the text of a number included, is
  different from every \<open>int\<close>.\<close>

definition int_eq :: "int \<Rightarrow> pyval \<Rightarrow> bool" where
  "int_eq n v = (case num_of v of None \<Rightarrow> False | Some x \<Rightarrow> of_int n = x)"

text \<open>\<open>db.query(Product).filter(Product.id == v).first()\<close> and the same query on
  \<open>Order\<close>: the first row the driver's test selects, or the driver's exception.\<close>

definition product_by_id :: "Session \<Rightarrow> pyval \<Rightarrow> pyexc + Product option" where
  "product_by_id db v =
     and_then (bind_id db v) (\<lambda>selected. Inr (find (\<lambda>p. selected (p_id p)) (products db)))"

definition order_by_id :: "Session \<Rightarrow> pyval \<Rightarrow> pyexc + Order option" where
  "order_by_id db v =
     and_then (bind_id db v) (\<lambda>selected. Inr (find (\<lambda>ord. selected (o_id ord)) (orders db)))"

text \<open>\<open>db.query(Product).filter(Product.id == v, Product.is_active == True).first()\<close>\<close>

definition active_product_by_id :: "Session \<Rightarrow> pyval \<Rightarrow> pyexc + Product option" where
  "active_product_by_id db v =
     and_then (bind_id db v)
       (\<lambda>selected. Inr (find (\<lambda>p. selected (p_id p) \<and> p_is_active p) (products db)))"

text \<open>\<open>db.query(Order).filter(Order.user_id == user_id).all()\<close>\<close>

definition orders_of_user :: "Session \<Rightarrow> int \<Rightarrow> pyexc + Order list" where
  "orders_of_user db uid =
     and_then (bind_id db (PInt uid))
       (\<lambda>selected. Inr (filter (\<lambda>ord. selected (o_user_id ord)) (orders db)))"

section \<open>Semantic retrieval (pinecone_service.py)\<close>

record SearchResult =
  product :: ProductResponse
  similarity :: real


text \<open>A match of the vector index: the vector id is the decimal text of a product id
  (\<open>index_product\<close> writes \<open>str(product.id)\<close>), so \<open>int(match.id)\<close> is that id.\<close>

record Match =
  match_id :: int
  match_score :: real

record QueryParams =
  vector :: "real list"
  top_k :: pyval
  include_metadata :: bool
  filter_dict :: "pydict option"

text \<open>The collaborators of the service: the sentence-embedding model, the index, the
  configured default threshold (\<open>settings.search_min_score\<close>, 0.3 unless configured),
  the text Python prints for a float, and the lines pydantic prints below the title of
  the \<open>ValidationError\<close> for a similarity outside [0,1].\<close>

record PineconeService =
  encode :: "pyval \<Rightarrow> pyexc + real list"
  index_query :: "QueryParams \<Rightarrow> pyexc + Match list"
  default_min_score :: real
  float_str :: "real \<Rightarrow> string"
  similarity_detail :: "real \<Rightarrow> string"

text \<open>The constructor of \<open>SearchResult\<close> validates \<open>similarity\<close> against
  \<open>ge=0, le=1\<close>.\<close>

definition new_SearchResult ::
  "PineconeService \<Rightarrow> ProductResponse \<Rightarrow> real \<Rightarrow> pyexc + SearchResult" where
  "new_SearchResult svc p s =
     (if 0 \<le> s \<and> s \<le> 1 then Inr \<lparr>product = p, similarity = s\<rparr>
      else Inl (ValidationError ''1 validation error for SearchResult''
                  (similarity_detail svc s)))"

definition product_to_text :: "PineconeService \<Rightarrow> Product \<Rightarrow> string" where
  "product_to_text svc p =
     (let parts = [p_name p,
                   (case p_description p of None \<Rightarrow> [] | Some d \<Rightarrow> d),
                   p_category p,
                   (case p_brand p of None \<Rightarrow> [] | Some b \<Rightarrow> b),
                   ''price $'' @ float_str svc (p_price p)]
      in join_with '' '' (filter (\<lambda>s. s \<noteq> []) parts))"

definition build_filter :: "pyval \<Rightarrow> pyval \<Rightarrow> pyval \<Rightarrow> pydict option" where
  "build_filter category_filter min_price max_price =
     (let d1 = (if truthy category_filter
                then [(''category'', PDict [(''$eq'', category_filter)])] else []);
          d2 = (if min_price \<noteq> PNone \<and> max_price \<noteq> PNone
                then d1 @ [(''price'', PDict [(''$gte'', min_price), (''$lte'', max_price)])]
                else if min_price \<noteq> PNone
                then d1 @ [(''price'', PDict [(''$gte'', min_price)])]
                else if max_price \<noteq> PNone
                then d1 @ [(''price'', PDict [(''$lte'', max_price)])]
                else d1)
      in if d2 \<noteq> [] then Some d2 else None)"

text \<open>The loop over \<open>results.matches\<close>; an exception of the query for the product or
  of the \<open>SearchResult\<close> constructor leaves the loop and the function.\<close>

fun format_results ::
  "PineconeService \<Rightarrow> Session \<Rightarrow> real \<Rightarrow> Match list \<Rightarrow> pyexc + SearchResult list" where
  "format_results svc db min_score [] = Inr []"
| "format_results svc db min_score (m # ms) =
     (if min_score \<le> match_score m then
        and_then (product_by_id db (PInt (match_id m))) (\<lambda>found.
          case found of
            Some p \<Rightarrow>
              if p_is_active p then
                and_then (new_SearchResult svc (model_validate p) (py_round (match_score m) 4))
                  (\<lambda>r. and_then (format_results svc db min_score ms) (\<lambda>rs. Inr (r # rs)))
              else format_results svc db min_score ms
          | None \<Rightarrow> format_results svc db min_score ms)
      else format_results svc db min_score ms)"

definition effective_min_score :: "PineconeService \<Rightarrow> real option \<Rightarrow> real" where
  "effective_min_score svc min_score_arg =
     (case min_score_arg of None \<Rightarrow> default_min_score svc | Some s \<Rightarrow> s)"

definition search ::
  "PineconeService \<Rightarrow> pyval \<Rightarrow> Session \<Rightarrow> pyval \<Rightarrow> pyval \<Rightarrow> pyval \<Rightarrow> pyval \<Rightarrow> real option
     \<Rightarrow> pyexc + SearchResult list" where
  "search svc query db topk category_filter min_price max_price min_score_arg =
     (let min_score = effective_min_score svc min_score_arg
      in and_then (encode svc query) (\<lambda>query_embedding.
           let flt = build_filter category_filter min_price max_price;
               query_params = \<lparr>vector = query_embedding, top_k = topk,
                                include_metadata = True, filter_dict = flt\<rparr>
           in and_then (index_query svc query_params) (\<lambda>matches.
                format_results svc db min_score matches)))"

text \<open>\<open>find_similar_products\<close>: the query for the source product is the driver's
  comparison, the exclusion \<open>r.product.id != product_id\<close> is Python's.\<close>

definition find_similar_products ::
  "PineconeService \<Rightarrow> pyval \<Rightarrow> Session \<Rightarrow> pyval \<Rightarrow> pyexc + SearchResult list" where
  "find_similar_products svc product_id db topk =
     and_then (product_by_id db product_id) (\<lambda>found.
       case found of
         None \<Rightarrow> Inr []
       | Some p \<Rightarrow>
           and_then (py_add_one topk) (\<lambda>k1.
           and_then (search svc (PStr (product_to_text svc p)) db k1 PNone PNone PNone (Some 0.2))
             (\<lambda>results.
                py_slice_to (filter (\<lambda>r. \<not> int_eq (p_id (product r)) product_id) results)
                  topk)))"

section \<open>Language-model gateway (groq_service.py, schemas.py)\<close>

datatype Intent =
    PRODUCT_SEARCH | PRODUCT_RECOMMENDATION | PRODUCT_DETAILS | ORDER_HELP | ORDER_STATUS
  | GENERAL_QUESTION | GREETING | FAREWELL | COMPLAINT | UNKNOWN

fun intent_value :: "Intent \<Rightarrow> string" where
  "intent_value PRODUCT_SEARCH = ''product_search''"
| "intent_value PRODUCT_RECOMMENDATION = ''product_recommendation''"
| "intent_value PRODUCT_DETAILS = ''product_details''"
| "intent_value ORDER_HELP = ''order_help''"
| "intent_value ORDER_STATUS = ''order_status''"
| "intent_value GENERAL_QUESTION = ''general_question''"
| "intent_value GREETING = ''greeting''"
| "intent_value FAREWELL = ''farewell''"
| "intent_value COMPLAINT = ''complaint''"
| "intent_value UNKNOWN = ''unknown''"

text \<open>\<open>Intent(v)\<close>: the member whose value is \<open>v\<close>; \<open>None\<close> stands for the
  \<open>ValueError\<close> of a value that is no member.\<close>

definition Intent_of :: "pyval \<Rightarrow> Intent option" where
  "Intent_of v =
     (case v of
        PStr s \<Rightarrow>
          find (\<lambda>i. intent_value i = s)
            [PRODUCT_SEARCH, PRODUCT_RECOMMENDATION, PRODUCT_DETAILS, ORDER_HELP, ORDER_STATUS,
             GENERAL_QUESTION, GREETING, FAREWELL, COMPLAINT, UNKNOWN]
      | _ \<Rightarrow> None)"

record ExtractedEntities =
  product_names :: "string list option"
  categories :: "string list option"
  brands :: "string list option"
  price_min :: "real option"
  price_max :: "real option"
  order_id :: "int option"
  quantity :: "int option"
  attributes :: "pydict option"

text \<open>\<open>ExtractedEntities()\<close>\<close>

definition no_entities :: ExtractedEntities where
  "no_entities =
     \<lparr>product_names = None, categories = None, brands = None, price_min = None,
      price_max = None, order_id = None, quantity = None, attributes = None\<rparr>"

definition opt_val :: "('a \<Rightarrow> pyval) \<Rightarrow> 'a option \<Rightarrow> pyval" where
  "opt_val f x = (case x of None \<Rightarrow> PNone | Some y \<Rightarrow> f y)"

definition entities_model_dump :: "ExtractedEntities \<Rightarrow> pydict" where
  "entities_model_dump e =
     [(''product_names'', opt_val (\<lambda>xs. PList (map PStr xs)) (product_names e)),
      (''categories'', opt_val (\<lambda>xs. PList (map PStr xs)) (categories e)),
      (''brands'', opt_val (\<lambda>xs. PList (map PStr xs)) (brands e)),
      (''price_min'', opt_val PFloat (price_min e)),
      (''price_max'', opt_val PFloat (price_max e)),
      (''order_id'', opt_val PInt (order_id e)),
      (''quantity'', opt_val PInt (quantity e)),
      (''attributes'', opt_val PDict (attributes e))]"

record IntentClassificationResult =
  intent :: Intent
  confidence :: real
  entities :: ExtractedEntities
  requires_clarification :: bool
  clarification_question :: "string option"

record ChatMessage =
  msg_role :: string
  msg_content :: string

record ToolCallRequest =
  tcr_call_id :: string
  tcr_tool_name :: string
  tcr_arguments :: pydict

record LLMResponse =
  content :: string
  tool_calls :: "ToolCallRequest list option"

text \<open>What the chat-completion provider is asked and what it answers
  (\<open>response.choices[0].message\<close>); a missing \<open>tool_calls\<close> is the empty list.\<close>

record ChatRequest =
  req_messages :: "ChatMessage list"
  req_temperature :: real
  req_max_tokens :: int
  req_json_mode :: bool
  req_tools :: bool

record ProviderToolCall =
  tc_id :: string
  tc_function_name :: string
  tc_function_arguments :: string

record ProviderMessage =
  pm_content :: "string option"
  pm_tool_calls :: "ProviderToolCall list"

text \<open>The collaborators of the gateway. \<open>create n\<close> is the \<open>n\<close>-th chat-completion call of
  the turn (the provider may answer the same request differently each time); \<open>Inl\<close> is any
  exception raised on the way to \<open>response.choices[0].message\<close>. The other fields are the
  library functions the gateway and the agent call: \<open>json.loads\<close>,
  \<open>json.dumps(..., default=str)\<close> with and without \<open>indent=2\<close>, \<open>str\<close>, \<open>float\<close>,
  the validation pydantic applies to the fields of \<open>ExtractedEntities\<close> and
  \<open>IntentClassificationResult\<close>, and the lines it prints below the title of a
  \<open>ValidationError\<close> of the model named, for the input refused.\<close>

record GroqLLMService =
  create :: "nat \<Rightarrow> ChatRequest \<Rightarrow> pyexc + ProviderMessage"
  max_tokens :: int
  json_loads :: "string \<Rightarrow> pyexc + pyval"
  json_dumps :: "pyval \<Rightarrow> string"
  json_dumps_indent :: "pyval \<Rightarrow> string"
  py_str :: "pyval \<Rightarrow> string"
  py_float :: "pyval \<Rightarrow> pyexc + real"
  entities_validate :: "pyval \<Rightarrow> pyexc + ExtractedEntities"
  bool_validate :: "pyval \<Rightarrow> pyexc + bool"
  opt_str_validate :: "pyval \<Rightarrow> pyexc + string option"
  validation_detail :: "string \<Rightarrow> pyval \<Rightarrow> string"

text \<open>\<open>xs[-n:]\<close>\<close>

definition last_n :: "nat \<Rightarrow> 'a list \<Rightarrow> 'a list" where
  "last_n n xs = drop (length xs - n) xs"

text \<open>The history entries are dictionaries with both keys \<open>role\<close> and \<open>content\<close>
  (\<open>_get_conversation_history\<close> and the tool loop build them so), so the defaults of
  \<open>msg.get\<close> are never used.\<close>

definition build_messages ::
  "string \<Rightarrow> string \<Rightarrow> ChatMessage list \<Rightarrow> string option \<Rightarrow> ChatMessage list" where
  "build_messages system_prompt user_message conversation_history tool_context =
     [\<lparr>msg_role = ''system'', msg_content = system_prompt\<rparr>]
     @ last_n 10 conversation_history
     @ (case tool_context of
          None \<Rightarrow> []
        | Some t \<Rightarrow> if t \<noteq> [] then [\<lparr>msg_role = ''system'', msg_content = t\<rparr>] else [])
     @ [\<lparr>msg_role = ''user'', msg_content = user_message\<rparr>]"

definition classify_system_prompt :: string where
  "classify_system_prompt = join_with [CHR 0x0A]
       [''You are an intent classification system for an e-commerce shopping platform.'',
        [],
        ''Analyze the user message and respond with a JSON object containing:'',
        ''1. '' @ [CHR 0x22] @ ''intent'' @ [CHR 0x22] @ '': One of these exact values:'',
        ''   - '' @ [CHR 0x22] @ ''product_search'' @ [CHR 0x22] @ '' - User wants to find/search for products'',
        ''   - '' @ [CHR 0x22] @ ''product_recommendation'' @ [CHR 0x22] @ '' - User wants suggestions/recommendations'',
        ''   - '' @ [CHR 0x22] @ ''product_details'' @ [CHR 0x22] @ '' - User asks about a specific product'',
        ''   - '' @ [CHR 0x22] @ ''order_help'' @ [CHR 0x22] @ '' - User needs help with orders'',
        ''   - '' @ [CHR 0x22] @ ''order_status'' @ [CHR 0x22] @ '' - User wants to check order status'',
        ''   - '' @ [CHR 0x22] @ ''general_question'' @ [CHR 0x22] @ '' - General questions about the store'',
        ''   - '' @ [CHR 0x22] @ ''greeting'' @ [CHR 0x22] @ '' - Hello, hi, etc.'',
        ''   - '' @ [CHR 0x22] @ ''farewell'' @ [CHR 0x22] @ '' - Goodbye, thanks, etc.'',
        ''   - '' @ [CHR 0x22] @ ''complaint'' @ [CHR 0x22] @ '' - User is unhappy or complaining'',
        ''   - '' @ [CHR 0x22] @ ''unknown'' @ [CHR 0x22] @ '' - Cannot determine intent'',
        [],
        ''2. '' @ [CHR 0x22] @ ''confidence'' @ [CHR 0x22] @ '': A float between 0.0 and 1.0 indicating how confident you are'',
        [],
        ''3. '' @ [CHR 0x22] @ ''entities'' @ [CHR 0x22] @ '': An object that may contain:'',
        ''   - '' @ [CHR 0x22] @ ''product_names'' @ [CHR 0x22] @ '': Array of product names mentioned'',
        ''   - '' @ [CHR 0x22] @ ''categories'' @ [CHR 0x22] @ '': Array of categories (e.g., '' @ [CHR 0x22] @ ''electronics'' @ [CHR 0x22] @ '', '' @ [CHR 0x22] @ ''clothing'' @ [CHR 0x22] @ '', '' @ [CHR 0x22] @ ''shoes'' @ [CHR 0x22] @ '')'',
        ''   - '' @ [CHR 0x22] @ ''brands'' @ [CHR 0x22] @ '': Array of brand names mentioned'',
        ''   - '' @ [CHR 0x22] @ ''price_min'' @ [CHR 0x22] @ '': Minimum price if mentioned (number)'',
        ''   - '' @ [CHR 0x22] @ ''price_max'' @ [CHR 0x22] @ '': Maximum price if mentioned (number)'',
        ''   - '' @ [CHR 0x22] @ ''order_id'' @ [CHR 0x22] @ '': Order ID if mentioned (number)'',
        ''   - '' @ [CHR 0x22] @ ''quantity'' @ [CHR 0x22] @ '': Quantity if mentioned (number)'',
        ''   - '' @ [CHR 0x22] @ ''attributes'' @ [CHR 0x22] @ '': Object with other attributes (color, size, etc.)'',
        [],
        ''4. '' @ [CHR 0x22] @ ''requires_clarification'' @ [CHR 0x22] @ '': Boolean, true if the intent is unclear'',
        [],
        ''5. '' @ [CHR 0x22] @ ''clarification_question'' @ [CHR 0x22] @ '': If requires_clarification is true, suggest a question to ask'',
        [],
        ''Respond ONLY with valid JSON, no other text.'']"

definition classify_request :: "string \<Rightarrow> ChatMessage list \<Rightarrow> ChatRequest" where
  "classify_request message conversation_history =
     \<lparr>req_messages =
        [\<lparr>msg_role = ''system'', msg_content = classify_system_prompt\<rparr>]
        @ last_n 5 conversation_history
        @ [\<lparr>msg_role = ''user'', msg_content = ''Classify this message: '' @ message\<rparr>],
      req_temperature = 1/10, req_max_tokens = 1000, req_json_mode = True, req_tools = False\<rparr>"

text \<open>\<open>result.get(key, default)\<close> on the parsed JSON: an \<open>AttributeError\<close> unless it is
  an object.\<close>

definition py_get :: "pyval \<Rightarrow> string \<Rightarrow> pyval \<Rightarrow> pyexc + pyval" where
  "py_get v k dflt =
     (case v of
        PDict d \<Rightarrow> Inr (dict_get_default d k dflt)
      | _ \<Rightarrow> Inl (AttributeError (quoted (type_name v) @ '' object has no attribute ''
                      @ quoted ''get'')))"

definition classification_fallback :: IntentClassificationResult where
  "classification_fallback =
     \<lparr>intent = UNKNOWN, confidence = 0, entities = no_entities, requires_clarification = True,
      clarification_question =
        Some (''I'' @ [CHR 0x27]
              @ ''m not sure I understood that. Could you please rephrase?'')\<rparr>"

text \<open>The body of the \<open>try\<close> block of \<open>classify_intent\<close>.\<close>

definition classify_intent_body ::
  "GroqLLMService \<Rightarrow> nat \<Rightarrow> string \<Rightarrow> ChatMessage list
     \<Rightarrow> pyexc + IntentClassificationResult" where
  "classify_intent_body llm n message conversation_history =
     and_then (create llm n (classify_request message conversation_history)) (\<lambda>pm.
     and_then (case pm_content pm of
                 None \<Rightarrow> Inl (TypeError (''the JSON object must be str, bytes or bytearray, ''
                                           @ ''not NoneType''))
               | Some c \<Rightarrow> json_loads llm c) (\<lambda>res.
     and_then (py_get res ''intent'' (PStr ''unknown'')) (\<lambda>intent_str.
     let intent_parsed = (case Intent_of intent_str of Some i \<Rightarrow> i | None \<Rightarrow> UNKNOWN) in
     and_then (py_get res ''entities'' (PDict [])) (\<lambda>entities_data.
     and_then (entities_validate llm entities_data) (\<lambda>ents.
     and_then (py_get res ''confidence'' (PFloat (1/2))) (\<lambda>conf_raw.
     and_then (py_float llm conf_raw) (\<lambda>conf.
     and_then (py_get res ''requires_clarification'' (PBool False)) (\<lambda>rc_raw.
     and_then (py_get res ''clarification_question'' PNone) (\<lambda>cq_raw.
     and_then (bool_validate llm rc_raw) (\<lambda>rc.
     and_then (opt_str_validate llm cq_raw) (\<lambda>cq.
       Inr \<lparr>intent = intent_parsed, confidence = conf, entities = ents,
            requires_clarification = rc, clarification_question = cq\<rparr>)))))))))))"

definition classify_intent ::
  "GroqLLMService \<Rightarrow> nat \<Rightarrow> string \<Rightarrow> ChatMessage list \<Rightarrow> IntentClassificationResult" where
  "classify_intent llm n message conversation_history =
     (case classify_intent_body llm n message conversation_history of
        Inl e \<Rightarrow> classification_fallback
      | Inr r \<Rightarrow> r)"

text \<open>\<open>generate_response\<close>. The tool context is built before the \<open>try\<close> block, so an
  exception of \<open>result['tool_name']\<close> or \<open>result['result']\<close> leaves the function; a
  failure of the provider call gives the apology. The provider's text may be absent
  (\<open>None\<close>).\<close>

definition py_item :: "pyval \<Rightarrow> string \<Rightarrow> pyexc + pyval" where
  "py_item v k =
     (case v of
        PDict d \<Rightarrow> dict_item d k
      | _ \<Rightarrow> Inl (TypeError (quoted (type_name v) @ '' object is not subscriptable'')))"

fun tool_context_of :: "GroqLLMService \<Rightarrow> string \<Rightarrow> pyval list \<Rightarrow> pyexc + string" where
  "tool_context_of llm acc [] = Inr acc"
| "tool_context_of llm acc (r # rs) =
     and_then (py_item r ''tool_name'') (\<lambda>name.
     and_then (py_item r ''result'') (\<lambda>res.
       tool_context_of llm
         (acc @ ''**'' @ py_str llm name @ ''**:'' @ [CHR 0x0A, CHR 0x60, CHR 0x60, CHR 0x60]
              @ ''json'' @ [CHR 0x0A] @ json_dumps_indent llm res
              @ [CHR 0x0A, CHR 0x60, CHR 0x60, CHR 0x60, CHR 0x0A, CHR 0x0A])
         rs))"

definition apology :: string where
  "apology = ''I apologize, but I encountered an error processing your request. ''
             @ ''Please try again.''"

definition generate_response ::
  "GroqLLMService \<Rightarrow> nat \<Rightarrow> string \<Rightarrow> string \<Rightarrow> ChatMessage list \<Rightarrow> pyval list
     \<Rightarrow> pyexc + string option" where
  "generate_response llm n message system_prompt conversation_history tool_results =
     and_then
       (if tool_results \<noteq> [] then
          and_then
            (tool_context_of llm
               (''Here are the results from the tools I used to help answer your question:''
                @ [CHR 0x0A, CHR 0x0A]) tool_results)
            (\<lambda>t. Inr (Some t))
        else Inr None)
       (\<lambda>tool_context.
          case create llm n
                 \<lparr>req_messages = build_messages system_prompt message conversation_history
                                   tool_context,
                  req_temperature = 7/10, req_max_tokens = max_tokens llm,
                  req_json_mode = False, req_tools = False\<rparr> of
            Inl e \<Rightarrow> Inr (Some apology)
          | Inr pm \<Rightarrow> Inr (pm_content pm))"

text \<open>\<open>call_with_tools\<close>: the loop over the provider's tool calls parses each argument
  text; \<open>ToolCallRequest\<close> accepts only a JSON object as \<open>arguments\<close>.\<close>

fun tool_call_requests ::
  "GroqLLMService \<Rightarrow> ProviderToolCall list \<Rightarrow> pyexc + ToolCallRequest list" where
  "tool_call_requests llm [] = Inr []"
| "tool_call_requests llm (tc # tcs) =
     and_then (json_loads llm (tc_function_arguments tc)) (\<lambda>args.
     and_then (case args of
                 PDict d \<Rightarrow> Inr \<lparr>tcr_call_id = tc_id tc, tcr_tool_name = tc_function_name tc,
                                  tcr_arguments = d\<rparr>
               | _ \<Rightarrow> Inl (ValidationError ''1 validation error for ToolCallRequest''
                             (validation_detail llm ''ToolCallRequest'' args))) (\<lambda>req.
     and_then (tool_call_requests llm tcs) (\<lambda>reqs. Inr (req # reqs))))"

definition tools_request ::
  "GroqLLMService \<Rightarrow> string \<Rightarrow> string \<Rightarrow> ChatMessage list \<Rightarrow> ChatRequest" where
  "tools_request llm message system_prompt conversation_history =
     \<lparr>req_messages = build_messages system_prompt message conversation_history None,
      req_temperature = 7/10, req_max_tokens = max_tokens llm,
      req_json_mode = False, req_tools = True\<rparr>"

definition call_with_tools_body ::
  "GroqLLMService \<Rightarrow> nat \<Rightarrow> string \<Rightarrow> string \<Rightarrow> ChatMessage list \<Rightarrow> pyexc + LLMResponse" where
  "call_with_tools_body llm n message system_prompt conversation_history =
     and_then
       (create llm n (tools_request llm message system_prompt conversation_history))
       (\<lambda>response_message.
          if pm_tool_calls response_message \<noteq> [] then
            and_then (tool_call_requests llm (pm_tool_calls response_message))
              (\<lambda>tcs. Inr \<lparr>content = [], tool_calls = Some tcs\<rparr>)
          else
            Inr \<lparr>content = (case pm_content response_message of None \<Rightarrow> [] | Some c \<Rightarrow> c),
                 tool_calls = None\<rparr>)"

definition call_with_tools ::
  "GroqLLMService \<Rightarrow> nat \<Rightarrow> string \<Rightarrow> string \<Rightarrow> ChatMessage list \<Rightarrow> LLMResponse" where
  "call_with_tools llm n message system_prompt conversation_history =
     (case call_with_tools_body llm n message system_prompt conversation_history of
        Inl e \<Rightarrow> \<lparr>content = ''I encountered an error: '' @ str_exc e, tool_calls = None\<rparr>
      | Inr r \<Rightarrow> r)"

section \<open>Tool execution (agent_service.py)\<close>

record ToolResult =
  call_id :: string
  tool_name :: string
  result :: pyval
  success :: bool
  error_message :: "string option"

text \<open>\<open>ProductResponse.model_dump()\<close>: the fields in declaration order; \<open>created_at\<close>
  stays a \<open>datetime\<close> object.\<close>

definition product_model_dump :: "ProductResponse \<Rightarrow> pydict" where
  "product_model_dump p =
     [(''name'', PStr (p_name p)),
      (''description'', (case p_description p of None \<Rightarrow> PNone | Some d \<Rightarrow> PStr d)),
      (''price'', PFloat (p_price p)),
      (''category'', PStr (p_category p)),
      (''brand'', (case p_brand p of None \<Rightarrow> PNone | Some b \<Rightarrow> PStr b)),
      (''image_url'', (case p_image_url p of None \<Rightarrow> PNone | Some u \<Rightarrow> PStr u)),
      (''stock_quantity'', PInt (p_stock_quantity p)),
      (''id'', PInt (p_id p)),
      (''is_active'', PBool (p_is_active p)),
      (''created_at'', PDatetime (p_created_at p))]"

definition search_result_to_dict :: "SearchResult \<Rightarrow> pyval" where
  "search_result_to_dict r =
     PDict (product_model_dump (product r) @ [(''similarity'', PFloat (similarity r))])"

definition list_result :: "string \<Rightarrow> string \<Rightarrow> SearchResult list \<Rightarrow> ToolResult" where
  "list_result cid tname results =
     \<lparr>call_id = cid, tool_name = tname, result = PList (map search_result_to_dict results),
      success = True, error_message = None\<rparr>"

definition failed_result :: "string \<Rightarrow> string \<Rightarrow> string \<Rightarrow> ToolResult" where
  "failed_result cid tname msg =
     \<lparr>call_id = cid, tool_name = tname, result = PNone, success = False,
      error_message = Some msg\<rparr>"

definition order_status_dict :: "Order \<Rightarrow> pyval" where
  "order_status_dict ord =
     PDict [(''order_id'', PInt (o_id ord)),
            (''status'', PStr (o_status ord)),
            (''total_amount'', PFloat (o_total_amount ord)),
            (''created_at'', PStr (o_created_at ord)),
            (''shipping_address'', PStr (o_shipping_address ord))]"

definition order_summary_dict :: "Order \<Rightarrow> pyval" where
  "order_summary_dict ord =
     PDict [(''order_id'', PInt (o_id ord)),
            (''status'', PStr (o_status ord)),
            (''total_amount'', PFloat (o_total_amount ord)),
            (''created_at'', PStr (o_created_at ord))]"

text \<open>The body of the \<open>try\<close> block of \<open>execute_tool\<close>: one branch per tool name, in the
  order of the \<open>if\<close>/\<open>elif\<close> chain. \<open>cid\<close> is the identifier drawn for the call
  (\<open>str(uuid.uuid4())[:8]\<close>).\<close>

definition execute_tool_body ::
  "PineconeService \<Rightarrow> string \<Rightarrow> string \<Rightarrow> pydict \<Rightarrow> Session \<Rightarrow> int option
     \<Rightarrow> pyexc + ToolResult" where
  "execute_tool_body svc cid tname arguments db user_id =
     (if tname = ''search_products'' then
        and_then (py_min_int (dict_get_default arguments ''limit'' (PInt 5)) 10) (\<lambda>k.
        and_then (search svc (dict_get_default arguments ''query'' (PStr [])) db k
                    (dict_get arguments ''category'') (dict_get arguments ''min_price'')
                    (dict_get arguments ''max_price'') None)
          (\<lambda>results. Inr (list_result cid tname results)))
      else if tname = ''get_product_details'' then
        and_then
          (if truthy (dict_get arguments ''product_id'') then
             and_then (dict_item arguments ''product_id'') (active_product_by_id db)
           else if truthy (dict_get arguments ''product_name'') then
             and_then (dict_item arguments ''product_name'') (\<lambda>n.
             and_then (search svc n db (PInt 1) PNone PNone PNone None) (\<lambda>results.
               case results of
                 [] \<Rightarrow> Inr None
               | r # _ \<Rightarrow> product_by_id db (PInt (p_id (product r)))))
           else Inr None)
          (\<lambda>found. case found of
             Some p \<Rightarrow>
               Inr \<lparr>call_id = cid, tool_name = tname,
                    result = PDict (product_model_dump (model_validate p)),
                    success = True, error_message = None\<rparr>
           | None \<Rightarrow> Inr (failed_result cid tname ''Product not found''))
      else if tname = ''get_recommendations'' then
        and_then
          (if truthy (dict_get arguments ''product_id'') then
             and_then (dict_item arguments ''product_id'') (\<lambda>v.
               find_similar_products svc v db (dict_get_default arguments ''limit'' (PInt 5)))
           else if truthy (dict_get arguments ''preferences'')
                   \<or> truthy (dict_get arguments ''category'') then
             search svc
               (dict_get_default arguments ''preferences''
                  (dict_get_default arguments ''category'' (PStr [])))
               db (dict_get_default arguments ''limit'' (PInt 5))
               (dict_get arguments ''category'') PNone PNone None
           else
             Inr (map (\<lambda>p. \<lparr>product = model_validate p, similarity = 1\<rparr>)
                    (take 5 (filter p_is_active (products db)))))
          (\<lambda>results. Inr (list_result cid tname results))
      else if tname = ''check_order_status'' then
        and_then (dict_item arguments ''order_id'') (\<lambda>v.
        and_then (order_by_id db v) (\<lambda>found.
          case found of
            Some ord \<Rightarrow>
              Inr \<lparr>call_id = cid, tool_name = tname, result = order_status_dict ord,
                   success = True, error_message = None\<rparr>
          | None \<Rightarrow> Inr (failed_result cid tname ''Order not found'')))
      else if tname = ''get_user_orders'' then
        (case user_id of
           None \<Rightarrow> Inr (failed_result cid tname ''Please log in to view your orders'')
         | Some uid \<Rightarrow>
             if uid = 0 then
               Inr (failed_result cid tname ''Please log in to view your orders'')
             else
               and_then (orders_of_user db uid) (\<lambda>found.
                 Inr \<lparr>call_id = cid, tool_name = tname,
                      result = PList (map order_summary_dict found),
                      success = True, error_message = None\<rparr>))
      else
        Inr (failed_result cid tname (''Unknown tool: '' @ tname)))"

text \<open>\<open>execute_tool\<close>: the \<open>except Exception as e\<close> clause turns every exception of
  the body into a failed result carrying \<open>str(e)\<close>.\<close>

definition execute_tool ::
  "PineconeService \<Rightarrow> string \<Rightarrow> string \<Rightarrow> pydict \<Rightarrow> Session \<Rightarrow> int option \<Rightarrow> ToolResult" where
  "execute_tool svc cid tname arguments db user_id =
     (case execute_tool_body svc cid tname arguments db user_id of
        Inl e \<Rightarrow> failed_result cid tname (str_exc e)
      | Inr r \<Rightarrow> r)"

text \<open>The names registered in \<open>AgentToolkit.TOOLS\<close>.\<close>

definition TOOLS :: "string list" where
  "TOOLS = [''search_products'', ''get_product_details'', ''get_recommendations'',
            ''check_order_status'', ''get_user_orders'']"

text \<open>An index that refuses every request for more than \<open>n\<close> results and answers the
  others as \<open>svc\<close> does: running the agent against it shows whether such a request is
  ever made.\<close>

definition refusing_above :: "int \<Rightarrow> PineconeService \<Rightarrow> PineconeService" where
  "refusing_above n svc =
     svc\<lparr>index_query := (\<lambda>qp.
        case num_of (top_k qp) of
          Some x \<Rightarrow> if x \<le> of_int n then index_query svc qp
                    else Inl (Raised ''more results requested than the cap'')
        | None \<Rightarrow> index_query svc qp)\<rparr>"

section \<open>Conversation store and orchestrator (agent_service.py)\<close>

definition SYSTEM_PROMPT :: string where
  "SYSTEM_PROMPT = join_with [CHR 0x0A]
       [''You are an intelligent e-commerce shopping assistant for our online store.'',
        [],
        ''Your capabilities:'',
        ''1. Help customers search and discover products using semantic search'',
        ''2. Provide detailed product information and comparisons'',
        ''3. Give personalized recommendations based on preferences'',
        ''4. Help with order-related queries'',
        ''5. Answer general questions about the store'',
        [],
        ''Guidelines:'',
        ''- Be friendly, helpful, and concise'',
        ''- When searching for products, use the search_products tool'',
        ''- When users ask about specific products, get the details first'',
        ''- Provide relevant suggestions and follow-up questions'',
        ''- If you'' @ [CHR 0x27] @ ''re unsure, ask clarifying questions'',
        ''- Always format prices with $ and two decimal places'',
        ''- When showing products, mention key details: name, price, and relevant features'',
        [],
        ''You have access to tools - use them when needed to provide accurate, up-to-date information.'']"

text \<open>The values a turn draws from outside: the identifier of a new session, the uuid of
  the \<open>k\<close>-th tool execution of the turn, and the reading of \<open>datetime.utcnow\<close> when
  the row with a given id is inserted.\<close>

record Draws =
  session_uuid :: string
  call_uuid :: "nat \<Rightarrow> string"
  utcnow :: "int \<Rightarrow> int"

definition get_or_create_session ::
  "Draws \<Rightarrow> Session \<Rightarrow> string option \<Rightarrow> int option \<Rightarrow> Session \<times> ConversationSession" where
  "get_or_create_session dr db session_id user_id =
     (let created = \<lparr>s_id = session_uuid dr, s_user_id = user_id, s_is_active = True\<rparr>;
          fresh = (db\<lparr>conversation_sessions := conversation_sessions db @ [created]\<rparr>, created)
      in case session_id of
           None \<Rightarrow> fresh
         | Some sid \<Rightarrow>
             if sid \<noteq> [] then
               (case find (\<lambda>s. s_id s = sid \<and> s_is_active s) (conversation_sessions db) of
                  Some s \<Rightarrow> (db, s)
                | None \<Rightarrow> fresh)
             else fresh)"

text \<open>\<open>json.dumps(x)\<close> without \<open>default=\<close> raises \<open>TypeError\<close> on a \<open>datetime\<close>.\<close>

fun json_serializable :: "pyval \<Rightarrow> bool" where
  "json_serializable (PDatetime d) = False"
| "json_serializable (PList xs) = list_all json_serializable xs"
| "json_serializable (PDict kvs) = list_all json_serializable (map snd kvs)"
| "json_serializable v = True"

definition dumps_column :: "pyval option \<Rightarrow> pyexc + pyval option" where
  "dumps_column x =
     (case x of
        None \<Rightarrow> Inr None
      | Some v \<Rightarrow>
          if truthy v then
            (if json_serializable v then Inr (Some v)
             else Inl (TypeError ''Object of type datetime is not JSON serializable''))
          else Inr None)"

text \<open>\<open>_save_message\<close>: one row appended to \<open>conversation_messages\<close>, with the next id
  and the clock reading as \<open>created_at\<close>; the three JSON columns hold the value whose
  \<open>json.dumps\<close> text is stored. \<open>content\<close> is a \<open>NOT NULL\<close> column, so the commit
  of a message without content raises.\<close>

definition save_message ::
  "Draws \<Rightarrow> Session \<Rightarrow> string \<Rightarrow> string \<Rightarrow> string option \<Rightarrow> string option
     \<Rightarrow> pyval option \<Rightarrow> pyval option \<Rightarrow> pyval option
     \<Rightarrow> pyexc + Session \<times> ConversationMessage" where
  "save_message dr db session_id role_arg content_arg intent_arg entities_arg tool_calls_arg
       tool_results_arg =
     and_then (dumps_column entities_arg) (\<lambda>e.
     and_then (dumps_column tool_calls_arg) (\<lambda>tc.
     and_then (dumps_column tool_results_arg) (\<lambda>tr.
       case content_arg of
         None \<Rightarrow> Inl (Raised (content_null_error db))
       | Some c \<Rightarrow>
           let new_id = int (length (conversation_messages db)) + 1;
               message = \<lparr>m_id = new_id, m_session_id = session_id, m_role = role_arg,
                          m_content = c, m_intent = intent_arg, m_entities = e,
                          m_tool_calls = tc, m_tool_results = tr,
                          m_created_at = utcnow dr new_id\<rparr>
           in Inr (db\<lparr>conversation_messages := conversation_messages db @ [message]\<rparr>,
                   message))))"

text \<open>\<open>_get_conversation_history\<close>: the rows of the session by \<open>created_at\<close>
  descending, the first \<open>limit\<close> of them, reversed. The query names no second sort key;
  rows with the same \<open>created_at\<close> stay in table order under the sort, which is what
  SQLite's sorter does with them.\<close>

definition get_conversation_history :: "Session \<Rightarrow> string \<Rightarrow> nat \<Rightarrow> ChatMessage list" where
  "get_conversation_history db session_id limit =
     (let messages = take limit
            (sort_key (\<lambda>m. - m_created_at m)
               (filter (\<lambda>m. m_session_id m = session_id) (conversation_messages db)))
      in map (\<lambda>m. \<lparr>msg_role = m_role m, msg_content = m_content m\<rparr>) (rev messages))"

definition get_follow_up_questions :: "Intent \<Rightarrow> string list option" where
  "get_follow_up_questions i =
     (if i = PRODUCT_SEARCH \<or> i = PRODUCT_RECOMMENDATION then
        Some [''Would you like me to filter by price range?'',
              ''Should I show more options?'',
              ''Want details about any of these products?'']
      else if i = PRODUCT_DETAILS then
        Some [''Would you like to see similar products?'',
              ''Any questions about this product?'']
      else None)"

record AgentChatResponse =
  r_response :: string
  r_session_id :: string
  r_intent :: Intent
  r_entities :: ExtractedEntities
  r_suggestions :: "ProductResponse list option"
  r_tool_calls_made :: "string list option"
  r_follow_up_questions :: "string list option"

text \<open>\<open>ToolResult.model_dump()\<close>\<close>

definition tool_result_model_dump :: "ToolResult \<Rightarrow> pyval" where
  "tool_result_model_dump r =
     PDict [(''call_id'', PStr (call_id r)),
            (''tool_name'', PStr (tool_name r)),
            (''result'', result r),
            (''success'', PBool (success r)),
            (''error_message'', opt_val PStr (error_message r))]"

text \<open>The local variables of \<open>process_message\<close> that its branches update, and the number
  of chat-completion calls made so far in the turn.\<close>

record Locals =
  tool_calls_made :: "string list"
  tool_results :: "pyval list"
  suggestions :: "ProductResponse list"
  accumulated_results :: "pyval list"
  response :: string
  llm_calls :: nat

text \<open>What is fixed during a turn.\<close>

record Turn =
  t_llm :: GroqLLMService
  t_svc :: PineconeService
  t_draws :: Draws
  t_db :: Session
  t_user_id :: "int option"
  t_message :: string
  t_history :: "ChatMessage list"
  t_max_tool_iterations :: int

text \<open>One tool execution and its bookkeeping, shared by the tool loop and the order
  branch; \<open>suggest\<close> is the harvest of product suggestions that only the loop does. Its
  queries are outside every \<open>try\<close>: an exception of the driver ends the turn.\<close>

fun suggested_products :: "Session \<Rightarrow> pyval list \<Rightarrow> pyexc + ProductResponse list" where
  "suggested_products db [] = Inr []"
| "suggested_products db (item # items) =
     and_then
       (case item of
          PDict d \<Rightarrow>
            (case map_of d ''id'' of
               Some v \<Rightarrow>
                 and_then (product_by_id db v) (\<lambda>found.
                   Inr (case found of Some p \<Rightarrow> [model_validate p] | None \<Rightarrow> []))
             | None \<Rightarrow> Inr [])
        | _ \<Rightarrow> Inr [])
       (\<lambda>ps. and_then (suggested_products db items) (\<lambda>rest. Inr (ps @ rest)))"

definition suggestions_of :: "Session \<Rightarrow> ToolResult \<Rightarrow> pyexc + ProductResponse list" where
  "suggestions_of db r =
     (if success r \<and> truthy (result r) then
        (case result r of
           PList items \<Rightarrow> suggested_products db (take 5 items)
         | _ \<Rightarrow> Inr [])
      else Inr [])"

definition run_tool ::
  "Turn \<Rightarrow> bool \<Rightarrow> string \<Rightarrow> pydict \<Rightarrow> Locals \<Rightarrow> pyexc + Locals" where
  "run_tool t suggest tname arguments st =
     (let r = execute_tool (t_svc t) (take 8 (call_uuid (t_draws t) (length (tool_results st))))
                tname arguments (t_db t) (t_user_id t)
      in and_then (if suggest then suggestions_of (t_db t) r else Inr []) (\<lambda>found.
           Inr (st\<lparr>tool_results := tool_results st @ [tool_result_model_dump r],
                    tool_calls_made := tool_calls_made st @ [tname],
                    accumulated_results := accumulated_results st
                       @ [PDict [(''tool'', PStr tname), (''result'', result r)]],
                    suggestions := suggestions st @ found\<rparr>)))"

fun run_tool_calls :: "Turn \<Rightarrow> ToolCallRequest list \<Rightarrow> Locals \<Rightarrow> pyexc + Locals" where
  "run_tool_calls t [] st = Inr st"
| "run_tool_calls t (tc # tcs) st =
     and_then (run_tool t True (tcr_tool_name tc) (tcr_arguments tc) st) (run_tool_calls t tcs)"

text \<open>The history a round of the tool loop sends: the stored history and, once there are
  tool results, one assistant entry holding them.\<close>

definition context_history :: "Turn \<Rightarrow> Locals \<Rightarrow> ChatMessage list" where
  "context_history t st =
     t_history t
     @ (if accumulated_results st \<noteq> [] then
          [\<lparr>msg_role = ''assistant'',
            msg_content = ''Tool results so far: ''
               @ json_dumps (t_llm t) (PList (accumulated_results st))\<rparr>]
        else [])"

text \<open>The \<open>while iteration < max_tool_iterations\<close> loop.\<close>

function tool_loop :: "Turn \<Rightarrow> int \<Rightarrow> Locals \<Rightarrow> pyexc + Locals" where
  "tool_loop t iteration st =
     (if iteration < t_max_tool_iterations t then
        (let llm_response = call_with_tools (t_llm t) (llm_calls st) (t_message t) SYSTEM_PROMPT
                              (context_history t st);
             st1 = st\<lparr>llm_calls := llm_calls st + 1\<rparr>
         in case tool_calls llm_response of
              Some (tc # tcs) \<Rightarrow>
                (case run_tool_calls t (tc # tcs) st1 of
                   Inl e \<Rightarrow> Inl e
                 | Inr st2 \<Rightarrow> tool_loop t (iteration + 1) st2)
            | _ \<Rightarrow> Inr (if content llm_response \<noteq> [] then st1\<lparr>response := content llm_response\<rparr>
                         else st1))
      else Inr st)"
  by pat_completeness auto
termination
  by (relation "measure (\<lambda>(t, iteration, st). nat (t_max_tool_iterations t - iteration))") auto

declare tool_loop.simps [simp del]

text \<open>The branch on the classified intent: the locals at its end and the response text
  (absent when the provider answered without text).\<close>

definition respond ::
  "Turn \<Rightarrow> IntentClassificationResult \<Rightarrow> Locals \<Rightarrow> pyexc + Locals \<times> string option" where
  "respond t intent_result st0 =
     (if intent intent_result \<in> {GREETING, FAREWELL} then
        and_then (generate_response (t_llm t) (llm_calls st0) (t_message t) SYSTEM_PROMPT
                    (t_history t) [])
          (\<lambda>r. Inr (st0\<lparr>llm_calls := llm_calls st0 + 1\<rparr>, r))
      else if intent intent_result \<in> {PRODUCT_SEARCH, PRODUCT_RECOMMENDATION, PRODUCT_DETAILS} then
        and_then (tool_loop t 0 st0) (\<lambda>st.
          if response st = [] then
            and_then (generate_response (t_llm t) (llm_calls st) (t_message t) SYSTEM_PROMPT
                        (t_history t) (accumulated_results st))
              (\<lambda>r. Inr (st\<lparr>llm_calls := llm_calls st + 1\<rparr>, r))
          else Inr (st, Some (response st)))
      else if intent intent_result \<in> {ORDER_HELP, ORDER_STATUS} then
        and_then (case order_id (entities intent_result) of
                    Some oid \<Rightarrow>
                      if oid \<noteq> 0 then
                        run_tool t False ''check_order_status'' [(''order_id'', PInt oid)] st0
                      else if t_user_id t \<noteq> None \<and> t_user_id t \<noteq> Some 0 then
                        run_tool t False ''get_user_orders'' [] st0
                      else Inr st0
                  | None \<Rightarrow>
                      if t_user_id t \<noteq> None \<and> t_user_id t \<noteq> Some 0 then
                        run_tool t False ''get_user_orders'' [] st0
                      else Inr st0) (\<lambda>st.
          and_then (generate_response (t_llm t) (llm_calls st) (t_message t) SYSTEM_PROMPT
                      (t_history t) (accumulated_results st))
            (\<lambda>r. Inr (st\<lparr>llm_calls := llm_calls st + 1\<rparr>, r)))
      else
        and_then (generate_response (t_llm t) (llm_calls st0) (t_message t) SYSTEM_PROMPT
                    (t_history t) [])
          (\<lambda>r. Inr (st0\<lparr>llm_calls := llm_calls st0 + 1\<rparr>, r)))"

definition none_if_empty :: "'a list \<Rightarrow> 'a list option" where
  "none_if_empty xs = (if xs \<noteq> [] then Some xs else None)"

text \<open>\<open>process_message\<close>: the database as the turn leaves it, and the response bundle or
  the exception that ended the turn.\<close>

definition process_message ::
  "GroqLLMService \<Rightarrow> PineconeService \<Rightarrow> Draws \<Rightarrow> string \<Rightarrow> Session \<Rightarrow> string option
     \<Rightarrow> int option \<Rightarrow> int \<Rightarrow> Session \<times> (pyexc + AgentChatResponse)" where
  "process_message llm svc dr message db session_id user_id max_tool_iterations =
     (case get_or_create_session dr db session_id user_id of (db1, session) \<Rightarrow>
      let history = get_conversation_history db1 (s_id session) 20;
          intent_result = classify_intent llm 0 message history
      in case save_message dr db1 (s_id session) ''user'' (Some message)
                (Some (intent_value (intent intent_result)))
                (Some (PDict (entities_model_dump (entities intent_result)))) None None of
           Inl e \<Rightarrow> (db1, Inl e)
         | Inr (db2, user_row) \<Rightarrow>
             let t = \<lparr>t_llm = llm, t_svc = svc, t_draws = dr, t_db = db2, t_user_id = user_id,
                      t_message = message, t_history = history,
                      t_max_tool_iterations = max_tool_iterations\<rparr>;
                 st0 = \<lparr>tool_calls_made = [], tool_results = [], suggestions = [],
                        accumulated_results = [], response = [], llm_calls = 1\<rparr>
             in case respond t intent_result st0 of
                  Inl e \<Rightarrow> (db2, Inl e)
                | Inr (st, response_text) \<Rightarrow>
                    (case save_message dr db2 (s_id session) ''assistant'' response_text None None
                            (map_option (\<lambda>xs. PList (map PStr xs))
                               (none_if_empty (tool_calls_made st)))
                            (map_option PList (none_if_empty (tool_results st))) of
                       Inl e \<Rightarrow> (db2, Inl e)
                     | Inr (db3, assistant_row) \<Rightarrow>
                         (db3,
                          (case response_text of
                             None \<Rightarrow>
                               Inl (ValidationError ''1 validation error for AgentChatResponse''
                                      (validation_detail llm ''AgentChatResponse'' PNone))
                           | Some text \<Rightarrow>
                               Inr \<lparr>r_response = text,
                                    r_session_id = s_id session,
                                    r_intent = intent intent_result,
                                    r_entities = entities intent_result,
                                    r_suggestions = none_if_empty (take 5 (suggestions st)),
                                    r_tool_calls_made = none_if_empty (tool_calls_made st),
                                    r_follow_up_questions =
                                      get_follow_up_questions (intent intent_result)\<rparr>))))"

text \<open>A sequence of \<open>_save_message\<close> calls, each with its own arguments; it stops at the
  first call that raises.\<close>

record Write =
  w_session_id :: string
  w_role :: string
  w_content :: string
  w_intent :: "string option"
  w_entities :: "pyval option"
  w_tool_calls :: "pyval option"
  w_tool_results :: "pyval option"

fun save_all :: "Draws \<Rightarrow> Session \<Rightarrow> Write list \<Rightarrow> pyexc + Session" where
  "save_all dr db [] = Inr db"
| "save_all dr db (w # ws) =
     and_then (save_message dr db (w_session_id w) (w_role w) (Some (w_content w)) (w_intent w)
                 (w_entities w) (w_tool_calls w) (w_tool_results w))
       (\<lambda>saved. save_all dr (fst saved) ws)"

text \<open>Writing a sequence of messages and then reading the history of a session.\<close>

definition written_then_read ::
  "Draws \<Rightarrow> Session \<Rightarrow> Write list \<Rightarrow> string \<Rightarrow> nat \<Rightarrow> pyexc + ChatMessage list" where
  "written_then_read dr db ws session_id limit =
     and_then (save_all dr db ws) (\<lambda>db'. Inr (get_conversation_history db' session_id limit))"

text \<open>The exceptions of the embedding model, of the index and of the database driver all
  print as a non-empty text.\<close>

definition speaking :: "PineconeService \<Rightarrow> Session \<Rightarrow> bool" where
  "speaking svc db \<longleftrightarrow>
     (\<forall>q e. encode svc q = Inl e \<longrightarrow> str_exc e \<noteq> [])
   \<and> (\<forall>qp e. index_query svc qp = Inl e \<longrightarrow> str_exc e \<noteq> [])
   \<and> (\<forall>v e. bind_id db v = Inl e \<longrightarrow> str_exc e \<noteq> [])"

section \<open>A small catalog and index for concrete runs\<close>

definition demo_product :: "int \<Rightarrow> bool \<Rightarrow> Product" where
  "demo_product i active =
     \<lparr>p_id = i, p_name = ''Headphones'', p_description = None, p_price = 59,
      p_category = ''electronics'', p_brand = None, p_image_url = None,
      p_stock_quantity = 3, p_is_active = active, p_created_at = ''2024-01-01T00:00:00''\<rparr>"

definition demo_order :: Order where
  "demo_order = \<lparr>o_id = 42, o_user_id = 7, o_total_amount = 118, o_status = ''shipped'',
      o_shipping_address = ''1 Main St'', o_created_at = ''2024-02-02T10:00:00''\<rparr>"

text \<open>The text of a number: blanks around it, a sign, digits with an optional fraction
  and an optional exponent. \<open>number_text\<close> is its value, read exactly, and
  \<open>int_text\<close> the value of the text of a whole number (a fraction of zeros allowed).\<close>

definition digit_of :: "char \<Rightarrow> nat option" where
  "digit_of c =
     map_of [(CHR ''0'', 0), (CHR ''1'', 1), (CHR ''2'', 2), (CHR ''3'', 3), (CHR ''4'', 4),
             (CHR ''5'', 5), (CHR ''6'', 6), (CHR ''7'', 7), (CHR ''8'', 8), (CHR ''9'', 9)] c"

definition digits_value :: "string \<Rightarrow> nat option" where
  "digits_value s =
     foldl (\<lambda>acc c. case acc of
                        None \<Rightarrow> None
                      | Some a \<Rightarrow> (case digit_of c of None \<Rightarrow> None | Some d \<Rightarrow> Some (10 * a + d)))
       (Some 0) s"

definition is_space :: "char \<Rightarrow> bool" where
  "is_space c \<longleftrightarrow> c \<in> set [CHR 0x20, CHR 0x09, CHR 0x0A, CHR 0x0B, CHR 0x0C, CHR 0x0D]"

definition strip :: "string \<Rightarrow> string" where
  "strip s = rev (dropWhile is_space (rev (dropWhile is_space s)))"

definition signed_text :: "string \<Rightarrow> bool \<times> string" where
  "signed_text s =
     (case s of
        [] \<Rightarrow> (False, [])
      | c # r \<Rightarrow> if c = CHR ''-'' then (True, r) else if c = CHR ''+'' then (False, r)
                 else (False, s))"

definition split_on :: "(char \<Rightarrow> bool) \<Rightarrow> string \<Rightarrow> string \<times> string option" where
  "split_on P s =
     (takeWhile (\<lambda>c. \<not> P c) s,
      case dropWhile (\<lambda>c. \<not> P c) s of [] \<Rightarrow> None | c # r \<Rightarrow> Some r)"

definition number_text :: "string \<Rightarrow> real option" where
  "number_text s =
     (case signed_text (strip s) of (neg, body) \<Rightarrow>
      case split_on (\<lambda>c. c = CHR ''e'' \<or> c = CHR ''E'') body of (mantissa, exponent) \<Rightarrow>
      case split_on (\<lambda>c. c = CHR ''.'') mantissa of (whole, fraction) \<Rightarrow>
      let frac = (case fraction of None \<Rightarrow> [] | Some f \<Rightarrow> f);
          sign = (if neg then - 1 else 1)
      in case digits_value (whole @ frac) of
           None \<Rightarrow> None
         | Some m \<Rightarrow>
             if whole @ frac = [] then None
             else (case exponent of
                     None \<Rightarrow> Some (sign * real m / 10 ^ length frac)
                   | Some e \<Rightarrow>
                       (case signed_text e of (eneg, edigits) \<Rightarrow>
                        case digits_value edigits of
                          None \<Rightarrow> None
                        | Some x \<Rightarrow>
                            if edigits = [] then None
                            else Some (sign * real m / 10 ^ length frac
                                       * (if eneg then 1 / 10 ^ x else 10 ^ x)))))"

definition int_text :: "string \<Rightarrow> int option" where
  "int_text s =
     (case signed_text (strip s) of (neg, body) \<Rightarrow>
      case split_on (\<lambda>c. c = CHR ''.'') body of (whole, fraction) \<Rightarrow>
      case digits_value whole of
        None \<Rightarrow> None
      | Some m \<Rightarrow>
          if whole \<noteq> []
             \<and> (case fraction of None \<Rightarrow> True | Some f \<Rightarrow> list_all (\<lambda>c. c = CHR ''0'') f)
          then Some ((if neg then - 1 else 1) * int m)
          else None)"

text \<open>A driver in the manner of SQLite with the \<open>sqlite3\<close> module. An \<open>int\<close> within
  64 bits, a \<open>bool\<close> and a \<open>float\<close> are bound as numbers and compare by value; an
  \<open>int\<close> beyond 64 bits raises \<open>OverflowError\<close>; a \<open>str\<close> is bound as text, which
  the affinity of the column turns into a number when it is the text of one, and which
  matches no row otherwise (a text that is no whole number is read exactly here, as a
  double there); \<open>None\<close> makes the comparison \<open>IS NULL\<close>, false of every id; a
  \<open>datetime\<close> is bound as its ISO text; a \<open>list\<close> or a \<open>dict\<close> is refused, with an
  error whose text \<open>refusal\<close> depends on the versions of the libraries.\<close>

definition int64 :: "int \<Rightarrow> bool" where
  "int64 n \<longleftrightarrow> - (2 ^ 63) \<le> n \<and> n < 2 ^ 63"

definition sqlite_bind :: "string \<Rightarrow> pyval \<Rightarrow> pyexc + (int \<Rightarrow> bool)" where
  "sqlite_bind refusal v =
     (case v of
        PNone \<Rightarrow> Inr (\<lambda>i. False)
      | PBool b \<Rightarrow> Inr (\<lambda>i. i = (if b then 1 else 0))
      | PInt n \<Rightarrow>
          if int64 n then Inr (\<lambda>i. i = n)
          else Inl (Raised ''Python int too large to convert to SQLite INTEGER'')
      | PFloat r \<Rightarrow> Inr (\<lambda>i. of_int i = r)
      | PStr s \<Rightarrow>
          Inr (case number_text s of None \<Rightarrow> (\<lambda>i. False) | Some x \<Rightarrow> (\<lambda>i. of_int i = x))
      | PDatetime d \<Rightarrow> Inr (\<lambda>i. False)
      | PList xs \<Rightarrow> Inl (Raised refusal)
      | PDict kvs \<Rightarrow> Inl (Raised refusal))"

definition demo_db :: Session where
  "demo_db = \<lparr>products = [demo_product 1 True, demo_product 2 False, demo_product 3 True],
      orders = [demo_order], conversation_sessions = [], conversation_messages = [],
      bind_id = sqlite_bind ''(sqlite3.InterfaceError) Error binding parameter 0'',
      content_null_error =
        ''(sqlite3.IntegrityError) NOT NULL constraint failed: conversation_messages.content''\<rparr>"

definition demo_service :: "Match list \<Rightarrow> PineconeService" where
  "demo_service ms = \<lparr>encode = (\<lambda>q. Inr [0]), index_query = (\<lambda>qp. Inr ms),
      default_min_score = 3/10, float_str = (\<lambda>r. ''59.0''),
      similarity_detail = (\<lambda>s. ''similarity'')\<rparr>"

text \<open>The validation of pydantic in its default (lax) mode, for the field types of
  \<open>ExtractedEntities\<close> and \<open>IntentClassificationResult\<close>; \<open>None\<close> is a refusal. An
  optional field takes \<open>None\<close>; an \<open>int\<close> field takes an \<open>int\<close>, a \<open>bool\<close>, a
  \<open>float\<close> without fraction and the text of a whole number; a \<open>float\<close> field takes a
  number and the text of one; a list of \<open>str\<close> takes a list of \<open>str\<close>; a \<open>bool\<close>
  field takes a \<open>bool\<close>, the numbers 0 and 1 and the usual words.\<close>

definition lax_int :: "pyval \<Rightarrow> int option option" where
  "lax_int v =
     (case v of
        PNone \<Rightarrow> Some None
      | PBool b \<Rightarrow> Some (Some (if b then 1 else 0))
      | PInt k \<Rightarrow> Some (Some k)
      | PFloat r \<Rightarrow> if r = of_int \<lfloor>r\<rfloor> then Some (Some \<lfloor>r\<rfloor>) else None
      | PStr s \<Rightarrow> map_option Some (int_text s)
      | _ \<Rightarrow> None)"

definition lax_float :: "pyval \<Rightarrow> real option option" where
  "lax_float v =
     (case v of
        PNone \<Rightarrow> Some None
      | PStr s \<Rightarrow> map_option Some (number_text s)
      | _ \<Rightarrow> map_option Some (num_of v))"

definition lax_str_list :: "pyval \<Rightarrow> string list option option" where
  "lax_str_list v =
     (case v of
        PNone \<Rightarrow> Some None
      | PList xs \<Rightarrow>
          if list_all (\<lambda>x. case x of PStr s \<Rightarrow> True | _ \<Rightarrow> False) xs
          then Some (Some (map (\<lambda>x. case x of PStr s \<Rightarrow> s | _ \<Rightarrow> []) xs))
          else None
      | _ \<Rightarrow> None)"

definition lax_dict :: "pyval \<Rightarrow> pydict option option" where
  "lax_dict v = (case v of PNone \<Rightarrow> Some None | PDict d \<Rightarrow> Some (Some d) | _ \<Rightarrow> None)"

definition lower :: "string \<Rightarrow> string" where
  "lower s = map (\<lambda>c. case map_of (zip ''ABCDEFGHIJKLMNOPQRSTUVWXYZ''
                                         ''abcdefghijklmnopqrstuvwxyz'') c of
                         None \<Rightarrow> c | Some l \<Rightarrow> l) s"

definition lax_bool :: "pyval \<Rightarrow> bool option" where
  "lax_bool v =
     (case v of
        PBool b \<Rightarrow> Some b
      | PStr s \<Rightarrow>
          if lower s \<in> set [''1'', ''on'', ''t'', ''true'', ''y'', ''yes''] then Some True
          else if lower s \<in> set [''0'', ''off'', ''f'', ''false'', ''n'', ''no''] then Some False
          else None
      | _ \<Rightarrow> (case num_of v of
                 None \<Rightarrow> None
               | Some x \<Rightarrow> if x = 1 then Some True else if x = 0 then Some False else None))"

text \<open>\<open>ExtractedEntities.model_validate\<close>: every field is optional, a key that is no
  field is ignored, and the title of the error counts the fields refused.\<close>

definition errors_title :: "nat \<Rightarrow> string \<Rightarrow> string" where
  "errors_title n model =
     [''0123456789'' ! n] @ '' validation error'' @ (if n = 1 then [] else ''s'') @ '' for ''
     @ model"

definition validate_entities :: "(pyval \<Rightarrow> string) \<Rightarrow> pyval \<Rightarrow> pyexc + ExtractedEntities" where
  "validate_entities detail v =
     (case v of
        PDict d \<Rightarrow>
          (case (lax_str_list (dict_get d ''product_names''), lax_str_list (dict_get d ''categories''),
                 lax_str_list (dict_get d ''brands''), lax_float (dict_get d ''price_min''),
                 lax_float (dict_get d ''price_max''), lax_int (dict_get d ''order_id''),
                 lax_int (dict_get d ''quantity''), lax_dict (dict_get d ''attributes'')) of
             (Some pn, Some ca, Some br, Some lo, Some hi, Some oid, Some qty, Some attrs) \<Rightarrow>
               Inr \<lparr>product_names = pn, categories = ca, brands = br, price_min = lo,
                    price_max = hi, order_id = oid, quantity = qty, attributes = attrs\<rparr>
           | (pn, ca, br, lo, hi, oid, qty, attrs) \<Rightarrow>
               Inl (ValidationError
                      (errors_title
                         (length (filter (\<lambda>ok. \<not> ok)
                            [pn \<noteq> None, ca \<noteq> None, br \<noteq> None, lo \<noteq> None, hi \<noteq> None,
                             oid \<noteq> None, qty \<noteq> None, attrs \<noteq> None]))
                         ''ExtractedEntities'')
                      (detail v)))
      | _ \<Rightarrow> Inl (ValidationError (errors_title 1 ''ExtractedEntities'') (detail v)))"

text \<open>A gateway whose provider is given as a function, with stand-ins for the library:
  \<open>json.loads\<close> knows the four JSON texts below, \<open>{}\<close> and \<open>[]\<close> and refuses every
  other text; the texts that \<open>json.dumps\<close> and \<open>str\<close> produce and the lower lines of a
  validation error are placeholders.\<close>

definition order_classification_text :: string where
  "order_classification_text =
     ''{'' @ [CHR 0x22] @ ''intent'' @ [CHR 0x22] @ '': '' @ [CHR 0x22] @ ''order_status'' @ [CHR 0x22] @ '', '' @ [CHR 0x22] @ ''entities'' @ [CHR 0x22] @ '': {'' @ [CHR 0x22] @ ''order_id'' @ [CHR 0x22] @ '': 42}}''"

definition guest_classification_text :: string where
  "guest_classification_text = ''{'' @ [CHR 0x22] @ ''intent'' @ [CHR 0x22] @ '': '' @ [CHR 0x22] @ ''order_status'' @ [CHR 0x22] @ ''}''"

definition search_classification_text :: string where
  "search_classification_text = ''{'' @ [CHR 0x22] @ ''intent'' @ [CHR 0x22] @ '': '' @ [CHR 0x22] @ ''product_search'' @ [CHR 0x22] @ ''}''"

definition search_arguments_text :: string where
  "search_arguments_text = ''{'' @ [CHR 0x22] @ ''query'' @ [CHR 0x22] @ '': '' @ [CHR 0x22] @ ''headphones'' @ [CHR 0x22] @ ''}''"

definition demo_llm :: "(nat \<Rightarrow> ChatRequest \<Rightarrow> pyexc + ProviderMessage) \<Rightarrow> GroqLLMService" where
  "demo_llm provider =
     \<lparr>create = provider,
      max_tokens = 1024,
      json_loads = (\<lambda>s. if s = ''{}'' then Inr (PDict [])
                         else if s = ''[]'' then Inr (PList [])
                         else if s = order_classification_text
                         then Inr (PDict [(''intent'', PStr ''order_status''),
                                          (''entities'', PDict [(''order_id'', PInt 42)])])
                         else if s = guest_classification_text
                         then Inr (PDict [(''intent'', PStr ''order_status'')])
                         else if s = search_classification_text
                         then Inr (PDict [(''intent'', PStr ''product_search'')])
                         else if s = search_arguments_text
                         then Inr (PDict [(''query'', PStr ''headphones'')])
                         else Inl (Raised ''Expecting value: line 1 column 1 (char 0)'')),
      json_dumps = (\<lambda>v. ''[...]''),
      json_dumps_indent = (\<lambda>v. ''[...]''),
      py_str = (\<lambda>v. case v of PStr s \<Rightarrow> s | _ \<Rightarrow> ''...''),
      py_float = (\<lambda>v. case v of
                          PStr s \<Rightarrow>
                            (case number_text s of
                               Some x \<Rightarrow> Inr x
                             | None \<Rightarrow> Inl (Raised (''could not convert string to float: ''
                                                      @ quoted s)))
                        | _ \<Rightarrow>
                            (case num_of v of
                               Some x \<Rightarrow> Inr x
                             | None \<Rightarrow> Inl (TypeError
                                 (''float() argument must be a string or a real number, not ''
                                  @ quoted (type_name v))))),
      entities_validate = validate_entities (\<lambda>v. ''...''),
      bool_validate = (\<lambda>v. case lax_bool v of
                          Some b \<Rightarrow> Inr b
                        | None \<Rightarrow> Inl (ValidationError
                                        (errors_title 1 ''IntentClassificationResult'')
                                        ''requires_clarification'')),
      opt_str_validate = (\<lambda>v. case v of
                          PNone \<Rightarrow> Inr None
                        | PStr t \<Rightarrow> Inr (Some t)
                        | _ \<Rightarrow> Inl (ValidationError
                                     (errors_title 1 ''IntentClassificationResult'')
                                     ''clarification_question'')),
      validation_detail = (\<lambda>model v. ''...'')\<rparr>"

text \<open>Three providers. The first classifies the message as a product search and then asks
  for \<open>search_products\<close> on every tool-calling request. The second and third classify it
  as an order-status question, with and without an order id, and answer a plain request
  with a text.\<close>

definition search_provider :: "nat \<Rightarrow> ChatRequest \<Rightarrow> pyexc + ProviderMessage" where
  "search_provider n req =
     (if req_json_mode req then
        Inr \<lparr>pm_content = Some search_classification_text, pm_tool_calls = []\<rparr>
      else if req_tools req then
        Inr \<lparr>pm_content = None,
             pm_tool_calls = [\<lparr>tc_id = ''call_1'', tc_function_name = ''search_products'',
                               tc_function_arguments = search_arguments_text\<rparr>]\<rparr>
      else Inr \<lparr>pm_content = Some ''Here is what I found.'', pm_tool_calls = []\<rparr>)"

definition order_provider :: "nat \<Rightarrow> ChatRequest \<Rightarrow> pyexc + ProviderMessage" where
  "order_provider n req =
     (if req_json_mode req then
        Inr \<lparr>pm_content = Some order_classification_text, pm_tool_calls = []\<rparr>
      else Inr \<lparr>pm_content = Some ''Your order has shipped.'', pm_tool_calls = []\<rparr>)"

definition guest_provider :: "nat \<Rightarrow> ChatRequest \<Rightarrow> pyexc + ProviderMessage" where
  "guest_provider n req =
     (if req_json_mode req then
        Inr \<lparr>pm_content = Some guest_classification_text, pm_tool_calls = []\<rparr>
      else Inr \<lparr>pm_content = Some ''Please log in or tell me your order number.'',
                pm_tool_calls = []\<rparr>)"

text \<open>A fourth provider: a product search whose first round asks for \<open>search_products\<close>
  and whose second round answers with a text.\<close>

definition found_provider :: "nat \<Rightarrow> ChatRequest \<Rightarrow> pyexc + ProviderMessage" where
  "found_provider n req =
     (if req_json_mode req then
        Inr \<lparr>pm_content = Some search_classification_text, pm_tool_calls = []\<rparr>
      else if req_tools req \<and> n = 1 then
        Inr \<lparr>pm_content = None,
             pm_tool_calls = [\<lparr>tc_id = ''call_1'', tc_function_name = ''search_products'',
                               tc_function_arguments = search_arguments_text\<rparr>]\<rparr>
      else Inr \<lparr>pm_content = Some ''I found Headphones for $59.00.'', pm_tool_calls = []\<rparr>)"

definition demo_draws :: Draws where
  "demo_draws = \<lparr>session_uuid = ''3f2b8c1e-session'', call_uuid = (\<lambda>k. ''ab12cd34-call''),
                  utcnow = (\<lambda>i. 1000 + i)\<rparr>"

text \<open>The same draws with a clock that gives every insert the same reading.\<close>

definition frozen_draws :: Draws where
  "frozen_draws = demo_draws\<lparr>utcnow := (\<lambda>i. 1000)\<rparr>"

definition demo_write :: "string \<Rightarrow> string \<Rightarrow> string \<Rightarrow> Write" where
  "demo_write sid rl c =
     \<lparr>w_session_id = sid, w_role = rl, w_content = c, w_intent = None, w_entities = None,
      w_tool_calls = None, w_tool_results = None\<rparr>"

section \<open>Properties of the retrieval service\<close>

lemma round_half_even_bounds:
  "round_half_even y = \<lfloor>y\<rfloor> \<or> round_half_even y = \<lfloor>y\<rfloor> + 1"
  by (simp add: round_half_even_def Let_def)

lemma round_half_even_of_int [simp]: "round_half_even (of_int k) = k"
  by (simp add: round_half_even_def Let_def)

lemma round_half_even_mono:
  assumes "x \<le> y"
  shows "round_half_even x \<le> round_half_even y"
proof (cases "\<lfloor>x\<rfloor> = \<lfloor>y\<rfloor>")
  case True
  with assms have "x - of_int \<lfloor>x\<rfloor> \<le> y - of_int \<lfloor>y\<rfloor>" by simp
  with True show ?thesis
    by (auto simp: round_half_even_def Let_def)
next
  case False
  with assms have "\<lfloor>x\<rfloor> < \<lfloor>y\<rfloor>"
    using floor_mono [of x y] by linarith
  moreover have "round_half_even x \<le> \<lfloor>x\<rfloor> + 1"
    using round_half_even_bounds [of x] by linarith
  moreover have "\<lfloor>y\<rfloor> \<le> round_half_even y"
    using round_half_even_bounds [of y] by linarith
  ultimately show ?thesis by linarith
qed

lemma py_round_mono: "x \<le> y \<Longrightarrow> py_round x n \<le> py_round y n"
  unfolding py_round_def
  by (intro divide_right_mono of_int_le_iff [THEN iffD2] round_half_even_mono
        mult_right_mono) simp_all

lemma py_round_grid: "py_round (of_int k / 10 ^ n) n = of_int k / 10 ^ n"
  by (simp add: py_round_def)

lemma py_round_is_grid: "\<exists>k::int. py_round x n = of_int k / 10 ^ n"
  unfolding py_round_def by blast

lemma py_round_nonneg: "0 \<le> x \<Longrightarrow> 0 \<le> py_round x n"
  using py_round_mono [of 0 x n] py_round_grid [of 0 n] by simp

lemma py_round_le_one: "x \<le> 1 \<Longrightarrow> py_round x n \<le> 1"
  using py_round_mono [of x 1 n] py_round_grid [of "10 ^ n" n] by simp

lemma int_eq_PInt [simp]: "int_eq n (PInt k) = (n = k)"
  by (simp add: int_eq_def)

lemma and_then_Inr:
  "and_then r f = Inr y \<Longrightarrow> \<exists>x. r = Inr x \<and> f x = Inr y"
  by (cases r) (simp_all add: and_then_def)

lemma and_then_Inl:
  "and_then r f = Inl e \<Longrightarrow> r = Inl e \<or> (\<exists>x. r = Inr x \<and> f x = Inl e)"
  by (cases r) (simp_all add: and_then_def)

lemma product_by_id_in_table:
  "product_by_id db v = Inr (Some p) \<Longrightarrow> p \<in> set (products db)"
  by (auto simp: product_by_id_def find_Some_iff dest!: and_then_Inr)

text \<open>The items \<open>search\<close> builds, one for each match that passes the threshold and whose
  record the query finds active, in the order of the matches.\<close>

lemma format_results_items:
  "format_results svc db t ms = Inr rs \<Longrightarrow>
   list_all2 (\<lambda>r m. similarity r = py_round (match_score m) 4
                    \<and> product_by_id db (PInt (match_id m)) = Inr (Some (product r)))
     rs (filter (\<lambda>m. t \<le> match_score m
                    \<and> (\<exists>p. product_by_id db (PInt (match_id m)) = Inr (Some p) \<and> p_is_active p))
           ms)"
proof (induction ms arbitrary: rs)
  case Nil
  then show ?case by simp
next
  case (Cons m ms)
  show ?case
  proof (cases "t \<le> match_score m")
    case False
    with Cons show ?thesis by simp
  next
    case True
    from Cons.prems True obtain found where
      f: "product_by_id db (PInt (match_id m)) = Inr found"
      by (auto dest!: and_then_Inr)
    show ?thesis
    proof (cases found)
      case None
      with Cons True f show ?thesis by (simp add: and_then_def)
    next
      case (Some p)
      show ?thesis
      proof (cases "p_is_active p")
        case False
        with Cons True f Some show ?thesis by (simp add: and_then_def)
      next
        case active: True
        from Cons.prems True f Some active obtain r rs' where
          r: "new_SearchResult svc (model_validate p) (py_round (match_score m) 4) = Inr r"
          and rest: "format_results svc db t ms = Inr rs'" and rs: "rs = r # rs'"
          by (auto simp: and_then_def split: sum.splits)
        from r have "similarity r = py_round (match_score m) 4" "product r = p"
          by (auto simp: new_SearchResult_def model_validate_def split: if_splits)
        with Cons.IH [OF rest] True f Some active rs show ?thesis by simp
      qed
    qed
  qed
qed

lemma format_results_sound:
  "format_results svc db min_score ms = Inr rs \<Longrightarrow> r \<in> set rs \<Longrightarrow>
   \<exists>m \<in> set ms. min_score \<le> match_score m
        \<and> similarity r = py_round (match_score m) 4
        \<and> 0 \<le> similarity r \<and> similarity r \<le> 1
        \<and> product_by_id db (PInt (match_id m)) = Inr (Some (product r))
        \<and> p_is_active (product r)"
proof (induction ms arbitrary: rs)
  case Nil
  then show ?case by simp
next
  case (Cons m ms)
  then show ?case
    by (fastforce simp: and_then_def new_SearchResult_def model_validate_def
          split: if_splits option.splits sum.splits)
qed

lemma format_results_sorted:
  "sorted_wrt (\<lambda>a b. match_score b \<le> match_score a) ms \<Longrightarrow>
   format_results svc db min_score ms = Inr rs \<Longrightarrow>
   sorted_wrt (\<lambda>a b. similarity b \<le> similarity a) rs"
proof (induction ms arbitrary: rs)
  case Nil
  then show ?case by simp
next
  case (Cons m ms)
  have tail: "\<And>rs'. format_results svc db min_score ms = Inr rs' \<Longrightarrow>
      sorted_wrt (\<lambda>a b. similarity b \<le> similarity a) rs'
      \<and> (\<forall>r \<in> set rs'. similarity r \<le> py_round (match_score m) 4)"
  proof -
    fix rs' assume fr: "format_results svc db min_score ms = Inr rs'"
    have s: "sorted_wrt (\<lambda>a b. similarity b \<le> similarity a) rs'"
      using Cons.IH [OF _ fr] Cons.prems(1) by simp
    have "\<forall>r \<in> set rs'. similarity r \<le> py_round (match_score m) 4"
    proof
      fix r assume "r \<in> set rs'"
      from format_results_sound [OF fr this] obtain m' where
        "m' \<in> set ms" "similarity r = py_round (match_score m') 4" by blast
      moreover from this Cons.prems(1) have "match_score m' \<le> match_score m" by simp
      ultimately show "similarity r \<le> py_round (match_score m) 4"
        by (simp add: py_round_mono)
    qed
    with s show "sorted_wrt (\<lambda>a b. similarity b \<le> similarity a) rs'
      \<and> (\<forall>r \<in> set rs'. similarity r \<le> py_round (match_score m) 4)" by simp
  qed
  from Cons.prems(2) show ?case
    by (auto simp: and_then_def new_SearchResult_def model_validate_def
          split: if_splits option.splits sum.splits dest: tail)
qed

lemmas number_defs = number_text_def int_text_def signed_text_def strip_def split_on_def
  digits_value_def digit_of_def is_space_def

lemmas run_defs = search_def effective_min_score_def and_then_def build_filter_def
  product_by_id_def int_eq_def new_SearchResult_def py_round_def round_half_even_def
  model_validate_def demo_db_def demo_service_def demo_product_def Let_def
  find_similar_products_def slice_int_def product_to_text_def sqlite_bind_def int64_def

text \<open>
  Claim C1 (as amended). Whenever \<open>search\<close> returns a list, its items are, in the order
  of the index's answer, one for each match whose score is at least the threshold in force
  (\<open>min_score\<close>, or the configured default when none is given) and whose catalog record
  the query finds active. The similarity of an item is the score of its match rounded to 4
  places: it lies in [0,1], is a multiple of 0.0001, is at least the threshold rounded to 4
  places, and is at least the threshold itself when that is a multiple of 0.0001 (as the
  default 0.3 is). The product of an item is a row of the catalog and is active. The list
  is non-increasing in similarity provided the index gave its matches in non-increasing
  score order (\<open>search\<close> keeps the index order and never sorts).
\<close>

theorem search_results_sound:
  assumes ret: "search svc query db topk category_filter min_price max_price min_score_arg = Inr rs"
  shows "\<exists>embedding matches.
            encode svc query = Inr embedding
          \<and> index_query svc \<lparr>vector = embedding, top_k = topk, include_metadata = True,
                filter_dict = build_filter category_filter min_price max_price\<rparr> = Inr matches
          \<and> list_all2 (\<lambda>r m. similarity r = py_round (match_score m) 4
                            \<and> product_by_id db (PInt (match_id m)) = Inr (Some (product r)))
              rs (filter (\<lambda>m. effective_min_score svc min_score_arg \<le> match_score m
                             \<and> (\<exists>p. product_by_id db (PInt (match_id m)) = Inr (Some p)
                                    \<and> p_is_active p))
                    matches)
          \<and> (\<forall>r \<in> set rs.
                 0 \<le> similarity r \<and> similarity r \<le> 1
               \<and> (\<exists>k::int. similarity r = of_int k / 10 ^ 4)
               \<and> py_round (effective_min_score svc min_score_arg) 4 \<le> similarity r
               \<and> ((\<exists>k::int. effective_min_score svc min_score_arg = of_int k / 10 ^ 4)
                    \<longrightarrow> effective_min_score svc min_score_arg \<le> similarity r)
               \<and> product r \<in> set (products db)
               \<and> p_is_active (product r))
          \<and> (sorted_wrt (\<lambda>a b. match_score b \<le> match_score a) matches
               \<longrightarrow> sorted_wrt (\<lambda>a b. similarity b \<le> similarity a) rs)"
proof -
  let ?t = "effective_min_score svc min_score_arg"
  from ret obtain embedding matches where e: "encode svc query = Inr embedding"
    and q: "index_query svc \<lparr>vector = embedding, top_k = topk, include_metadata = True,
              filter_dict = build_filter category_filter min_price max_price\<rparr> = Inr matches"
    and fr: "format_results svc db ?t matches = Inr rs"
    by (auto simp: search_def and_then_def Let_def split: sum.splits)
  note corr = format_results_items [OF fr]
  have items: "\<forall>r \<in> set rs.
            0 \<le> similarity r \<and> similarity r \<le> 1
          \<and> (\<exists>k::int. similarity r = of_int k / 10 ^ 4)
          \<and> py_round ?t 4 \<le> similarity r
          \<and> ((\<exists>k::int. ?t = of_int k / 10 ^ 4) \<longrightarrow> ?t \<le> similarity r)
          \<and> product r \<in> set (products db)
          \<and> p_is_active (product r)"
  proof
    fix r assume "r \<in> set rs"
    from format_results_sound [OF fr this] obtain m :: Match where
      m: "?t \<le> match_score m" "similarity r = py_round (match_score m) 4"
         "0 \<le> similarity r" "similarity r \<le> 1"
         "product_by_id db (PInt (match_id m)) = Inr (Some (product r))"
         "p_is_active (product r)" by blast
    have lo: "py_round ?t 4 \<le> similarity r"
      using m(1,2) by (simp add: py_round_mono)
    have grid: "(\<exists>k::int. ?t = of_int k / 10 ^ 4) \<longrightarrow> ?t \<le> similarity r"
    proof
      assume "\<exists>k::int. ?t = of_int k / 10 ^ 4"
      then obtain k :: int where eq: "?t = of_int k / 10 ^ 4" by blast
      have "py_round ?t 4 = ?t" unfolding eq by (rule py_round_grid)
      with lo show "?t \<le> similarity r" by simp
    qed
    have row: "product r \<in> set (products db)"
      using m(5) by (rule product_by_id_in_table)
    show "0 \<le> similarity r \<and> similarity r \<le> 1
          \<and> (\<exists>k::int. similarity r = of_int k / 10 ^ 4)
          \<and> py_round ?t 4 \<le> similarity r
          \<and> ((\<exists>k::int. ?t = of_int k / 10 ^ 4) \<longrightarrow> ?t \<le> similarity r)
          \<and> product r \<in> set (products db)
          \<and> p_is_active (product r)"
      using m lo grid row py_round_is_grid [of "match_score m" 4] by auto
  qed
  have sorted: "sorted_wrt (\<lambda>a b. match_score b \<le> match_score a) matches
           \<longrightarrow> sorted_wrt (\<lambda>a b. similarity b \<le> similarity a) rs"
    using fr format_results_sorted by blast
  from e q corr items sorted show ?thesis by blast
qed

text \<open>
  Claim C1 as stated fails in two ways. For a threshold between two multiples of 0.0001:
  with \<open>min_score = 0.30003\<close> a match of score 0.30004 passes the test on the raw score
  and is returned with similarity 0.3, below the threshold. And for an index that answers
  out of order: the matches of scores 0.5 and 0.9 are returned in that order.
\<close>

theorem search_min_score_counterexample:
  "search (demo_service [\<lparr>match_id = 1, match_score = 30004/100000\<rparr>])
     (PStr ''headphones'') demo_db (PInt 5) PNone PNone PNone (Some (30003/100000))
   = Inr [\<lparr>product = demo_product 1 True, similarity = 3/10\<rparr>]
   \<and> similarity \<lparr>product = demo_product 1 True, similarity = 3/10\<rparr> < 30003/100000
   \<and> search (demo_service [\<lparr>match_id = 3, match_score = 5/10\<rparr>,
                            \<lparr>match_id = 1, match_score = 9/10\<rparr>])
       (PStr ''headphones'') demo_db (PInt 5) PNone PNone PNone None
     = Inr [\<lparr>product = demo_product 3 True, similarity = 5/10\<rparr>,
            \<lparr>product = demo_product 1 True, similarity = 9/10\<rparr>]
   \<and> \<not> sorted_wrt (\<lambda>a b. similarity b \<le> similarity a)
         [\<lparr>product = demo_product 3 True, similarity = 5/10\<rparr>,
          \<lparr>product = demo_product 1 True, similarity = 9/10\<rparr>]"
  by (simp add: run_defs)

theorem search_results_sound_witness:
  "search (demo_service [\<lparr>match_id = 1, match_score = 9/10\<rparr>, \<lparr>match_id = 2, match_score = 8/10\<rparr>,
                          \<lparr>match_id = 3, match_score = 31234/100000\<rparr>,
                          \<lparr>match_id = 1, match_score = 1/10\<rparr>])
     (PStr ''headphones'') demo_db (PInt 5) PNone PNone PNone None
   = Inr [\<lparr>product = demo_product 1 True, similarity = 9/10\<rparr>,
          \<lparr>product = demo_product 3 True, similarity = 3123/10000\<rparr>]
   \<and> list_all (\<lambda>r. 3/10 \<le> similarity r \<and> similarity r \<le> 1 \<and> p_is_active (product r)
                   \<and> product r \<in> set (products demo_db))
        [\<lparr>product = demo_product 1 True, similarity = 9/10\<rparr>,
          \<lparr>product = demo_product 3 True, similarity = 3123/10000\<rparr>]
   \<and> sorted_wrt (\<lambda>a b. similarity b \<le> similarity a)
        [\<lparr>product = demo_product 1 True, similarity = 9/10\<rparr>,
          \<lparr>product = demo_product 3 True, similarity = 3123/10000\<rparr>]"
proof -
  let ?ms = "[\<lparr>match_id = 1, match_score = 9/10\<rparr>, \<lparr>match_id = 2, match_score = 8/10\<rparr>,
              \<lparr>match_id = 3, match_score = 31234/100000\<rparr>,
              \<lparr>match_id = 1, match_score = 1/10\<rparr>]"
  let ?rs = "[\<lparr>product = demo_product 1 True, similarity = 9/10\<rparr>,
              \<lparr>product = demo_product 3 True, similarity = 3123/10000\<rparr>]"
  have run: "search (demo_service ?ms) (PStr ''headphones'') demo_db (PInt 5) PNone PNone PNone None
     = Inr ?rs"
    by (simp add: run_defs)
  from search_results_sound [OF run] obtain embedding matches where
    q: "index_query (demo_service ?ms) \<lparr>vector = embedding, top_k = PInt 5,
           include_metadata = True, filter_dict = build_filter PNone PNone PNone\<rparr> = Inr matches"
    and items: "\<forall>r \<in> set ?rs.
                 0 \<le> similarity r \<and> similarity r \<le> 1
               \<and> (\<exists>k::int. similarity r = of_int k / 10 ^ 4)
               \<and> py_round (effective_min_score (demo_service ?ms) None) 4 \<le> similarity r
               \<and> ((\<exists>k::int. effective_min_score (demo_service ?ms) None = of_int k / 10 ^ 4)
                    \<longrightarrow> effective_min_score (demo_service ?ms) None \<le> similarity r)
               \<and> product r \<in> set (products demo_db)
               \<and> p_is_active (product r)"
    and sorted: "sorted_wrt (\<lambda>a b. match_score b \<le> match_score a) matches
               \<longrightarrow> sorted_wrt (\<lambda>a b. similarity b \<le> similarity a) ?rs"
    by blast
  from q have "matches = ?ms" by (simp add: demo_service_def)
  then have idx: "sorted_wrt (\<lambda>a b. match_score b \<le> match_score a) matches" by simp
  have grid: "\<exists>k::int. effective_min_score (demo_service ?ms) None = of_int k / 10 ^ 4"
    by (rule exI [of _ 3000]) (simp add: effective_min_score_def demo_service_def)
  have ms: "effective_min_score (demo_service ?ms) None = 3/10"
    by (simp add: effective_min_score_def demo_service_def)
  from items grid ms have "list_all (\<lambda>r. 3/10 \<le> similarity r \<and> similarity r \<le> 1
      \<and> p_is_active (product r) \<and> product r \<in> set (products demo_db)) ?rs"
    unfolding list_all_iff by auto
  with run sorted idx show ?thesis by blast
qed

lemma format_results_total:
  assumes "0 \<le> t"
      and "\<forall>m \<in> set ms. match_score m \<le> 1 \<and> (\<exists>sel. bind_id db (PInt (match_id m)) = Inr sel)"
  shows "\<exists>rs. format_results svc db t ms = Inr rs"
  using assms(2)
proof (induction ms)
  case Nil
  then show ?case by simp
next
  case (Cons m ms)
  then obtain rs where rs: "format_results svc db t ms = Inr rs" by auto
  from Cons.prems obtain found where
    f: "product_by_id db (PInt (match_id m)) = Inr found"
    by (auto simp: product_by_id_def and_then_def)
  show ?case
  proof (cases "t \<le> match_score m")
    case False
    with rs show ?thesis by simp
  next
    case True
    with assms(1) have "0 \<le> match_score m" by simp
    then have lo: "0 \<le> py_round (match_score m) 4" by (rule py_round_nonneg)
    from Cons.prems have "match_score m \<le> 1" by simp
    then have hi: "py_round (match_score m) 4 \<le> 1" by (rule py_round_le_one)
    from True rs lo hi f show ?thesis
      by (simp add: new_SearchResult_def and_then_def split: option.splits)
  qed
qed

lemma search_total:
  assumes "0 \<le> effective_min_score svc t"
      and "\<forall>q. \<exists>v. encode svc q = Inr v"
      and "\<forall>qp. \<exists>ms. index_query svc qp = Inr ms
             \<and> (\<forall>m \<in> set ms. match_score m \<le> 1
                   \<and> (\<exists>sel. bind_id db (PInt (match_id m)) = Inr sel))"
  shows "\<exists>rs. search svc q db k c a b t = Inr rs"
proof -
  from assms(2) obtain v where v: "encode svc q = Inr v" by blast
  let ?qp = "\<lparr>vector = v, top_k = k, include_metadata = True, filter_dict = build_filter c a b\<rparr>"
  from assms(3) obtain ms where ms: "index_query svc ?qp = Inr ms"
    and le: "\<forall>m \<in> set ms. match_score m \<le> 1
               \<and> (\<exists>sel. bind_id db (PInt (match_id m)) = Inr sel)" by blast
  from format_results_total [OF assms(1) le] obtain rs
    where "format_results svc db (effective_min_score svc t) ms = Inr rs" by blast
  with v ms show ?thesis
    by (simp add: search_def and_then_def Let_def)
qed

lemma find_similar_unfold:
  assumes ret: "find_similar_products svc v db (PInt k) = Inr rs"
  shows "(product_by_id db v = Inr None \<and> rs = [])
       \<or> (\<exists>p results. product_by_id db v = Inr (Some p)
             \<and> search svc (PStr (product_to_text svc p)) db (PInt (k + 1)) PNone PNone PNone
                 (Some (2/10)) = Inr results
             \<and> rs = slice_int (filter (\<lambda>r. \<not> int_eq (p_id (product r)) v) results) k)"
proof -
  from and_then_Inr [OF ret [unfolded find_similar_products_def]] obtain found where
    f: "product_by_id db v = Inr found"
    and rest: "(case found of
         None \<Rightarrow> Inr []
       | Some p \<Rightarrow>
           and_then (py_add_one (PInt k)) (\<lambda>k1.
           and_then (search svc (PStr (product_to_text svc p)) db k1 PNone PNone PNone (Some 0.2))
             (\<lambda>results.
                py_slice_to (filter (\<lambda>r. \<not> int_eq (p_id (product r)) v) results)
                  (PInt k)))) = Inr rs"
    by blast
  show ?thesis
  proof (cases found)
    case None
    with f rest show ?thesis by simp
  next
    case (Some p)
    with rest have "and_then (search svc (PStr (product_to_text svc p)) db (PInt (k + 1))
             PNone PNone PNone (Some (2/10)))
        (\<lambda>results. Inr (slice_int (filter (\<lambda>r. \<not> int_eq (p_id (product r)) v) results) k))
        = Inr rs"
      by (simp add: and_then_def)
    from and_then_Inr [OF this] f Some show ?thesis by auto
  qed
qed

text \<open>
  Claim C6 (as amended). For \<open>k \<ge> 0\<close>, a list returned by \<open>find_similar_products\<close> has
  at most \<open>k\<close> elements and holds no product whose id is equal to the identifier given
  as Python compares the two: for an \<open>int\<close> identifier, the declared type of
  \<open>product_id\<close>, it never contains the product with that identifier. The list is empty
  when the query finds no product, and otherwise it is the result of \<open>search\<close> on the text
  of the product found, with \<open>top_k = k + 1\<close> and \<open>min_score = 0.2\<close>, without the
  products equal to the identifier, cut to \<open>k\<close>. The function does return a list whenever
  the driver accepts the identifier and the ids of the index's matches, the embedding model
  and the index answer, and no index score exceeds 1.
\<close>

theorem find_similar_products_excludes_source:
  assumes k: "0 \<le> k"
  shows "(\<forall>rs. find_similar_products svc v db (PInt k) = Inr rs \<longrightarrow>
            (\<forall>r \<in> set rs. \<not> int_eq (p_id (product r)) v)
          \<and> (\<forall>n. v = PInt n \<longrightarrow> (\<forall>r \<in> set rs. p_id (product r) \<noteq> n))
          \<and> length rs \<le> nat k
          \<and> ((product_by_id db v = Inr None \<and> rs = [])
             \<or> (\<exists>p results.
                    product_by_id db v = Inr (Some p)
                  \<and> search svc (PStr (product_to_text svc p)) db (PInt (k + 1)) PNone PNone PNone
                      (Some (2/10)) = Inr results
                  \<and> rs = take (nat k)
                           (filter (\<lambda>r. \<not> int_eq (p_id (product r)) v) results))))
       \<and> ((\<exists>sel. bind_id db v = Inr sel)
            \<and> (\<forall>q. \<exists>e. encode svc q = Inr e)
            \<and> (\<forall>qp. \<exists>ms. index_query svc qp = Inr ms
                   \<and> (\<forall>m \<in> set ms. match_score m \<le> 1
                         \<and> (\<exists>sel. bind_id db (PInt (match_id m)) = Inr sel)))
          \<longrightarrow> (\<exists>rs. find_similar_products svc v db (PInt k) = Inr rs))"
proof -
  have returned: "\<forall>rs. find_similar_products svc v db (PInt k) = Inr rs \<longrightarrow>
            (\<forall>r \<in> set rs. \<not> int_eq (p_id (product r)) v)
          \<and> (\<forall>n. v = PInt n \<longrightarrow> (\<forall>r \<in> set rs. p_id (product r) \<noteq> n))
          \<and> length rs \<le> nat k
          \<and> ((product_by_id db v = Inr None \<and> rs = [])
             \<or> (\<exists>p results.
                    product_by_id db v = Inr (Some p)
                  \<and> search svc (PStr (product_to_text svc p)) db (PInt (k + 1)) PNone PNone PNone
                      (Some (2/10)) = Inr results
                  \<and> rs = take (nat k)
                           (filter (\<lambda>r. \<not> int_eq (p_id (product r)) v) results)))"
  proof (intro allI impI)
    fix rs assume ret: "find_similar_products svc v db (PInt k) = Inr rs"
    from find_similar_unfold [OF ret] k
    have shape: "(product_by_id db v = Inr None \<and> rs = [])
             \<or> (\<exists>p results.
                    product_by_id db v = Inr (Some p)
                  \<and> search svc (PStr (product_to_text svc p)) db (PInt (k + 1)) PNone PNone PNone
                      (Some (2/10)) = Inr results
                  \<and> rs = take (nat k)
                           (filter (\<lambda>r. \<not> int_eq (p_id (product r)) v) results))"
      by (simp add: slice_int_def)
    then obtain results where
      rs: "rs = take (nat k) (filter (\<lambda>r. \<not> int_eq (p_id (product r)) v) results)"
      by (elim disjE exE conjE) (rule that [of "[]"], simp, blast)
    have a: "\<forall>r \<in> set rs. \<not> int_eq (p_id (product r)) v"
    proof
      fix r assume "r \<in> set rs"
      then have "r \<in> set (filter (\<lambda>r. \<not> int_eq (p_id (product r)) v) results)"
        unfolding rs by (rule in_set_takeD)
      then show "\<not> int_eq (p_id (product r)) v" by simp
    qed
    then have a': "\<forall>n. v = PInt n \<longrightarrow> (\<forall>r \<in> set rs. p_id (product r) \<noteq> n)"
      by auto
    have b: "length rs \<le> nat k"
      unfolding rs by simp
    from a a' b shape
    show "(\<forall>r \<in> set rs. \<not> int_eq (p_id (product r)) v)
          \<and> (\<forall>n. v = PInt n \<longrightarrow> (\<forall>r \<in> set rs. p_id (product r) \<noteq> n))
          \<and> length rs \<le> nat k
          \<and> ((product_by_id db v = Inr None \<and> rs = [])
             \<or> (\<exists>p results.
                    product_by_id db v = Inr (Some p)
                  \<and> search svc (PStr (product_to_text svc p)) db (PInt (k + 1)) PNone PNone PNone
                      (Some (2/10)) = Inr results
                  \<and> rs = take (nat k)
                           (filter (\<lambda>r. \<not> int_eq (p_id (product r)) v) results)))"
      by (intro conjI)
  qed
  have returns: "(\<exists>sel. bind_id db v = Inr sel)
            \<and> (\<forall>q. \<exists>e. encode svc q = Inr e)
            \<and> (\<forall>qp. \<exists>ms. index_query svc qp = Inr ms
                   \<and> (\<forall>m \<in> set ms. match_score m \<le> 1
                         \<and> (\<exists>sel. bind_id db (PInt (match_id m)) = Inr sel)))
          \<longrightarrow> (\<exists>rs. find_similar_products svc v db (PInt k) = Inr rs)"
  proof
    assume col: "(\<exists>sel. bind_id db v = Inr sel)
            \<and> (\<forall>q. \<exists>e. encode svc q = Inr e)
            \<and> (\<forall>qp. \<exists>ms. index_query svc qp = Inr ms
                   \<and> (\<forall>m \<in> set ms. match_score m \<le> 1
                         \<and> (\<exists>sel. bind_id db (PInt (match_id m)) = Inr sel)))"
    then obtain found where f: "product_by_id db v = Inr found"
      by (auto simp: product_by_id_def and_then_def)
    show "\<exists>rs. find_similar_products svc v db (PInt k) = Inr rs"
    proof (cases found)
      case None
      with f show ?thesis by (simp add: find_similar_products_def and_then_def)
    next
      case (Some p)
      have "0 \<le> effective_min_score svc (Some (2/10))"
        by (simp add: effective_min_score_def)
      from search_total [OF this col [THEN conjunct2, THEN conjunct1]
          col [THEN conjunct2, THEN conjunct2]]
      obtain results where
        "search svc (PStr (product_to_text svc p)) db (PInt (k + 1)) PNone PNone PNone
           (Some (2/10)) = Inr results" by blast
      with f Some show ?thesis
        by (simp add: find_similar_products_def and_then_def)
    qed
  qed
  from returned returns show ?thesis by (rule conjI)
qed

text \<open>
  Claim C6 as stated fails for an identifier that is the text of a number, which
  \<open>execute_tool\<close> passes on as the model gave it: the database reads \<open>'1'\<close> as 1 and
  finds product 1, Python finds no product whose id is equal to \<open>'1'\<close>, and the source
  product stays in the list.
\<close>

theorem find_similar_products_text_id_counterexample:
  "product_by_id demo_db (PStr ''1'') = Inr (Some (demo_product 1 True))
   \<and> find_similar_products
       (demo_service [\<lparr>match_id = 1, match_score = 1\<rparr>, \<lparr>match_id = 3, match_score = 1/4\<rparr>])
       (PStr ''1'') demo_db (PInt 5)
     = Inr [\<lparr>product = demo_product 1 True, similarity = 1\<rparr>,
            \<lparr>product = demo_product 3 True, similarity = 1/4\<rparr>]
   \<and> p_id (product \<lparr>product = demo_product 1 True, similarity = 1\<rparr>) = 1"
  by (simp add: run_defs number_defs)

theorem find_similar_products_excludes_source_witness:
  "find_similar_products
     (demo_service [\<lparr>match_id = 1, match_score = 1\<rparr>, \<lparr>match_id = 3, match_score = 1/4\<rparr>])
     (PInt 1) demo_db (PInt 1)
   = Inr [\<lparr>product = demo_product 3 True, similarity = 1/4\<rparr>]
   \<and> (0::int) \<le> 1
   \<and> list_all (\<lambda>r. p_id (product r) \<noteq> 1)
         [\<lparr>product = demo_product 3 True, similarity = 1/4\<rparr>]
   \<and> length [\<lparr>product = demo_product 3 True, similarity = 1/4\<rparr>] \<le> nat 1"
proof -
  let ?svc = "demo_service [\<lparr>match_id = 1, match_score = 1\<rparr>, \<lparr>match_id = 3, match_score = 1/4\<rparr>]"
  have run: "find_similar_products ?svc (PInt 1) demo_db (PInt 1)
      = Inr [\<lparr>product = demo_product 3 True, similarity = 1/4\<rparr>]"
    by (simp add: run_defs)
  have k: "(0::int) \<le> 1" by simp
  note th = find_similar_products_excludes_source [OF k, of ?svc "PInt 1" demo_db,
      THEN conjunct1, rule_format, OF run]
  from th [THEN conjunct2, THEN conjunct1, rule_format, OF refl]
  have a: "list_all (\<lambda>r. p_id (product r) \<noteq> 1)
         [\<lparr>product = demo_product 3 True, similarity = 1/4\<rparr>]"
    unfolding list_all_iff by blast
  from run k a th [THEN conjunct2, THEN conjunct2, THEN conjunct1] show ?thesis
    by (intro conjI)
qed

section \<open>Properties of tool execution\<close>

lemma quoted_nonempty [simp]: "quoted s \<noteq> []"
  by (simp add: quoted_def)

lemma new_SearchResult_exn: "new_SearchResult svc p s = Inl e \<Longrightarrow> str_exc e \<noteq> []"
  by (auto simp: new_SearchResult_def split: if_splits)

lemma bind_id_exn: "bind_id db v = Inl e \<Longrightarrow> speaking svc db \<Longrightarrow> str_exc e \<noteq> []"
  by (auto simp: speaking_def)

lemma product_by_id_exn:
  "product_by_id db v = Inl e \<Longrightarrow> speaking svc db \<Longrightarrow> str_exc e \<noteq> []"
  by (auto simp: product_by_id_def dest!: and_then_Inl dest: bind_id_exn)

lemma active_product_by_id_exn:
  "active_product_by_id db v = Inl e \<Longrightarrow> speaking svc db \<Longrightarrow> str_exc e \<noteq> []"
  by (auto simp: active_product_by_id_def dest!: and_then_Inl dest: bind_id_exn)

lemma order_by_id_exn:
  "order_by_id db v = Inl e \<Longrightarrow> speaking svc db \<Longrightarrow> str_exc e \<noteq> []"
  by (auto simp: order_by_id_def dest!: and_then_Inl dest: bind_id_exn)

lemma orders_of_user_exn:
  "orders_of_user db uid = Inl e \<Longrightarrow> speaking svc db \<Longrightarrow> str_exc e \<noteq> []"
  by (auto simp: orders_of_user_def dest!: and_then_Inl dest: bind_id_exn)

lemma format_results_exn:
  "format_results svc db t ms = Inl e \<Longrightarrow> speaking svc db \<Longrightarrow> str_exc e \<noteq> []"
proof (induction ms)
  case Nil
  then show ?case by simp
next
  case (Cons m ms)
  show ?case
  proof (cases "t \<le> match_score m")
    case False
    with Cons show ?thesis by simp
  next
    case True
    show ?thesis
    proof (cases "product_by_id db (PInt (match_id m))")
      case (Inl e')
      with Cons.prems True show ?thesis
        by (auto simp: and_then_def dest: product_by_id_exn)
    next
      case (Inr found)
      with Cons True show ?thesis
        by (auto simp: and_then_def split: if_splits option.splits sum.splits
              dest: new_SearchResult_exn)
    qed
  qed
qed

lemma search_exn:
  assumes "search svc q db k c a b t = Inl e" and "speaking svc db"
  shows "str_exc e \<noteq> []"
proof -
  from assms(1) have "encode svc q = Inl e \<or> (\<exists>qp. index_query svc qp = Inl e)
      \<or> (\<exists>ms. format_results svc db (effective_min_score svc t) ms = Inl e)"
    by (auto simp: search_def Let_def dest!: and_then_Inl)
  with assms(2) show ?thesis
    by (auto simp: speaking_def dest: format_results_exn)
qed

lemma py_add_one_exn: "py_add_one v = Inl e \<Longrightarrow> str_exc e \<noteq> []"
  by (cases v) auto

lemma py_slice_to_exn: "py_slice_to xs v = Inl e \<Longrightarrow> str_exc e \<noteq> []"
  by (cases v) auto

lemma py_min_int_exn: "py_min_int v n = Inl e \<Longrightarrow> str_exc e \<noteq> []"
  by (auto simp: py_min_int_def split: option.splits)

lemma dict_item_exn: "dict_item d k = Inl e \<Longrightarrow> str_exc e \<noteq> []"
  by (auto simp: dict_item_def split: option.splits)

lemma find_similar_products_exn:
  assumes "find_similar_products svc v db k = Inl e" and "speaking svc db"
  shows "str_exc e \<noteq> []"
  using assms
  by (auto simp: find_similar_products_def split: option.splits
        dest!: and_then_Inl
        dest: py_add_one_exn py_slice_to_exn search_exn product_by_id_exn)

lemma execute_tool_body_exn:
  assumes "execute_tool_body svc cid tname arguments db user_id = Inl e" and "speaking svc db"
  shows "str_exc e \<noteq> []"
  using assms
  by (auto simp: execute_tool_body_def split: if_splits option.splits list.splits
        dest!: and_then_Inl
        dest: py_min_int_exn dict_item_exn search_exn find_similar_products_exn
          product_by_id_exn active_product_by_id_exn order_by_id_exn orders_of_user_exn)

lemma execute_tool_body_fields:
  assumes "execute_tool_body svc cid tname arguments db user_id = Inr r"
  shows "call_id r = cid \<and> tool_name r = tname
       \<and> (success r \<longrightarrow> error_message r = None)
       \<and> (\<not> success r \<longrightarrow> result r = PNone \<and> (\<exists>msg. error_message r = Some msg \<and> msg \<noteq> []))"
  using assms
  by (auto simp: execute_tool_body_def list_result_def failed_result_def
        split: if_splits option.splits list.splits
        dest!: and_then_Inr)

lemma execute_tool_unknown:
  "tname \<notin> set TOOLS \<Longrightarrow>
   execute_tool svc cid tname arguments db user_id
     = failed_result cid tname (''Unknown tool: '' @ tname)"
  by (simp add: execute_tool_def execute_tool_body_def TOOLS_def)

lemma execute_tool_cases:
  "(\<exists>e. execute_tool_body svc cid tname arguments db user_id = Inl e
        \<and> execute_tool svc cid tname arguments db user_id = failed_result cid tname (str_exc e))
   \<or> execute_tool_body svc cid tname arguments db user_id
        = Inr (execute_tool svc cid tname arguments db user_id)"
  by (cases "execute_tool_body svc cid tname arguments db user_id")
     (simp_all add: execute_tool_def)

text \<open>
  Claim C2 (as amended). For every tool name, argument mapping, database and caller,
  \<open>execute_tool\<close> returns a \<open>ToolResult\<close> with the drawn call id and the tool name: every
  exception of the body is caught and becomes a failed result whose message is \<open>str(e)\<close>.
  A successful result has no error message; a failed one has \<open>result = None\<close> and an error
  message, which is non-empty whenever the exceptions of the embedding model, the index and
  the database driver print as non-empty text. An unregistered tool name fails with
  \<open>Unknown tool: <name>\<close>; \<open>get_user_orders\<close> without a caller (\<open>None\<close> or 0) fails with
  the log-in message; \<open>check_order_status\<close> without \<open>order_id\<close> fails with the text of the
  \<open>KeyError\<close>, with \<open>Order not found\<close> when the query for the order finds no row, and with
  the text of the driver's exception when the query raises; \<open>get_product_details\<close> fails
  with \<open>Product not found\<close> when the query for its \<open>product_id\<close> finds no active row and
  when it has neither a usable \<open>product_id\<close> nor a usable \<open>product_name\<close>.
  A missing \<open>query\<close> of \<open>search_products\<close> is not among the failures.
\<close>

theorem execute_tool_total:
  "(let r = execute_tool svc cid tname arguments db user_id in
      call_id r = cid \<and> tool_name r = tname
    \<and> (success r \<longrightarrow> error_message r = None)
    \<and> (\<not> success r \<longrightarrow> result r = PNone \<and> (\<exists>msg. error_message r = Some msg))
    \<and> (speaking svc db \<longrightarrow> \<not> success r \<longrightarrow> (\<exists>msg. error_message r = Some msg \<and> msg \<noteq> []))
    \<and> (\<forall>e. execute_tool_body svc cid tname arguments db user_id = Inl e
            \<longrightarrow> r = failed_result cid tname (str_exc e))
    \<and> (tname \<notin> set TOOLS \<longrightarrow> r = failed_result cid tname (''Unknown tool: '' @ tname))
    \<and> (tname = ''get_user_orders'' \<and> (user_id = None \<or> user_id = Some 0)
         \<longrightarrow> r = failed_result cid tname ''Please log in to view your orders'')
    \<and> (tname = ''check_order_status'' \<and> map_of arguments ''order_id'' = None
         \<longrightarrow> r = failed_result cid tname (quoted ''order_id''))
    \<and> (tname = ''check_order_status''
         \<and> (\<exists>v. map_of arguments ''order_id'' = Some v \<and> order_by_id db v = Inr None)
         \<longrightarrow> r = failed_result cid tname ''Order not found'')
    \<and> (\<forall>v e. tname = ''check_order_status'' \<and> map_of arguments ''order_id'' = Some v
              \<and> order_by_id db v = Inl e
         \<longrightarrow> r = failed_result cid tname (str_exc e))
    \<and> (tname = ''get_product_details'' \<and> truthy (dict_get arguments ''product_id'')
         \<and> active_product_by_id db (dict_get arguments ''product_id'') = Inr None
         \<longrightarrow> r = failed_result cid tname ''Product not found'')
    \<and> (tname = ''get_product_details'' \<and> \<not> truthy (dict_get arguments ''product_id'')
         \<and> \<not> truthy (dict_get arguments ''product_name'')
         \<longrightarrow> r = failed_result cid tname ''Product not found''))"
proof -
  let ?r = "execute_tool svc cid tname arguments db user_id"
  let ?b = "execute_tool_body svc cid tname arguments db user_id"
  have fields: "call_id ?r = cid \<and> tool_name ?r = tname
      \<and> (success ?r \<longrightarrow> error_message ?r = None)
      \<and> (\<not> success ?r \<longrightarrow> result ?r = PNone \<and> (\<exists>msg. error_message ?r = Some msg))"
    using execute_tool_cases [of svc cid tname arguments db user_id]
      execute_tool_body_fields [of svc cid tname arguments db user_id ?r]
    by (auto simp: failed_result_def)
  have nonempty: "speaking svc db \<longrightarrow> \<not> success ?r
      \<longrightarrow> (\<exists>msg. error_message ?r = Some msg \<and> msg \<noteq> [])"
    using execute_tool_cases [of svc cid tname arguments db user_id]
      execute_tool_body_fields [of svc cid tname arguments db user_id ?r]
      execute_tool_body_exn [of svc cid tname arguments db user_id]
    by (auto simp: failed_result_def)
  have caught: "\<forall>e. ?b = Inl e \<longrightarrow> ?r = failed_result cid tname (str_exc e)"
    by (simp add: execute_tool_def)
  have unknown: "tname \<notin> set TOOLS \<longrightarrow> ?r = failed_result cid tname (''Unknown tool: '' @ tname)"
    by (simp add: execute_tool_unknown)
  have login: "tname = ''get_user_orders'' \<and> (user_id = None \<or> user_id = Some 0)
         \<longrightarrow> ?r = failed_result cid tname ''Please log in to view your orders''"
    by (auto simp: execute_tool_def execute_tool_body_def)
  have missing: "tname = ''check_order_status'' \<and> map_of arguments ''order_id'' = None
         \<longrightarrow> ?r = failed_result cid tname (quoted ''order_id'')"
    by (simp add: execute_tool_def execute_tool_body_def dict_item_def and_then_def)
  have no_order: "tname = ''check_order_status''
         \<and> (\<exists>v. map_of arguments ''order_id'' = Some v \<and> order_by_id db v = Inr None)
         \<longrightarrow> ?r = failed_result cid tname ''Order not found''"
    by (auto simp: execute_tool_def execute_tool_body_def dict_item_def and_then_def)
  have refused: "\<forall>v e. tname = ''check_order_status'' \<and> map_of arguments ''order_id'' = Some v
              \<and> order_by_id db v = Inl e
         \<longrightarrow> ?r = failed_result cid tname (str_exc e)"
    by (auto simp: execute_tool_def execute_tool_body_def dict_item_def and_then_def)
  have no_row: "tname = ''get_product_details'' \<and> truthy (dict_get arguments ''product_id'')
         \<and> active_product_by_id db (dict_get arguments ''product_id'') = Inr None
         \<longrightarrow> ?r = failed_result cid tname ''Product not found''"
    by (auto simp: execute_tool_def execute_tool_body_def dict_item_def dict_get_def
          and_then_def split: option.splits)
  have no_product: "tname = ''get_product_details'' \<and> \<not> truthy (dict_get arguments ''product_id'')
         \<and> \<not> truthy (dict_get arguments ''product_name'')
         \<longrightarrow> ?r = failed_result cid tname ''Product not found''"
    by (simp add: execute_tool_def execute_tool_body_def and_then_def)
  show ?thesis
    unfolding Let_def
    using fields nonempty caught unknown login missing no_order refused no_row no_product
    by (elim conjE, intro conjI) assumption+
qed

text \<open>
  Claim C2 as stated fails for a missing required argument: \<open>search_products\<close> without
  its required \<open>query\<close> searches for the empty text and succeeds.
\<close>

theorem execute_tool_missing_query_counterexample:
  "map_of ([] :: pydict) ''query'' = None
   \<and> execute_tool (demo_service []) ''ab12cd34'' ''search_products'' [] demo_db None
       = \<lparr>call_id = ''ab12cd34'', tool_name = ''search_products'', result = PList [],
          success = True, error_message = None\<rparr>"
  by (simp add: execute_tool_def execute_tool_body_def py_min_int_def dict_get_default_def
        dict_get_def list_result_def run_defs)

theorem execute_tool_total_witness:
  "''delete_account'' \<notin> set TOOLS
   \<and> execute_tool (demo_service []) ''ab12cd34'' ''delete_account'' [] demo_db (Some 7)
       = failed_result ''ab12cd34'' ''delete_account'' ''Unknown tool: delete_account''
   \<and> execute_tool (demo_service []) ''ab12cd34'' ''get_user_orders'' [] demo_db None
       = failed_result ''ab12cd34'' ''get_user_orders'' ''Please log in to view your orders''
   \<and> execute_tool (demo_service []) ''ab12cd34'' ''check_order_status'' [] demo_db (Some 7)
       = failed_result ''ab12cd34'' ''check_order_status'' (quoted ''order_id'')
   \<and> order_by_id demo_db (PInt 41) = Inr None
   \<and> execute_tool (demo_service []) ''ab12cd34'' ''check_order_status''
         [(''order_id'', PInt 41)] demo_db (Some 7)
       = failed_result ''ab12cd34'' ''check_order_status'' ''Order not found''
   \<and> order_by_id demo_db (PInt (2 ^ 63))
       = Inl (Raised ''Python int too large to convert to SQLite INTEGER'')
   \<and> execute_tool (demo_service []) ''ab12cd34'' ''check_order_status''
         [(''order_id'', PInt (2 ^ 63))] demo_db (Some 7)
       = failed_result ''ab12cd34'' ''check_order_status''
           ''Python int too large to convert to SQLite INTEGER''"
proof -
  have u: "''delete_account'' \<notin> set TOOLS" by (simp add: TOOLS_def)
  have m: "map_of ([] :: pydict) ''order_id'' = None" by simp
  have n: "order_by_id demo_db (PInt 41) = Inr None"
    by (simp add: order_by_id_def demo_db_def demo_order_def sqlite_bind_def int64_def
          and_then_def)
  have o: "order_by_id demo_db (PInt (2 ^ 63))
       = Inl (Raised ''Python int too large to convert to SQLite INTEGER'')"
    by (simp add: order_by_id_def demo_db_def sqlite_bind_def int64_def and_then_def)
  note t1 = execute_tool_total [of "demo_service []" "''ab12cd34''" "''delete_account''" "[]"
              demo_db "Some 7", unfolded Let_def]
  note t2 = execute_tool_total [of "demo_service []" "''ab12cd34''" "''get_user_orders''" "[]"
              demo_db None, unfolded Let_def]
  note t3 = execute_tool_total [of "demo_service []" "''ab12cd34''" "''check_order_status''" "[]"
              demo_db "Some 7", unfolded Let_def]
  note t4 = execute_tool_total [of "demo_service []" "''ab12cd34''" "''check_order_status''"
              "[(''order_id'', PInt 41)]" demo_db "Some 7", unfolded Let_def]
  note t5 = execute_tool_total [of "demo_service []" "''ab12cd34''" "''check_order_status''"
              "[(''order_id'', PInt (2 ^ 63))]" demo_db "Some 7", unfolded Let_def]
  from t1 u have a: "execute_tool (demo_service []) ''ab12cd34'' ''delete_account'' [] demo_db (Some 7)
       = failed_result ''ab12cd34'' ''delete_account'' ''Unknown tool: delete_account''"
    by simp
  from t2 have b: "execute_tool (demo_service []) ''ab12cd34'' ''get_user_orders'' [] demo_db None
       = failed_result ''ab12cd34'' ''get_user_orders'' ''Please log in to view your orders''"
    by simp
  from t3 m have c: "execute_tool (demo_service []) ''ab12cd34'' ''check_order_status'' [] demo_db (Some 7)
       = failed_result ''ab12cd34'' ''check_order_status'' (quoted ''order_id'')"
    by simp
  from t4 n have d: "execute_tool (demo_service []) ''ab12cd34'' ''check_order_status''
         [(''order_id'', PInt 41)] demo_db (Some 7)
       = failed_result ''ab12cd34'' ''check_order_status'' ''Order not found''"
    by simp
  have "execute_tool (demo_service []) ''ab12cd34'' ''check_order_status''
         [(''order_id'', PInt (2 ^ 63))] demo_db (Some 7)
       = failed_result ''ab12cd34'' ''check_order_status''
           (str_exc (Raised ''Python int too large to convert to SQLite INTEGER''))"
    using t5 [THEN conjunct2, THEN conjunct2, THEN conjunct2, THEN conjunct2, THEN conjunct2,
        THEN conjunct2, THEN conjunct2, THEN conjunct2, THEN conjunct2, THEN conjunct2,
        THEN conjunct1, rule_format, of "PInt (2 ^ 63)"] o
    by simp
  then have e: "execute_tool (demo_service []) ''ab12cd34'' ''check_order_status''
         [(''order_id'', PInt (2 ^ 63))] demo_db (Some 7)
       = failed_result ''ab12cd34'' ''check_order_status''
           ''Python int too large to convert to SQLite INTEGER''"
    by simp
  from u a b c n d o e show ?thesis by (intro conjI)
qed

text \<open>The text of a number as \<open>order_id\<close> finds the order under this driver.\<close>

lemma check_order_status_text_id:
  "execute_tool (demo_service []) ''ab12cd34'' ''check_order_status''
     [(''order_id'', PStr ''42'')] demo_db None
   = \<lparr>call_id = ''ab12cd34'', tool_name = ''check_order_status'',
      result = order_status_dict demo_order, success = True, error_message = None\<rparr>"
  by (simp add: execute_tool_def execute_tool_body_def dict_item_def order_by_id_def
        demo_db_def demo_order_def sqlite_bind_def number_defs and_then_def Let_def)

text \<open>An exception whose \<open>str\<close> is empty (\<open>TimeoutError()\<close>, say) leaves the failed
  result with the empty text as its error message.\<close>

lemma execute_tool_silent_exception:
  "execute_tool ((demo_service [])\<lparr>encode := (\<lambda>q. Inl (Raised []))\<rparr>) ''ab12cd34''
     ''search_products'' [(''query'', PStr ''lamp'')] demo_db None
   = \<lparr>call_id = ''ab12cd34'', tool_name = ''search_products'', result = PNone,
      success = False, error_message = Some []\<rparr>"
  by (simp add: execute_tool_def execute_tool_body_def py_min_int_def dict_get_default_def
        dict_get_def failed_result_def search_def effective_min_score_def and_then_def
        demo_service_def Let_def)

lemma py_min_int_capped:
  "py_min_int v n = Inr k \<Longrightarrow> \<exists>x. num_of k = Some x \<and> x \<le> of_int n"
  by (auto simp: py_min_int_def split: option.splits if_splits)

lemma new_SearchResult_index_query [simp]:
  "new_SearchResult (svc\<lparr>index_query := f\<rparr>) p s = new_SearchResult svc p s"
  by (simp add: new_SearchResult_def)

lemma format_results_index_query [simp]:
  "format_results (svc\<lparr>index_query := f\<rparr>) db t ms = format_results svc db t ms"
  by (induction ms) (simp_all cong: option.case_cong if_cong)

lemma search_refusing_above:
  "num_of k = Some x \<Longrightarrow> x \<le> of_int n \<Longrightarrow>
   search (refusing_above n svc) q db k c a b t = search svc q db k c a b t"
  by (cases t) (simp_all add: search_def refusing_above_def effective_min_score_def Let_def)

lemma py_min_int_PInt: "py_min_int (PInt n) m = Inr (PInt (min n m))"
  by (simp add: py_min_int_def min_def)

text \<open>
  Claim C8 (as amended). \<open>search_products\<close> never asks the index for more than 10
  results: its run is the same against an index that refuses every larger request; the
  count it asks for is 5 without a \<open>limit\<close> and \<open>min(limit, 10)\<close> for an integer
  \<open>limit\<close>. \<open>get_recommendations\<close> passes an integer \<open>limit\<close> on as it is, to \<open>search\<close>
  for a preference text and to \<open>find_similar_products\<close> for a product id.
\<close>

theorem search_products_limit_capped:
  "execute_tool (refusing_above 10 svc) cid ''search_products'' arguments db user_id
     = execute_tool svc cid ''search_products'' arguments db user_id
   \<and> (map_of arguments ''limit'' = None \<longrightarrow>
        execute_tool_body svc cid ''search_products'' arguments db user_id
          = and_then (search svc (dict_get_default arguments ''query'' (PStr [])) db (PInt 5)
                        (dict_get arguments ''category'') (dict_get arguments ''min_price'')
                        (dict_get arguments ''max_price'') None)
              (\<lambda>results. Inr (list_result cid ''search_products'' results)))
   \<and> (\<forall>n. map_of arguments ''limit'' = Some (PInt n) \<longrightarrow>
        execute_tool_body svc cid ''search_products'' arguments db user_id
          = and_then (search svc (dict_get_default arguments ''query'' (PStr [])) db
                        (PInt (min n 10))
                        (dict_get arguments ''category'') (dict_get arguments ''min_price'')
                        (dict_get arguments ''max_price'') None)
              (\<lambda>results. Inr (list_result cid ''search_products'' results)))
   \<and> (\<forall>n. map_of arguments ''limit'' = Some (PInt n)
          \<and> \<not> truthy (dict_get arguments ''product_id'')
          \<and> truthy (dict_get arguments ''preferences'') \<longrightarrow>
        execute_tool_body svc cid ''get_recommendations'' arguments db user_id
          = and_then (search svc (dict_get arguments ''preferences'') db (PInt n)
                        (dict_get arguments ''category'') PNone PNone None)
              (\<lambda>results. Inr (list_result cid ''get_recommendations'' results)))
   \<and> (\<forall>n. map_of arguments ''limit'' = Some (PInt n)
          \<and> truthy (dict_get arguments ''product_id'') \<longrightarrow>
        execute_tool_body svc cid ''get_recommendations'' arguments db user_id
          = and_then (find_similar_products svc (dict_get arguments ''product_id'') db (PInt n))
              (\<lambda>results. Inr (list_result cid ''get_recommendations'' results)))"
proof -
  have body: "execute_tool_body (refusing_above 10 svc) cid ''search_products'' arguments db user_id
      = execute_tool_body svc cid ''search_products'' arguments db user_id"
  proof (cases "py_min_int (dict_get_default arguments ''limit'' (PInt 5)) 10")
    case (Inl e)
    then show ?thesis by (simp add: execute_tool_body_def and_then_def)
  next
    case (Inr k)
    from py_min_int_capped [OF Inr] obtain x where "num_of k = Some x" "x \<le> of_int 10"
      by blast
    then have "\<And>q c a b t. search (refusing_above 10 svc) q db k c a b t
        = search svc q db k c a b t"
      by (rule search_refusing_above)
    with Inr show ?thesis by (simp add: execute_tool_body_def and_then_def)
  qed
  have a: "execute_tool (refusing_above 10 svc) cid ''search_products'' arguments db user_id
     = execute_tool svc cid ''search_products'' arguments db user_id"
    by (simp add: execute_tool_def body)
  have b: "map_of arguments ''limit'' = None \<longrightarrow>
        execute_tool_body svc cid ''search_products'' arguments db user_id
          = and_then (search svc (dict_get_default arguments ''query'' (PStr [])) db (PInt 5)
                        (dict_get arguments ''category'') (dict_get arguments ''min_price'')
                        (dict_get arguments ''max_price'') None)
              (\<lambda>results. Inr (list_result cid ''search_products'' results))"
    by (simp add: execute_tool_body_def dict_get_default_def py_min_int_PInt and_then_def)
  have c: "\<forall>n. map_of arguments ''limit'' = Some (PInt n) \<longrightarrow>
        execute_tool_body svc cid ''search_products'' arguments db user_id
          = and_then (search svc (dict_get_default arguments ''query'' (PStr [])) db
                        (PInt (min n 10))
                        (dict_get arguments ''category'') (dict_get arguments ''min_price'')
                        (dict_get arguments ''max_price'') None)
              (\<lambda>results. Inr (list_result cid ''search_products'' results))"
    by (simp add: execute_tool_body_def dict_get_default_def py_min_int_PInt and_then_def)
  have d: "\<forall>n. map_of arguments ''limit'' = Some (PInt n)
          \<and> \<not> truthy (dict_get arguments ''product_id'')
          \<and> truthy (dict_get arguments ''preferences'') \<longrightarrow>
        execute_tool_body svc cid ''get_recommendations'' arguments db user_id
          = and_then (search svc (dict_get arguments ''preferences'') db (PInt n)
                        (dict_get arguments ''category'') PNone PNone None)
              (\<lambda>results. Inr (list_result cid ''get_recommendations'' results))"
    by (auto simp: execute_tool_body_def dict_get_default_def dict_get_def
          split: option.splits)
  have e: "\<forall>n. map_of arguments ''limit'' = Some (PInt n)
          \<and> truthy (dict_get arguments ''product_id'') \<longrightarrow>
        execute_tool_body svc cid ''get_recommendations'' arguments db user_id
          = and_then (find_similar_products svc (dict_get arguments ''product_id'') db (PInt n))
              (\<lambda>results. Inr (list_result cid ''get_recommendations'' results))"
    by (auto simp: execute_tool_body_def dict_get_default_def dict_get_def dict_item_def
          and_then_def split: option.splits)
  from a b c d e show ?thesis by (intro conjI)
qed

text \<open>
  Claim C8 as stated fails for \<open>get_recommendations\<close>: with \<open>limit = 50\<close> it asks the
  index for 50 results, which an index refusing more than 10 rejects.
\<close>

theorem get_recommendations_limit_counterexample:
  "success (execute_tool (demo_service [\<lparr>match_id = 1, match_score = 9/10\<rparr>])
              ''ab12cd34'' ''get_recommendations''
              [(''preferences'', PStr ''wireless''), (''limit'', PInt 50)] demo_db None)
   \<and> execute_tool (refusing_above 10 (demo_service [\<lparr>match_id = 1, match_score = 9/10\<rparr>]))
       ''ab12cd34'' ''get_recommendations''
       [(''preferences'', PStr ''wireless''), (''limit'', PInt 50)] demo_db None
     = failed_result ''ab12cd34'' ''get_recommendations'' ''more results requested than the cap''"
  by (simp add: execute_tool_def execute_tool_body_def dict_get_default_def dict_get_def
        refusing_above_def list_result_def run_defs)

theorem search_products_limit_capped_witness:
  "map_of [(''query'', PStr ''lamp''), (''limit'', PInt 50)] ''limit'' = Some (PInt 50)
   \<and> execute_tool_body (demo_service []) ''ab12cd34'' ''search_products''
        [(''query'', PStr ''lamp''), (''limit'', PInt 50)] demo_db None
      = and_then (search (demo_service []) (PStr ''lamp'') demo_db (PInt 10) PNone PNone PNone None)
          (\<lambda>results. Inr (list_result ''ab12cd34'' ''search_products'' results))
   \<and> map_of [(''query'', PStr ''lamp'')] ''limit'' = None
   \<and> execute_tool_body (demo_service []) ''ab12cd34'' ''search_products''
        [(''query'', PStr ''lamp'')] demo_db None
      = and_then (search (demo_service []) (PStr ''lamp'') demo_db (PInt 5) PNone PNone PNone None)
          (\<lambda>results. Inr (list_result ''ab12cd34'' ''search_products'' results))"
proof -
  have l1: "map_of [(''query'', PStr ''lamp''), (''limit'', PInt 50)] ''limit'' = Some (PInt 50)"
    by simp
  have l2: "map_of [(''query'', PStr ''lamp'')] ''limit'' = None"
    by simp
  note t1 = search_products_limit_capped [of "demo_service []" "''ab12cd34''"
      "[(''query'', PStr ''lamp''), (''limit'', PInt 50)]" demo_db None]
  note t2 = search_products_limit_capped [of "demo_service []" "''ab12cd34''"
      "[(''query'', PStr ''lamp'')]" demo_db None]
  from t1 l1 have a: "execute_tool_body (demo_service []) ''ab12cd34'' ''search_products''
        [(''query'', PStr ''lamp''), (''limit'', PInt 50)] demo_db None
      = and_then (search (demo_service []) (PStr ''lamp'') demo_db (PInt 10) PNone PNone PNone None)
          (\<lambda>results. Inr (list_result ''ab12cd34'' ''search_products'' results))"
    by (simp add: dict_get_default_def dict_get_def)
  from t2 l2 have b: "execute_tool_body (demo_service []) ''ab12cd34'' ''search_products''
        [(''query'', PStr ''lamp'')] demo_db None
      = and_then (search (demo_service []) (PStr ''lamp'') demo_db (PInt 5) PNone PNone PNone None)
          (\<lambda>results. Inr (list_result ''ab12cd34'' ''search_products'' results))"
    by (simp add: dict_get_default_def dict_get_def)
  from l1 a l2 b show ?thesis by (intro conjI)
qed

text \<open>
  Claim C10. The payload of \<open>check_order_status\<close> (result, success flag, error message)
  is the same for any two callers, authenticated or not, and with the same drawn call id the
  whole \<open>ToolResult\<close> is; for an existing order it is the successful result with the
  order's id, status, total amount, creation time and shipping address, whoever owns it.
\<close>

theorem check_order_status_ignores_caller:
  "result (execute_tool svc cid1 ''check_order_status'' arguments db u1)
     = result (execute_tool svc cid2 ''check_order_status'' arguments db u2)
   \<and> success (execute_tool svc cid1 ''check_order_status'' arguments db u1)
     = success (execute_tool svc cid2 ''check_order_status'' arguments db u2)
   \<and> error_message (execute_tool svc cid1 ''check_order_status'' arguments db u1)
     = error_message (execute_tool svc cid2 ''check_order_status'' arguments db u2)
   \<and> execute_tool svc cid1 ''check_order_status'' arguments db u1
     = execute_tool svc cid1 ''check_order_status'' arguments db u2
   \<and> (\<forall>v ord. map_of arguments ''order_id'' = Some v \<and> order_by_id db v = Inr (Some ord) \<longrightarrow>
        execute_tool svc cid1 ''check_order_status'' arguments db u1
          = \<lparr>call_id = cid1, tool_name = ''check_order_status'', result = order_status_dict ord,
             success = True, error_message = None\<rparr>)"
proof -
  have body: "\<And>cid u. execute_tool_body svc cid ''check_order_status'' arguments db u
      = (case map_of arguments ''order_id'' of
           None \<Rightarrow> Inl (KeyError ''order_id'')
         | Some v \<Rightarrow>
             (case order_by_id db v of
                Inl e \<Rightarrow> Inl e
              | Inr (Some ord) \<Rightarrow>
                  Inr \<lparr>call_id = cid, tool_name = ''check_order_status'',
                       result = order_status_dict ord, success = True, error_message = None\<rparr>
              | Inr None \<Rightarrow> Inr (failed_result cid ''check_order_status'' ''Order not found'')))"
    by (simp add: execute_tool_body_def dict_item_def and_then_def
          split: option.splits sum.splits)
  have same_id: "execute_tool svc cid1 ''check_order_status'' arguments db u1
     = execute_tool svc cid1 ''check_order_status'' arguments db u2"
    by (simp add: execute_tool_def body)
  have payload: "result (execute_tool svc cid1 ''check_order_status'' arguments db u1)
       = result (execute_tool svc cid2 ''check_order_status'' arguments db u2)
     \<and> success (execute_tool svc cid1 ''check_order_status'' arguments db u1)
       = success (execute_tool svc cid2 ''check_order_status'' arguments db u2)
     \<and> error_message (execute_tool svc cid1 ''check_order_status'' arguments db u1)
       = error_message (execute_tool svc cid2 ''check_order_status'' arguments db u2)"
    by (simp add: execute_tool_def body failed_result_def split: option.splits sum.splits)
  have found: "\<forall>v ord. map_of arguments ''order_id'' = Some v \<and> order_by_id db v = Inr (Some ord) \<longrightarrow>
        execute_tool svc cid1 ''check_order_status'' arguments db u1
          = \<lparr>call_id = cid1, tool_name = ''check_order_status'', result = order_status_dict ord,
             success = True, error_message = None\<rparr>"
    by (auto simp: execute_tool_def body)
  from payload same_id found show ?thesis
    by (elim conjE, intro conjI) assumption+
qed

theorem check_order_status_ignores_caller_witness:
  "map_of [(''order_id'', PInt 42)] ''order_id'' = Some (PInt 42)
   \<and> order_by_id demo_db (PInt 42) = Inr (Some demo_order)
   \<and> o_user_id demo_order = 7
   \<and> execute_tool (demo_service []) ''ab12cd34'' ''check_order_status''
        [(''order_id'', PInt 42)] demo_db None
      = \<lparr>call_id = ''ab12cd34'', tool_name = ''check_order_status'',
         result = PDict [(''order_id'', PInt 42), (''status'', PStr ''shipped''),
                         (''total_amount'', PFloat 118),
                         (''created_at'', PStr ''2024-02-02T10:00:00''),
                         (''shipping_address'', PStr ''1 Main St'')],
         success = True, error_message = None\<rparr>
   \<and> result (execute_tool (demo_service []) ''ab12cd34'' ''check_order_status''
        [(''order_id'', PInt 42)] demo_db (Some 99))
      = result (execute_tool (demo_service []) ''77aa00ff'' ''check_order_status''
        [(''order_id'', PInt 42)] demo_db None)"
proof -
  have l: "map_of [(''order_id'', PInt 42)] ''order_id'' = Some (PInt 42)" by simp
  have f: "order_by_id demo_db (PInt 42) = Inr (Some demo_order)"
    by (simp add: order_by_id_def demo_db_def demo_order_def sqlite_bind_def int64_def
          and_then_def)
  have o: "o_user_id demo_order = 7" by (simp add: demo_order_def)
  note t = check_order_status_ignores_caller [of "demo_service []" _ "[(''order_id'', PInt 42)]"
      demo_db]
  from t [of "''ab12cd34''" None "''ab12cd34''" None] l f
  have a: "execute_tool (demo_service []) ''ab12cd34'' ''check_order_status''
        [(''order_id'', PInt 42)] demo_db None
      = \<lparr>call_id = ''ab12cd34'', tool_name = ''check_order_status'',
         result = PDict [(''order_id'', PInt 42), (''status'', PStr ''shipped''),
                         (''total_amount'', PFloat 118),
                         (''created_at'', PStr ''2024-02-02T10:00:00''),
                         (''shipping_address'', PStr ''1 Main St'')],
         success = True, error_message = None\<rparr>"
    by (simp add: order_status_dict_def demo_order_def)
  from t [of "''ab12cd34''" "Some 99" "''77aa00ff''" None]
  have b: "result (execute_tool (demo_service []) ''ab12cd34'' ''check_order_status''
        [(''order_id'', PInt 42)] demo_db (Some 99))
      = result (execute_tool (demo_service []) ''77aa00ff'' ''check_order_status''
        [(''order_id'', PInt 42)] demo_db None)"
    by (rule conjunct1)
  from l f o a b show ?thesis by (intro conjI)
qed

section \<open>Properties of the language-model gateway\<close>

text \<open>Whatever raises inside the \<open>try\<close> block of \<open>classify_intent\<close> ends the block with
  an exception: the provider call, \<open>json.loads\<close> on an absent or malformed text,
  \<open>result.get\<close> on JSON that is no object, the validation of the entities, \<open>float\<close> on
  the confidence, and the validation of the two remaining fields.\<close>

lemma classify_intent_body_raises:
  assumes "(\<exists>e. create llm n (classify_request message history) = Inl e)
         \<or> (\<exists>pm. create llm n (classify_request message history) = Inr pm
               \<and> (pm_content pm = None
                  \<or> (\<exists>c. pm_content pm = Some c
                        \<and> ((\<exists>e. json_loads llm c = Inl e)
                           \<or> (\<exists>res. json_loads llm c = Inr res \<and> (\<forall>d. res \<noteq> PDict d))
                           \<or> (\<exists>d. json_loads llm c = Inr (PDict d)
                                 \<and> ((\<exists>e. entities_validate llm
                                             (dict_get_default d ''entities'' (PDict [])) = Inl e)
                                    \<or> (\<exists>e. py_float llm
                                             (dict_get_default d ''confidence'' (PFloat (1/2)))
                                           = Inl e)
                                    \<or> (\<exists>e. bool_validate llm
                                             (dict_get_default d ''requires_clarification''
                                                (PBool False)) = Inl e)
                                    \<or> (\<exists>e. opt_str_validate llm
                                             (dict_get_default d ''clarification_question'' PNone)
                                           = Inl e)))))))"
  shows "\<exists>e. classify_intent_body llm n message history = Inl e"
proof (cases "create llm n (classify_request message history)")
  case (Inl e)
  then show ?thesis by (simp add: classify_intent_body_def and_then_def)
next
  case (Inr pm)
  show ?thesis
  proof (cases "pm_content pm")
    case None
    with Inr show ?thesis by (simp add: classify_intent_body_def and_then_def)
  next
    case (Some c)
    show ?thesis
    proof (cases "json_loads llm c")
      case (Inl e)
      with Inr Some show ?thesis by (simp add: classify_intent_body_def and_then_def)
    next
      case loaded: (Inr res)
      show ?thesis
      proof (cases "\<exists>d. res = PDict d")
        case False
        then have "\<exists>e. py_get res ''intent'' (PStr ''unknown'') = Inl e"
          by (cases res) (simp_all add: py_get_def)
        with Inr Some loaded show ?thesis
          by (auto simp: classify_intent_body_def and_then_def)
      next
        case True
        then obtain d where d: "res = PDict d" by blast
        from assms Inr Some loaded d
        have "(\<exists>e. entities_validate llm (dict_get_default d ''entities'' (PDict [])) = Inl e)
            \<or> (\<exists>e. py_float llm (dict_get_default d ''confidence'' (PFloat (1/2))) = Inl e)
            \<or> (\<exists>e. bool_validate llm (dict_get_default d ''requires_clarification''
                                         (PBool False)) = Inl e)
            \<or> (\<exists>e. opt_str_validate llm (dict_get_default d ''clarification_question'' PNone)
                   = Inl e)"
          by auto
        with Inr Some loaded d show ?thesis
          by (auto simp: classify_intent_body_def and_then_def py_get_def Let_def
                split: sum.splits)
      qed
    qed
  qed
qed

text \<open>
  Claim C3. For every message and history, when anything raises inside the \<open>try\<close> block
  of \<open>classify_intent\<close> (the chat-completion call itself; an answer without text or with a
  text that \<open>json.loads\<close> rejects; JSON that is no object; entities that
  \<open>ExtractedEntities\<close> refuses; a confidence that \<open>float\<close> refuses; a
  \<open>requires_clarification\<close> or \<open>clarification_question\<close> that the result model refuses),
  \<open>classify_intent\<close> returns the fallback: intent \<open>unknown\<close>, confidence 0.0, an
  \<open>ExtractedEntities\<close> with every field absent, \<open>requires_clarification\<close> true and a
  non-empty clarification question. The result is a value: no exception leaves the function.
\<close>

theorem classify_intent_failure_fallback:
  assumes "(\<exists>e. classify_intent_body llm n message history = Inl e)
         \<or> (\<exists>e. create llm n (classify_request message history) = Inl e)
         \<or> (\<exists>pm. create llm n (classify_request message history) = Inr pm
               \<and> (pm_content pm = None
                  \<or> (\<exists>c. pm_content pm = Some c
                        \<and> ((\<exists>e. json_loads llm c = Inl e)
                           \<or> (\<exists>res. json_loads llm c = Inr res \<and> (\<forall>d. res \<noteq> PDict d))
                           \<or> (\<exists>d. json_loads llm c = Inr (PDict d)
                                 \<and> ((\<exists>e. entities_validate llm
                                             (dict_get_default d ''entities'' (PDict [])) = Inl e)
                                    \<or> (\<exists>e. py_float llm
                                             (dict_get_default d ''confidence'' (PFloat (1/2)))
                                           = Inl e)
                                    \<or> (\<exists>e. bool_validate llm
                                             (dict_get_default d ''requires_clarification''
                                                (PBool False)) = Inl e)
                                    \<or> (\<exists>e. opt_str_validate llm
                                             (dict_get_default d ''clarification_question'' PNone)
                                           = Inl e)))))))"
  shows "classify_intent llm n message history
           = \<lparr>intent = UNKNOWN, confidence = 0,
              entities = \<lparr>product_names = None, categories = None, brands = None,
                           price_min = None, price_max = None, order_id = None,
                           quantity = None, attributes = None\<rparr>,
              requires_clarification = True,
              clarification_question =
                Some (''I'' @ [CHR 0x27]
                      @ ''m not sure I understood that. Could you please rephrase?'')\<rparr>
       \<and> (\<exists>q. clarification_question (classify_intent llm n message history) = Some q
                \<and> q \<noteq> [])"
proof -
  from assms have "\<exists>e. classify_intent_body llm n message history = Inl e"
  proof (elim disjE)
    assume "\<exists>e. classify_intent_body llm n message history = Inl e"
    then show ?thesis .
  next
    assume "\<exists>e. create llm n (classify_request message history) = Inl e"
    then show ?thesis by (intro classify_intent_body_raises disjI1)
  next
    assume "\<exists>pm. create llm n (classify_request message history) = Inr pm
               \<and> (pm_content pm = None
                  \<or> (\<exists>c. pm_content pm = Some c
                        \<and> ((\<exists>e. json_loads llm c = Inl e)
                           \<or> (\<exists>res. json_loads llm c = Inr res \<and> (\<forall>d. res \<noteq> PDict d))
                           \<or> (\<exists>d. json_loads llm c = Inr (PDict d)
                                 \<and> ((\<exists>e. entities_validate llm
                                             (dict_get_default d ''entities'' (PDict [])) = Inl e)
                                    \<or> (\<exists>e. py_float llm
                                             (dict_get_default d ''confidence'' (PFloat (1/2)))
                                           = Inl e)
                                    \<or> (\<exists>e. bool_validate llm
                                             (dict_get_default d ''requires_clarification''
                                                (PBool False)) = Inl e)
                                    \<or> (\<exists>e. opt_str_validate llm
                                             (dict_get_default d ''clarification_question'' PNone)
                                           = Inl e))))))"
    then show ?thesis by (intro classify_intent_body_raises disjI2)
  qed
  then have "classify_intent llm n message history = classification_fallback"
    by (auto simp: classify_intent_def)
  then show ?thesis
    by (simp add: classification_fallback_def no_entities_def)
qed

theorem classify_intent_failure_fallback_witness:
  "create (demo_llm (\<lambda>n req. Inl (Raised ''Connection error.''))) 0
       (classify_request ''where is my order'' [])
     = Inl (Raised ''Connection error.'')
   \<and> intent (classify_intent (demo_llm (\<lambda>n req. Inl (Raised ''Connection error.''))) 0
               ''where is my order'' []) = UNKNOWN
   \<and> confidence (classify_intent (demo_llm (\<lambda>n req. Inl (Raised ''Connection error.''))) 0
               ''where is my order'' []) = 0
   \<and> requires_clarification
        (classify_intent (demo_llm (\<lambda>n req. Inl (Raised ''Connection error.''))) 0
               ''where is my order'' [])
   \<and> create (demo_llm (\<lambda>n req. Inr \<lparr>pm_content = Some ''[]'', pm_tool_calls = []\<rparr>)) 0
       (classify_request ''where is my order'' [])
     = Inr \<lparr>pm_content = Some ''[]'', pm_tool_calls = []\<rparr>
   \<and> json_loads (demo_llm (\<lambda>n req. Inr \<lparr>pm_content = Some ''[]'', pm_tool_calls = []\<rparr>)) ''[]''
     = Inr (PList [])
   \<and> classify_intent (demo_llm (\<lambda>n req. Inr \<lparr>pm_content = Some ''[]'', pm_tool_calls = []\<rparr>)) 0
       ''where is my order'' [] = classification_fallback"
proof -
  let ?llm = "demo_llm (\<lambda>n req. Inl (Raised ''Connection error.''))"
  let ?llm2 = "demo_llm (\<lambda>n req. Inr \<lparr>pm_content = Some ''[]'', pm_tool_calls = []\<rparr>)"
  let ?req = "classify_request ''where is my order'' []"
  have c: "create ?llm 0 ?req = Inl (Raised ''Connection error.'')"
    by (simp add: demo_llm_def)
  then have h: "\<exists>e. create ?llm 0 ?req = Inl e" by blast
  note t1 = classify_intent_failure_fallback [of ?llm 0 "''where is my order''" "[]",
      OF disjI2, OF disjI1, OF h]
  have c2: "create ?llm2 0 ?req = Inr \<lparr>pm_content = Some ''[]'', pm_tool_calls = []\<rparr>"
    by (simp add: demo_llm_def)
  have j: "json_loads ?llm2 ''[]'' = Inr (PList [])"
    by (simp add: demo_llm_def)
  have h2: "\<exists>pm. create ?llm2 0 ?req = Inr pm
               \<and> (pm_content pm = None
                  \<or> (\<exists>c. pm_content pm = Some c
                        \<and> ((\<exists>e. json_loads ?llm2 c = Inl e)
                           \<or> (\<exists>res. json_loads ?llm2 c = Inr res \<and> (\<forall>d. res \<noteq> PDict d))
                           \<or> (\<exists>d. json_loads ?llm2 c = Inr (PDict d)
                                 \<and> ((\<exists>e. entities_validate ?llm2
                                             (dict_get_default d ''entities'' (PDict [])) = Inl e)
                                    \<or> (\<exists>e. py_float ?llm2
                                             (dict_get_default d ''confidence'' (PFloat (1/2)))
                                           = Inl e)
                                    \<or> (\<exists>e. bool_validate ?llm2
                                             (dict_get_default d ''requires_clarification''
                                                (PBool False)) = Inl e)
                                    \<or> (\<exists>e. opt_str_validate ?llm2
                                             (dict_get_default d ''clarification_question'' PNone)
                                           = Inl e))))))"
    using c2 j by auto
  note t2 = classify_intent_failure_fallback [of ?llm2 0 "''where is my order''" "[]",
      OF disjI2, OF disjI2, OF h2]
  from t2 have f2: "classify_intent ?llm2 0 ''where is my order'' [] = classification_fallback"
    by (simp add: classification_fallback_def no_entities_def)
  from t1 c c2 j f2 show ?thesis by simp
qed

lemma tool_call_requests_length:
  "tool_call_requests llm tcs = Inr reqs \<Longrightarrow> length reqs = length tcs"
proof (induction tcs arbitrary: reqs)
  case Nil
  then show ?case by simp
next
  case (Cons tc tcs)
  then show ?case
    by (auto simp: and_then_def split: sum.splits pyval.splits)
qed

text \<open>
  Claim C5 (as amended). \<open>call_with_tools\<close> never populates both fields: a result with
  tool calls has a non-empty list of them and the empty text, and a result with text has no
  tool calls. When anything in the \<open>try\<close> block raises (the provider call in particular),
  the result is the text \<open>I encountered an error: \<close> followed by \<open>str(e)\<close>, without
  tool calls. When the provider answers without tool calls, the text is the provider's, and
  it is empty when the provider gave none.
\<close>

theorem call_with_tools_shape:
  "(let r = call_with_tools llm n message system_prompt history in
      (\<forall>tcs. tool_calls r = Some tcs \<longrightarrow> tcs \<noteq> [] \<and> content r = [])
    \<and> (content r \<noteq> [] \<longrightarrow> tool_calls r = None)
    \<and> (\<forall>e. call_with_tools_body llm n message system_prompt history = Inl e \<longrightarrow>
          r = \<lparr>content = ''I encountered an error: '' @ str_exc e, tool_calls = None\<rparr>)
    \<and> (\<forall>e. create llm n (tools_request llm message system_prompt history) = Inl e \<longrightarrow>
          r = \<lparr>content = ''I encountered an error: '' @ str_exc e, tool_calls = None\<rparr>)
    \<and> (\<forall>pm. create llm n (tools_request llm message system_prompt history) = Inr pm
            \<and> pm_tool_calls pm = [] \<longrightarrow>
          r = \<lparr>content = (case pm_content pm of None \<Rightarrow> [] | Some c \<Rightarrow> c),
               tool_calls = None\<rparr>))"
proof -
  let ?r = "call_with_tools llm n message system_prompt history"
  let ?b = "call_with_tools_body llm n message system_prompt history"
  have body: "\<And>r. ?b = Inr r \<Longrightarrow>
      (\<forall>tcs. tool_calls r = Some tcs \<longrightarrow> tcs \<noteq> [] \<and> content r = [])
      \<and> (content r \<noteq> [] \<longrightarrow> tool_calls r = None)"
    by (auto simp: call_with_tools_body_def and_then_def
          split: sum.splits if_splits dest: tool_call_requests_length)
  have a: "(\<forall>tcs. tool_calls ?r = Some tcs \<longrightarrow> tcs \<noteq> [] \<and> content ?r = [])
      \<and> (content ?r \<noteq> [] \<longrightarrow> tool_calls ?r = None)"
  proof (cases ?b)
    case (Inl e)
    then show ?thesis by (simp add: call_with_tools_def)
  next
    case (Inr r)
    with body [OF Inr] show ?thesis by (simp add: call_with_tools_def)
  qed
  have c: "\<forall>e. ?b = Inl e \<longrightarrow>
          ?r = \<lparr>content = ''I encountered an error: '' @ str_exc e, tool_calls = None\<rparr>"
    by (simp add: call_with_tools_def)
  have d: "\<forall>e. create llm n (tools_request llm message system_prompt history) = Inl e \<longrightarrow>
          ?r = \<lparr>content = ''I encountered an error: '' @ str_exc e, tool_calls = None\<rparr>"
    by (simp add: call_with_tools_def call_with_tools_body_def and_then_def)
  have e: "\<forall>pm. create llm n (tools_request llm message system_prompt history) = Inr pm
            \<and> pm_tool_calls pm = [] \<longrightarrow>
          ?r = \<lparr>content = (case pm_content pm of None \<Rightarrow> [] | Some c \<Rightarrow> c),
               tool_calls = None\<rparr>"
    by (simp add: call_with_tools_def call_with_tools_body_def and_then_def)
  from a c d e show ?thesis
    unfolding Let_def by (elim conjE, intro conjI) assumption+
qed

text \<open>
  Claim C5 as stated fails when the provider answers with neither text nor tool calls:
  the result has the empty text and no tool calls, so neither field is populated.
\<close>

theorem call_with_tools_empty_counterexample:
  "call_with_tools (demo_llm (\<lambda>n req. Inr \<lparr>pm_content = None, pm_tool_calls = []\<rparr>)) 1
     ''show me headphones'' SYSTEM_PROMPT []
   = \<lparr>content = [], tool_calls = None\<rparr>"
  by (simp add: call_with_tools_def call_with_tools_body_def and_then_def demo_llm_def)

theorem call_with_tools_shape_witness:
  "create (demo_llm (\<lambda>n req. Inl (Raised ''Connection error.''))) 1
       (tools_request (demo_llm (\<lambda>n req. Inl (Raised ''Connection error.'')))
          ''show me headphones'' SYSTEM_PROMPT [])
     = Inl (Raised ''Connection error.'')
   \<and> call_with_tools (demo_llm (\<lambda>n req. Inl (Raised ''Connection error.''))) 1
       ''show me headphones'' SYSTEM_PROMPT []
     = \<lparr>content = ''I encountered an error: Connection error.'', tool_calls = None\<rparr>"
proof -
  let ?llm = "demo_llm (\<lambda>n req. Inl (Raised ''Connection error.''))"
  have c: "create ?llm 1 (tools_request ?llm ''show me headphones'' SYSTEM_PROMPT [])
      = Inl (Raised ''Connection error.'')"
    by (simp add: demo_llm_def)
  note t = call_with_tools_shape [of ?llm 1 "''show me headphones''" SYSTEM_PROMPT "[]",
      unfolded Let_def]
  from t c have "call_with_tools ?llm 1 ''show me headphones'' SYSTEM_PROMPT []
     = \<lparr>content = ''I encountered an error: '' @ str_exc (Raised ''Connection error.''),
        tool_calls = None\<rparr>"
    by blast
  with c show ?thesis by simp
qed


section \<open>Properties of the orchestrator\<close>

lemmas gateway_defs = classify_intent_def classify_intent_body_def classify_request_def
  py_get_def Intent_of_def dict_get_default_def dict_get_def dict_item_def py_item_def
  call_with_tools_def call_with_tools_body_def tools_request_def build_messages_def
  generate_response_def last_n_def no_entities_def demo_llm_def
  order_classification_text_def guest_classification_text_def search_classification_text_def
  search_arguments_text_def validate_entities_def lax_int_def lax_float_def lax_str_list_def
  lax_dict_def lax_bool_def

lemmas turn_defs = context_history_def process_message_def get_or_create_session_def get_conversation_history_def
  save_message_def dumps_column_def entities_model_dump_def opt_val_def respond_def
  run_tool_def suggestions_of_def tool_result_model_dump_def none_if_empty_def
  get_follow_up_questions_def demo_draws_def execute_tool_def execute_tool_body_def
  list_result_def failed_result_def order_status_dict_def order_summary_dict_def
  order_by_id_def py_min_int_def demo_order_def

text \<open>The tool loop: what one round does, that it ends, and that it asks the provider at
  most \<open>max_tool_iterations\<close> times.\<close>

lemma run_tool_plain:
  "run_tool t False tname arguments st
     = (let r = execute_tool (t_svc t) (take 8 (call_uuid (t_draws t) (length (tool_results st))))
                  tname arguments (t_db t) (t_user_id t)
        in Inr (st\<lparr>tool_results := tool_results st @ [tool_result_model_dump r],
                    tool_calls_made := tool_calls_made st @ [tname],
                    accumulated_results := accumulated_results st
                       @ [PDict [(''tool'', PStr tname), (''result'', result r)]]\<rparr>))"
  by (simp add: run_tool_def Let_def and_then_def)

lemma llm_calls_run_tool:
  "run_tool t sg tname arguments st = Inr st' \<Longrightarrow> llm_calls st' = llm_calls st"
  by (auto simp: run_tool_def Let_def dest!: and_then_Inr)

lemma llm_calls_run_tool_calls:
  "run_tool_calls t tcs st = Inr st' \<Longrightarrow> llm_calls st' = llm_calls st"
proof (induction tcs arbitrary: st)
  case Nil
  then show ?case by simp
next
  case (Cons tc tcs)
  from and_then_Inr [OF Cons.prems [simplified]] obtain st1 where
    "run_tool t True (tcr_tool_name tc) (tcr_arguments tc) st = Inr st1"
    "run_tool_calls t tcs st1 = Inr st'" by blast
  with Cons.IH [of st1] llm_calls_run_tool [of t True _ _ st st1] show ?case by simp
qed

lemma tool_loop_step:
  assumes "iteration < t_max_tool_iterations t"
  shows "tool_loop t iteration st
           = (case tool_calls (call_with_tools (t_llm t) (llm_calls st) (t_message t)
                                 SYSTEM_PROMPT (context_history t st)) of
                Some (tc # tcs) \<Rightarrow>
                  (case run_tool_calls t (tc # tcs) (st\<lparr>llm_calls := llm_calls st + 1\<rparr>) of
                     Inl e \<Rightarrow> Inl e
                   | Inr st2 \<Rightarrow> tool_loop t (iteration + 1) st2)
              | _ \<Rightarrow>
                  Inr (if content (call_with_tools (t_llm t) (llm_calls st) (t_message t)
                                     SYSTEM_PROMPT (context_history t st)) \<noteq> []
                       then st\<lparr>llm_calls := llm_calls st + 1,
                               response := content (call_with_tools (t_llm t) (llm_calls st)
                                             (t_message t) SYSTEM_PROMPT (context_history t st))\<rparr>
                       else st\<lparr>llm_calls := llm_calls st + 1\<rparr>))"
  using assms by (subst tool_loop.simps) (simp add: Let_def split: option.splits list.splits)

lemma tool_loop_done:
  "\<not> iteration < t_max_tool_iterations t \<Longrightarrow> tool_loop t iteration st = Inr st"
  by (subst tool_loop.simps) simp

text \<open>What a round that asks for tools leaves to the next one, when the loop returns.\<close>

lemma tool_loop_round:
  assumes "iteration < t_max_tool_iterations t"
      and "tool_loop t iteration st = Inr st'"
  shows "(\<exists>tcs st2.
            tool_calls (call_with_tools (t_llm t) (llm_calls st) (t_message t) SYSTEM_PROMPT
                          (context_history t st)) = Some tcs \<and> tcs \<noteq> []
          \<and> run_tool_calls t tcs (st\<lparr>llm_calls := llm_calls st + 1\<rparr>) = Inr st2
          \<and> tool_loop t (iteration + 1) st2 = Inr st')
       \<or> (llm_calls st' = llm_calls st + 1
          \<and> accumulated_results st' = accumulated_results st
          \<and> (response st' = response st
              \<or> response st' = content (call_with_tools (t_llm t) (llm_calls st) (t_message t)
                                           SYSTEM_PROMPT (context_history t st))))"
  using assms(2) unfolding tool_loop_step [OF assms(1)]
  by (auto split: option.splits list.splits sum.splits if_splits)

lemma tool_loop_calls_bounded:
  "tool_loop t iteration st = Inr st' \<Longrightarrow>
   llm_calls st' \<le> llm_calls st + nat (t_max_tool_iterations t - iteration)"
proof (induction "nat (t_max_tool_iterations t - iteration)" arbitrary: iteration st)
  case 0
  then have "\<not> iteration < t_max_tool_iterations t" by simp
  with "0.prems" show ?case by (simp add: tool_loop_done)
next
  case (Suc k)
  then have lt: "iteration < t_max_tool_iterations t" by simp
  from tool_loop_round [OF lt Suc.prems] consider
      (more) tcs st2 where
        "run_tool_calls t tcs (st\<lparr>llm_calls := llm_calls st + 1\<rparr>) = Inr st2"
        "tool_loop t (iteration + 1) st2 = Inr st'"
    | (last) "llm_calls st' = llm_calls st + 1"
    by blast
  then show ?case
  proof cases
    case more
    note rt = more(1) and nx = more(2)
    from Suc.hyps(2) have "k = nat (t_max_tool_iterations t - (iteration + 1))" by simp
    from Suc.hyps(1) [OF this nx]
    have "llm_calls st' \<le> llm_calls st2 + nat (t_max_tool_iterations t - (iteration + 1))" .
    moreover from llm_calls_run_tool_calls [OF rt] have "llm_calls st2 = llm_calls st + 1"
      by simp
    ultimately show ?thesis using lt by simp
  next
    case last
    with lt show ?thesis by simp
  qed
qed

text \<open>Every entry of \<open>accumulated_results\<close> is a dictionary with the keys \<open>tool\<close> and
  \<open>result\<close>, and \<open>generate_response\<close> reads the key \<open>tool_name\<close>: once a tool has
  run, the call that should synthesize the response raises \<open>KeyError\<close>.\<close>

lemma generate_response_KeyError:
  "generate_response llm n message system_prompt history
     (PDict [(''tool'', a), (''result'', b)] # rest) = Inl (KeyError ''tool_name'')"
  by (simp add: generate_response_def py_item_def dict_item_def and_then_def)

lemma generate_response_entries:
  assumes "acc \<noteq> []"
      and "list_all (\<lambda>v. \<exists>a b. v = PDict [(''tool'', a), (''result'', b)]) acc"
  shows "generate_response llm n message system_prompt history acc = Inl (KeyError ''tool_name'')"
proof -
  from assms obtain a b rest where "acc = PDict [(''tool'', a), (''result'', b)] # rest"
    by (cases acc) auto
  then show ?thesis by (simp add: generate_response_KeyError)
qed

lemma run_tool_entries:
  "run_tool t sg tname arguments st = Inr st' \<Longrightarrow>
   list_all (\<lambda>v. \<exists>a b. v = PDict [(''tool'', a), (''result'', b)]) (accumulated_results st) \<Longrightarrow>
   list_all (\<lambda>v. \<exists>a b. v = PDict [(''tool'', a), (''result'', b)]) (accumulated_results st')
   \<and> accumulated_results st' \<noteq> []"
  by (auto simp: run_tool_def Let_def dest!: and_then_Inr)

lemma run_tool_calls_entries:
  "run_tool_calls t tcs st = Inr st' \<Longrightarrow>
   list_all (\<lambda>v. \<exists>a b. v = PDict [(''tool'', a), (''result'', b)]) (accumulated_results st) \<Longrightarrow>
   list_all (\<lambda>v. \<exists>a b. v = PDict [(''tool'', a), (''result'', b)]) (accumulated_results st')"
proof (induction tcs arbitrary: st)
  case Nil
  then show ?case by simp
next
  case (Cons tc tcs)
  from and_then_Inr [OF Cons.prems(1) [simplified]] obtain st1 where
    a: "run_tool t True (tcr_tool_name tc) (tcr_arguments tc) st = Inr st1"
    and b: "run_tool_calls t tcs st1 = Inr st'" by blast
  from run_tool_entries [OF a Cons.prems(2)] Cons.IH [OF b] show ?case by simp
qed

lemma tool_loop_entries:
  "tool_loop t iteration st = Inr st' \<Longrightarrow>
   list_all (\<lambda>v. \<exists>a b. v = PDict [(''tool'', a), (''result'', b)]) (accumulated_results st) \<Longrightarrow>
   list_all (\<lambda>v. \<exists>a b. v = PDict [(''tool'', a), (''result'', b)]) (accumulated_results st')"
proof (induction "nat (t_max_tool_iterations t - iteration)" arbitrary: iteration st)
  case 0
  then have "\<not> iteration < t_max_tool_iterations t" by simp
  with "0.prems" show ?case by (simp add: tool_loop_done)
next
  case (Suc k)
  then have lt: "iteration < t_max_tool_iterations t" by simp
  from tool_loop_round [OF lt Suc.prems(1)] consider
      (more) tcs st2 where
        "run_tool_calls t tcs (st\<lparr>llm_calls := llm_calls st + 1\<rparr>) = Inr st2"
        "tool_loop t (iteration + 1) st2 = Inr st'"
    | (last) "accumulated_results st' = accumulated_results st"
    by blast
  then show ?case
  proof cases
    case more
    note rt = more(1) and nx = more(2)
    from Suc.hyps(2) have k: "k = nat (t_max_tool_iterations t - (iteration + 1))" by simp
    have "list_all (\<lambda>v. \<exists>a b. v = PDict [(''tool'', a), (''result'', b)])
            (accumulated_results st2)"
      using Suc.prems(2) by (intro run_tool_calls_entries [OF rt]) simp
    from Suc.hyps(1) [OF k nx this] show ?thesis .
  next
    case last
    with Suc.prems(2) show ?thesis by simp
  qed
qed

lemma product_turn_raises:
  assumes "intent ir \<in> {PRODUCT_SEARCH, PRODUCT_RECOMMENDATION, PRODUCT_DETAILS}"
      and "accumulated_results st = []"
      and "tool_loop t 0 st = Inr st'"
      and "response st' = []"
      and "accumulated_results st' \<noteq> []"
  shows "respond t ir st = Inl (KeyError ''tool_name'')"
proof -
  have "list_all (\<lambda>v. \<exists>a b. v = PDict [(''tool'', a), (''result'', b)])
          (accumulated_results st')"
    using assms(2) by (intro tool_loop_entries [OF assms(3)]) simp
  from generate_response_entries [OF assms(5) this]
  have "generate_response (t_llm t) (llm_calls st') (t_message t) SYSTEM_PROMPT
          (t_history t) (accumulated_results st') = Inl (KeyError ''tool_name'')" .
  with assms(1,3,4) show ?thesis
    by (auto simp: respond_def Let_def and_then_def)
qed

lemma order_lookup_raises:
  assumes "intent ir \<in> {ORDER_HELP, ORDER_STATUS}"
      and "accumulated_results st = []"
      and "(\<exists>oid. order_id (entities ir) = Some oid \<and> oid \<noteq> 0)
           \<or> (t_user_id t \<noteq> None \<and> t_user_id t \<noteq> Some 0)"
  shows "respond t ir st = Inl (KeyError ''tool_name'')"
  using assms
  by (auto simp: respond_def Let_def and_then_def run_tool_plain generate_response_KeyError
        split: option.splits)

lemma order_lookup_guest:
  assumes "intent ir \<in> {ORDER_HELP, ORDER_STATUS}"
      and "order_id (entities ir) = None \<or> order_id (entities ir) = Some 0"
      and "t_user_id t = None \<or> t_user_id t = Some 0"
  shows "respond t ir st
           = and_then (generate_response (t_llm t) (llm_calls st) (t_message t) SYSTEM_PROMPT
                         (t_history t) (accumulated_results st))
               (\<lambda>r. Inr (st\<lparr>llm_calls := llm_calls st + 1\<rparr>, r))"
  using assms
  by (auto simp: respond_def Let_def and_then_def split: option.splits)

lemma search_provider_round:
  "call_with_tools (demo_llm search_provider) n message system_prompt history
     = \<lparr>content = [],
        tool_calls = Some [\<lparr>tcr_call_id = ''call_1'', tcr_tool_name = ''search_products'',
                            tcr_arguments = [(''query'', PStr ''headphones'')]\<rparr>]\<rparr>"
  by (simp add: gateway_defs search_provider_def and_then_def)

lemma search_provider_classifies:
  "classify_intent (demo_llm search_provider) n message history
     = \<lparr>intent = PRODUCT_SEARCH, confidence = 1/2, entities = no_entities,
        requires_clarification = False, clarification_question = None\<rparr>"
  by (simp add: gateway_defs search_provider_def and_then_def)

lemma empty_index_search_products:
  "execute_tool (demo_service []) cid ''search_products'' [(''query'', PStr ''headphones'')]
     db user_id
     = \<lparr>call_id = cid, tool_name = ''search_products'', result = PList [], success = True,
        error_message = None\<rparr>"
  by (simp add: execute_tool_def execute_tool_body_def py_min_int_def dict_get_default_def
        dict_get_def list_result_def search_def effective_min_score_def and_then_def
        build_filter_def demo_service_def Let_def)

lemma search_provider_loop:
  assumes "t_llm t = demo_llm search_provider" and "t_svc t = demo_service []"
      and "t_max_tool_iterations t = 3"
  shows "\<exists>st'. tool_loop t 0 st = Inr st'
       \<and> response st' = response st
       \<and> (\<exists>rest. accumulated_results st'
             = accumulated_results st
               @ PDict [(''tool'', PStr ''search_products''), (''result'', PList [])] # rest)"
  using assms
  by (simp add: tool_loop.simps search_provider_round run_tool_def suggestions_of_def
        empty_index_search_products and_then_def Let_def)

lemma search_provider_respond:
  assumes "t_llm t = demo_llm search_provider" and "t_svc t = demo_service []"
      and "t_max_tool_iterations t = 3"
      and "intent ir = PRODUCT_SEARCH" and "response st = []" and "accumulated_results st = []"
  shows "respond t ir st = Inl (KeyError ''tool_name'')"
proof -
  from search_provider_loop [OF assms(1,2,3), of st] assms(5,6)
  obtain st' where "tool_loop t 0 st = Inr st'" "response st' = []"
    "accumulated_results st' \<noteq> []"
    by auto
  with assms(4,6) show ?thesis
    by (intro product_turn_raises [of ir st t st']) simp_all
qed

text \<open>
  Claim C4, at a failing input. The message is classified as \<open>product_search\<close> and the
  provider asks for a tool in each of the 3 rounds, so the loop ends without a response
  text. The fallback \<open>generate_response\<close> on the accumulated tool results raises
  \<open>KeyError('tool_name')\<close> instead of producing the response.
\<close>

theorem search_turn_raises:
  "process_message (demo_llm search_provider) (demo_service []) demo_draws
     ''show me headphones'' demo_db None None 3
   = (demo_db\<lparr>conversation_sessions :=
                 [\<lparr>s_id = ''3f2b8c1e-session'', s_user_id = None, s_is_active = True\<rparr>],
              conversation_messages :=
                 [\<lparr>m_id = 1, m_session_id = ''3f2b8c1e-session'', m_role = ''user'',
                   m_content = ''show me headphones'', m_intent = Some ''product_search'',
                   m_entities = Some (PDict (entities_model_dump no_entities)),
                   m_tool_calls = None, m_tool_results = None, m_created_at = 1001\<rparr>]\<rparr>,
      Inl (KeyError ''tool_name''))"
  by (simp add: process_message_def get_or_create_session_def get_conversation_history_def
        demo_db_def demo_draws_def search_provider_classifies save_message_def
        dumps_column_def entities_model_dump_def opt_val_def no_entities_def
        and_then_def Let_def search_provider_respond)

lemma order_provider_classifies:
  "classify_intent (demo_llm order_provider) n message history
     = \<lparr>intent = ORDER_STATUS, confidence = 1/2, entities = no_entities\<lparr>order_id := Some 42\<rparr>,
        requires_clarification = False, clarification_question = None\<rparr>"
  by (simp add: gateway_defs order_provider_def and_then_def)

text \<open>
  Claim C7, at a failing input. A signed-in caller asks for the status of order 42 and the
  message is classified as \<open>order_status\<close> with \<open>order_id = 42\<close>. The
  \<open>check_order_status\<close> tool runs, and \<open>generate_response\<close> then reads
  \<open>result['tool_name']\<close> from an accumulated entry whose keys are \<open>tool\<close> and
  \<open>result\<close>: the turn ends with \<open>KeyError('tool_name')\<close>, the user message stored and
  no response synthesized.
\<close>

theorem order_status_turn_raises:
  "process_message (demo_llm order_provider) (demo_service []) demo_draws
     ''where is order 42'' demo_db None (Some 7) 3
   = (demo_db\<lparr>conversation_sessions :=
                 [\<lparr>s_id = ''3f2b8c1e-session'', s_user_id = Some 7, s_is_active = True\<rparr>],
              conversation_messages :=
                 [\<lparr>m_id = 1, m_session_id = ''3f2b8c1e-session'', m_role = ''user'',
                   m_content = ''where is order 42'', m_intent = Some ''order_status'',
                   m_entities = Some (PDict (entities_model_dump (no_entities\<lparr>order_id := Some 42\<rparr>))),
                   m_tool_calls = None, m_tool_results = None, m_created_at = 1001\<rparr>]\<rparr>,
      Inl (KeyError ''tool_name''))"
proof -
  have raises: "\<And>t ir st. intent ir = ORDER_STATUS \<Longrightarrow> order_id (entities ir) = Some 42 \<Longrightarrow>
      accumulated_results st = [] \<Longrightarrow> respond t ir st = Inl (KeyError ''tool_name'')"
    by (rule order_lookup_raises) simp_all
  show ?thesis
    by (simp add: process_message_def get_or_create_session_def get_conversation_history_def
          demo_db_def demo_draws_def order_provider_classifies save_message_def
          dumps_column_def entities_model_dump_def opt_val_def no_entities_def
          and_then_def Let_def raises)
qed

text \<open>The turn of a guest who names no order: no tool runs and the response is
  synthesized, with neither tool calls nor suggestions in the bundle.\<close>

lemma guest_provider_classifies:
  "classify_intent (demo_llm guest_provider) n message history
     = \<lparr>intent = ORDER_STATUS, confidence = 1/2, entities = no_entities,
        requires_clarification = False, clarification_question = None\<rparr>"
  by (simp add: gateway_defs guest_provider_def and_then_def)

lemma guest_provider_answers:
  "generate_response (demo_llm guest_provider) n message system_prompt history []
     = Inr (Some ''Please log in or tell me your order number.'')"
  by (simp add: generate_response_def and_then_def demo_llm_def guest_provider_def)

lemma guest_order_turn_responds:
  "snd (process_message (demo_llm guest_provider) (demo_service []) demo_draws
          ''where is my order'' demo_db None None 3)
   = Inr \<lparr>r_response = ''Please log in or tell me your order number.'',
          r_session_id = ''3f2b8c1e-session'', r_intent = ORDER_STATUS,
          r_entities = no_entities, r_suggestions = None, r_tool_calls_made = None,
          r_follow_up_questions = None\<rparr>"
  by (simp add: process_message_def get_or_create_session_def get_conversation_history_def
        demo_db_def demo_draws_def guest_provider_classifies save_message_def
        dumps_column_def entities_model_dump_def opt_val_def none_if_empty_def
        get_follow_up_questions_def and_then_def Let_def no_entities_def
        order_lookup_guest guest_provider_answers)

text \<open>A product search that finds nothing and is answered in the second round returns the
  provider's text. When the search finds a product, the tool result holds the product's
  \<open>created_at\<close> as a \<open>datetime\<close>, and storing the assistant message raises on
  \<open>json.dumps(tool_results)\<close>.\<close>

lemma found_provider_classifies:
  "classify_intent (demo_llm found_provider) n message history
     = \<lparr>intent = PRODUCT_SEARCH, confidence = 1/2, entities = no_entities,
        requires_clarification = False, clarification_question = None\<rparr>"
  by (simp add: gateway_defs found_provider_def and_then_def)

lemma found_provider_first_round:
  "call_with_tools (demo_llm found_provider) (Suc 0) message system_prompt history
     = \<lparr>content = [],
        tool_calls = Some [\<lparr>tcr_call_id = ''call_1'', tcr_tool_name = ''search_products'',
                            tcr_arguments = [(''query'', PStr ''headphones'')]\<rparr>]\<rparr>"
  by (simp add: gateway_defs found_provider_def and_then_def)

lemma found_provider_second_round:
  "call_with_tools (demo_llm found_provider) (Suc (Suc 0)) message system_prompt history
     = \<lparr>content = ''I found Headphones for $59.00.'', tool_calls = None\<rparr>"
  by (simp add: gateway_defs found_provider_def and_then_def)

lemma one_match_search_products:
  assumes "products db = products demo_db" and "bind_id db = bind_id demo_db"
  shows "execute_tool (demo_service [\<lparr>match_id = 1, match_score = 9/10\<rparr>]) cid
           ''search_products'' [(''query'', PStr ''headphones'')] db user_id
     = \<lparr>call_id = cid, tool_name = ''search_products'',
        result = PList [search_result_to_dict
                          \<lparr>product = demo_product 1 True, similarity = 9/10\<rparr>],
        success = True, error_message = None\<rparr>"
  using assms
  by (simp add: execute_tool_def execute_tool_body_def py_min_int_def dict_get_default_def
        dict_get_def list_result_def search_def effective_min_score_def and_then_def
        build_filter_def product_by_id_def int_eq_def new_SearchResult_def py_round_def
        round_half_even_def model_validate_def demo_db_def demo_service_def demo_product_def
        sqlite_bind_def int64_def Let_def)

lemma text_round_ends_turn:
  "snd (process_message (demo_llm found_provider) (demo_service []) demo_draws
          ''show me headphones'' demo_db None None 3)
   = Inr \<lparr>r_response = ''I found Headphones for $59.00.'',
          r_session_id = ''3f2b8c1e-session'', r_intent = PRODUCT_SEARCH,
          r_entities = no_entities, r_suggestions = None,
          r_tool_calls_made = Some [''search_products''],
          r_follow_up_questions =
            Some [''Would you like me to filter by price range?'',
                  ''Should I show more options?'',
                  ''Want details about any of these products?'']\<rparr>"
  by (simp add: process_message_def get_or_create_session_def get_conversation_history_def
        demo_db_def demo_draws_def found_provider_classifies save_message_def
        dumps_column_def entities_model_dump_def opt_val_def none_if_empty_def
        get_follow_up_questions_def and_then_def Let_def no_entities_def respond_def
        tool_loop.simps context_history_def run_tool_def suggestions_of_def
        tool_result_model_dump_def found_provider_first_round found_provider_second_round
        empty_index_search_products)

lemma found_products_turn_raises:
  "snd (process_message (demo_llm found_provider)
          (demo_service [\<lparr>match_id = 1, match_score = 9/10\<rparr>]) demo_draws
          ''show me headphones'' demo_db None None 3)
   = Inl (TypeError ''Object of type datetime is not JSON serializable'')"
  by (simp add: process_message_def get_or_create_session_def get_conversation_history_def
        found_provider_classifies save_message_def
        dumps_column_def entities_model_dump_def opt_val_def none_if_empty_def
        get_follow_up_questions_def and_then_def Let_def no_entities_def respond_def
        tool_loop.simps context_history_def run_tool_def suggestions_of_def
        tool_result_model_dump_def found_provider_first_round found_provider_second_round
        one_match_search_products search_result_to_dict_def product_model_dump_def
        demo_draws_def product_by_id_def demo_db_def sqlite_bind_def int64_def
        model_validate_def demo_product_def)

section \<open>Properties of the conversation store\<close>

lemma save_message_appends:
  assumes "save_message dr db sid rl c i e tc tr = Inr (db', m)"
  shows "conversation_messages db' = conversation_messages db @ [m]
       \<and> m_session_id m = sid \<and> m_role m = rl \<and> c = Some (m_content m)
       \<and> m_created_at m = utcnow dr (int (length (conversation_messages db)) + 1)
       \<and> products db' = products db \<and> orders db' = orders db
       \<and> conversation_sessions db' = conversation_sessions db"
  using assms
  by (auto simp: save_message_def Let_def split: option.splits dest!: and_then_Inr)

lemma sort_key_decreasing:
  "sorted_wrt (\<lambda>a b. f a < f b) xs \<Longrightarrow> sort_key (\<lambda>x. - f x) xs = rev xs" for f :: "'a \<Rightarrow> int"
proof (induction xs)
  case Nil
  then show ?case by simp
next
  case (Cons x xs)
  then have ih: "sort_key (\<lambda>x. - f x) xs = rev xs" by simp
  from Cons.prems have lt: "\<forall>y \<in> set xs. f x < f y" by simp
  have ins: "\<And>ys. \<forall>y \<in> set ys. f x < f y \<Longrightarrow> insort_key (\<lambda>x. - f x) x ys = ys @ [x]"
  proof -
    fix ys show "\<forall>y \<in> set ys. f x < f y \<Longrightarrow> insort_key (\<lambda>x. - f x) x ys = ys @ [x]"
      by (induction ys) auto
  qed
  from lt have "\<forall>y \<in> set (rev xs). f x < f y" by simp
  from ins [OF this] ih show ?case by simp
qed


lemma save_all_log:
  "save_all dr db ws = Inr db' \<Longrightarrow>
   \<exists>rows. conversation_messages db' = conversation_messages db @ rows
        \<and> map (\<lambda>m. (m_session_id m, m_role m, m_content m)) rows
            = map (\<lambda>w. (w_session_id w, w_role w, w_content w)) ws
        \<and> map m_created_at rows
            = map (\<lambda>k. utcnow dr (int k + 1))
                [length (conversation_messages db) ..<
                 length (conversation_messages db) + length ws]"
proof (induction ws arbitrary: db)
  case Nil
  then show ?case by simp
next
  case (Cons w ws)
  from Cons.prems obtain db1 m where
    sv: "save_message dr db (w_session_id w) (w_role w) (Some (w_content w)) (w_intent w)
           (w_entities w) (w_tool_calls w) (w_tool_results w) = Inr (db1, m)"
    and rest: "save_all dr db1 ws = Inr db'"
    by (auto dest!: and_then_Inr)
  note a = save_message_appends [OF sv]
  from Cons.IH [OF rest] obtain rows where
    r1: "conversation_messages db' = conversation_messages db1 @ rows"
    and r2: "map (\<lambda>m. (m_session_id m, m_role m, m_content m)) rows
            = map (\<lambda>w. (w_session_id w, w_role w, w_content w)) ws"
    and r3: "map m_created_at rows
            = map (\<lambda>k. utcnow dr (int k + 1))
                [length (conversation_messages db1) ..<
                 length (conversation_messages db1) + length ws]"
    by blast
  let ?n = "length (conversation_messages db)"
  have len: "length (conversation_messages db1) = Suc ?n" using a by simp
  have up: "[?n ..< ?n + length (w # ws)] = ?n # [Suc ?n ..< Suc ?n + length ws]"
    by (subst upt_rec) simp
  have "conversation_messages db' = conversation_messages db @ (m # rows)"
    using r1 a by simp
  moreover have "map (\<lambda>m. (m_session_id m, m_role m, m_content m)) (m # rows)
            = map (\<lambda>w. (w_session_id w, w_role w, w_content w)) (w # ws)"
    using r2 a by simp
  moreover have "map m_created_at (m # rows)
            = map (\<lambda>k. utcnow dr (int k + 1)) [?n ..< ?n + length (w # ws)]"
    unfolding up using r3 a len by simp
  ultimately show ?case by blast
qed

lemma stamps_increasing:
  assumes "strict_mono (utcnow dr)"
      and "map m_created_at rows = map (\<lambda>k. utcnow dr (int k + 1)) [n ..< n + l]"
  shows "sorted_wrt (\<lambda>a b. m_created_at a < m_created_at b) rows"
proof -
  have "sorted_wrt (<) [n ..< n + l]" by simp
  then have "sorted_wrt (\<lambda>i j. utcnow dr (int i + 1) < utcnow dr (int j + 1)) [n ..< n + l]"
    by (rule sorted_wrt_mono_rel [rotated]) (use assms(1) in \<open>simp add: strict_mono_def\<close>)
  then have "sorted_wrt (<) (map (\<lambda>k. utcnow dr (int k + 1)) [n ..< n + l])"
    by (simp add: sorted_wrt_map)
  with assms(2) have "sorted_wrt (<) (map m_created_at rows)" by simp
  then show ?thesis by (simp add: sorted_wrt_map)
qed

lemma filter_rows_writes:
  "map (\<lambda>m. (m_session_id m, m_role m, m_content m)) rows
     = map (\<lambda>w. (w_session_id w, w_role w, w_content w)) ws \<Longrightarrow>
   map (\<lambda>m. \<lparr>msg_role = m_role m, msg_content = m_content m\<rparr>)
       (filter (\<lambda>m. m_session_id m = sid) rows)
     = map (\<lambda>w. \<lparr>msg_role = w_role w, msg_content = w_content w\<rparr>)
         (filter (\<lambda>w. w_session_id w = sid) ws)"
proof (induction rows arbitrary: ws)
  case Nil
  then show ?case by simp
next
  case (Cons m rows)
  then obtain w ws' where ws: "ws = w # ws'" by (cases ws) auto
  with Cons show ?case by auto
qed

lemma history_of_increasing:
  assumes "sorted_wrt (\<lambda>a b. m_created_at a < m_created_at b) (conversation_messages db)"
      and "length (filter (\<lambda>m. m_session_id m = sid) (conversation_messages db)) \<le> limit"
  shows "get_conversation_history db sid limit
           = map (\<lambda>m. \<lparr>msg_role = m_role m, msg_content = m_content m\<rparr>)
               (filter (\<lambda>m. m_session_id m = sid) (conversation_messages db))"
proof -
  let ?xs = "filter (\<lambda>m. m_session_id m = sid) (conversation_messages db)"
  have "sorted_wrt (\<lambda>a b. m_created_at a < m_created_at b) ?xs"
    using assms(1) by (rule sorted_wrt_filter)
  then have "sort_key (\<lambda>m. - m_created_at m) ?xs = rev ?xs"
    by (rule sort_key_decreasing)
  moreover have "take limit (rev ?xs) = rev ?xs"
    using assms(2) by simp
  ultimately show ?thesis
    by (simp add: get_conversation_history_def)
qed


lemma get_or_create_session_messages:
  "get_or_create_session dr db session_id user_id = (db1, session) \<Longrightarrow>
   conversation_messages db1 = conversation_messages db"
  by (auto simp: get_or_create_session_def Let_def split: option.splits if_splits)

lemma process_message_appends:
  "\<exists>new. conversation_messages (fst (process_message llm svc dr message db session_id user_id k))
           = conversation_messages db @ new"
proof -
  obtain db1 session where g: "get_or_create_session dr db session_id user_id = (db1, session)"
    by (cases "get_or_create_session dr db session_id user_id")
  note m1 = get_or_create_session_messages [OF g]
  let ?ir = "classify_intent llm 0 message (get_conversation_history db1 (s_id session) 20)"
  let ?s1 = "save_message dr db1 (s_id session) ''user'' (Some message)
                (Some (intent_value (intent ?ir)))
                (Some (PDict (entities_model_dump (entities ?ir)))) None None"
  show ?thesis
  proof (cases ?s1)
    case (Inl e)
    with g m1 show ?thesis by (simp add: process_message_def Let_def)
  next
    case (Inr saved)
    obtain db2 row where saved: "saved = (db2, row)" by (cases saved)
    from save_message_appends [OF Inr [unfolded saved]]
    have m2: "conversation_messages db2 = conversation_messages db @ [row]"
      using m1 by simp
    let ?t = "\<lparr>t_llm = llm, t_svc = svc, t_draws = dr, t_db = db2, t_user_id = user_id,
               t_message = message,
               t_history = get_conversation_history db1 (s_id session) 20,
               t_max_tool_iterations = k\<rparr>"
    let ?st0 = "\<lparr>tool_calls_made = [], tool_results = [], suggestions = [],
                 accumulated_results = [], response = [], llm_calls = 1\<rparr>"
    show ?thesis
    proof (cases "respond ?t ?ir ?st0")
      case (Inl e)
      with g Inr saved m2 show ?thesis by (simp add: process_message_def Let_def)
    next
      case (Inr out)
      obtain st reply where out: "out = (st, reply)" by (cases out)
      let ?s2 = "save_message dr db2 (s_id session) ''assistant'' reply None None
                   (map_option (\<lambda>xs. PList (map PStr xs)) (none_if_empty (tool_calls_made st)))
                   (map_option PList (none_if_empty (tool_results st)))"
      show ?thesis
      proof (cases ?s2)
        case (Inl e)
        with g \<open>?s1 = Inr saved\<close> saved Inr out m2 show ?thesis
          by (simp add: process_message_def Let_def)
      next
        case (Inr saved2)
        obtain db3 row2 where saved2: "saved2 = (db3, row2)" by (cases saved2)
        from save_message_appends [OF Inr [unfolded saved2]] m2
        have m3: "conversation_messages db3 = conversation_messages db @ [row, row2]"
          by simp
        from g \<open>?s1 = Inr saved\<close> saved \<open>respond ?t ?ir ?st0 = Inr out\<close> out Inr saved2 m3
        show ?thesis
          by (simp add: process_message_def Let_def)
      qed
    qed
  qed
qed

lemma history_rows:
  assumes "length (filter (\<lambda>m. m_session_id m = sid) (conversation_messages db)) \<le> limit"
  shows "get_conversation_history db sid limit
           = map (\<lambda>m. \<lparr>msg_role = m_role m, msg_content = m_content m\<rparr>)
               (rev (sort_key (\<lambda>m. - m_created_at m)
                       (filter (\<lambda>m. m_session_id m = sid) (conversation_messages db))))"
  using assms by (simp add: get_conversation_history_def)

lemma rev_sort_key_sorted:
  "sorted (map f (rev (sort_key (\<lambda>x. - f x) xs)))" for f :: "'a \<Rightarrow> int"
proof -
  have "sorted (map (\<lambda>x. - f x) (sort_key (\<lambda>x. - f x) xs))" by (rule sorted_sort_key)
  then have "sorted_wrt (\<lambda>a b. f b \<le> f a) (sort_key (\<lambda>x. - f x) xs)"
    by (simp add: sorted_wrt_map)
  then show ?thesis
    by (simp add: sorted_wrt_map sorted_wrt_rev)
qed

text \<open>
  Claim C9 (as amended). After any sequence of successful \<open>_save_message\<close> calls (of
  any sessions, interleaved), \<open>_get_conversation_history\<close> of a session that had no
  message before, with a limit of at least the number of its messages, returns exactly the (role, content) pairs written for that session, each as often
  as it was written, ordered by \<open>created_at\<close>. That is the insertion order when the
  \<open>created_at\<close> of the session's rows increases strictly from each insert to the next;
  the query orders by the clock reading alone and says nothing about rows that carry the
  same one. Every successful \<open>_save_message\<close> appends one row and leaves the others as they
  are, and so does every turn of \<open>process_message\<close>, whether it returns or raises: no row
  is updated or deleted.
\<close>

theorem message_log_round_trip:
  assumes "save_all dr db ws = Inr db'"
      and "filter (\<lambda>m. m_session_id m = sid) (conversation_messages db) = []"
      and "length (filter (\<lambda>w. w_session_id w = sid) ws) \<le> limit"
  shows "mset (get_conversation_history db' sid limit)
           = mset (map (\<lambda>w. \<lparr>msg_role = w_role w, msg_content = w_content w\<rparr>)
                     (filter (\<lambda>w. w_session_id w = sid) ws))
       \<and> (\<exists>rows. mset rows = mset (filter (\<lambda>m. m_session_id m = sid) (conversation_messages db'))
              \<and> sorted (map m_created_at rows)
              \<and> get_conversation_history db' sid limit
                  = map (\<lambda>m. \<lparr>msg_role = m_role m, msg_content = m_content m\<rparr>) rows)
       \<and> (sorted_wrt (\<lambda>a b. m_created_at a < m_created_at b)
             (filter (\<lambda>m. m_session_id m = sid) (conversation_messages db'))
           \<longrightarrow> get_conversation_history db' sid limit
                 = map (\<lambda>w. \<lparr>msg_role = w_role w, msg_content = w_content w\<rparr>)
                     (filter (\<lambda>w. w_session_id w = sid) ws))
       \<and> (strict_mono (utcnow dr)
           \<longrightarrow> get_conversation_history db' sid limit
                 = map (\<lambda>w. \<lparr>msg_role = w_role w, msg_content = w_content w\<rparr>)
                     (filter (\<lambda>w. w_session_id w = sid) ws))
       \<and> (\<forall>dr0 db0 s r c i e tc tr db1 m.
             save_message dr0 db0 s r c i e tc tr = Inr (db1, m)
             \<longrightarrow> conversation_messages db1 = conversation_messages db0 @ [m])
       \<and> (\<forall>llm svc dr0 message db0 session_id user_id k.
             \<exists>new. conversation_messages
                     (fst (process_message llm svc dr0 message db0 session_id user_id k))
                   = conversation_messages db0 @ new)"
proof -
  let ?pair = "\<lambda>m. \<lparr>msg_role = m_role m, msg_content = m_content m\<rparr>"
  let ?wpair = "\<lambda>w. \<lparr>msg_role = w_role w, msg_content = w_content w\<rparr>"
  let ?xs = "filter (\<lambda>m. m_session_id m = sid) (conversation_messages db')"
  let ?rows = "rev (sort_key (\<lambda>m. - m_created_at m) ?xs)"
  from save_all_log [OF assms(1)] obtain rows where
    r1: "conversation_messages db' = conversation_messages db @ rows"
    and r2: "map (\<lambda>m. (m_session_id m, m_role m, m_content m)) rows
            = map (\<lambda>w. (w_session_id w, w_role w, w_content w)) ws"
    and r3: "map m_created_at rows
            = map (\<lambda>k. utcnow dr (int k + 1))
                [length (conversation_messages db) ..<
                 length (conversation_messages db) + length ws]"
    by blast
  have xs: "?xs = filter (\<lambda>m. m_session_id m = sid) rows"
    using assms(2) by (simp add: r1)
  note eq = filter_rows_writes [OF r2, of sid]
  have eq': "map ?pair ?xs = map ?wpair (filter (\<lambda>w. w_session_id w = sid) ws)"
    using eq by (simp only: xs)
  have "length ?xs = length (filter (\<lambda>w. w_session_id w = sid) ws)"
    using arg_cong [OF eq', of length] by simp
  with assms(3) have le: "length ?xs \<le> limit" by simp
  note h = history_rows [OF le]
  have perm: "mset ?rows = mset ?xs" by simp
  have "mset (map ?pair ?rows) = mset (map ?pair ?xs)"
    by simp
  then have a: "mset (get_conversation_history db' sid limit)
           = mset (map ?wpair (filter (\<lambda>w. w_session_id w = sid) ws))"
    by (simp only: h eq')
  have srt: "sorted (map m_created_at ?rows)" by (rule rev_sort_key_sorted)
  have b: "\<exists>rows. mset rows = mset ?xs \<and> sorted (map m_created_at rows)
              \<and> get_conversation_history db' sid limit = map ?pair rows"
    using perm srt h by blast
  have c: "sorted_wrt (\<lambda>a b. m_created_at a < m_created_at b) ?xs
           \<longrightarrow> get_conversation_history db' sid limit
                 = map ?wpair (filter (\<lambda>w. w_session_id w = sid) ws)"
  proof
    assume "sorted_wrt (\<lambda>a b. m_created_at a < m_created_at b) ?xs"
    then have "sort_key (\<lambda>m. - m_created_at m) ?xs = rev ?xs"
      by (rule sort_key_decreasing)
    then show "get_conversation_history db' sid limit
                 = map ?wpair (filter (\<lambda>w. w_session_id w = sid) ws)"
      by (simp only: h eq' [symmetric] rev_rev_ident)
  qed
  have d: "strict_mono (utcnow dr)
           \<longrightarrow> get_conversation_history db' sid limit
                 = map ?wpair (filter (\<lambda>w. w_session_id w = sid) ws)"
  proof
    assume mono: "strict_mono (utcnow dr)"
    have "sorted_wrt (\<lambda>a b. m_created_at a < m_created_at b) rows"
      using mono r3 by (rule stamps_increasing)
    then have "sorted_wrt (\<lambda>a b. m_created_at a < m_created_at b) ?xs"
      unfolding xs by (rule sorted_wrt_filter)
    with c show "get_conversation_history db' sid limit
                 = map ?wpair (filter (\<lambda>w. w_session_id w = sid) ws)" by blast
  qed
  have e: "\<forall>dr0 db0 s r c i e tc tr db1 m.
             save_message dr0 db0 s r c i e tc tr = Inr (db1, m)
             \<longrightarrow> conversation_messages db1 = conversation_messages db0 @ [m]"
    using save_message_appends by blast
  have f: "\<forall>llm svc dr0 message db0 session_id user_id k.
             \<exists>new. conversation_messages
                     (fst (process_message llm svc dr0 message db0 session_id user_id k))
                   = conversation_messages db0 @ new"
    using process_message_appends by blast
  from a b c d e f show ?thesis by (intro conjI)
qed

text \<open>
  Claim C9 as stated fails when two messages of a session carry the same \<open>created_at\<close>:
  the rows keep their table order under the descending sort, and the reversal that follows
  returns them last written first.
\<close>

theorem message_log_equal_stamps_counterexample:
  "written_then_read frozen_draws demo_db
     [demo_write ''s1'' ''user'' ''hi'', demo_write ''s1'' ''assistant'' ''Welcome!''] ''s1'' 20
   = Inr [\<lparr>msg_role = ''assistant'', msg_content = ''Welcome!''\<rparr>,
          \<lparr>msg_role = ''user'', msg_content = ''hi''\<rparr>]"
  by (simp add: written_then_read_def frozen_draws_def save_message_def dumps_column_def
        demo_write_def demo_db_def get_conversation_history_def and_then_def Let_def)

theorem message_log_round_trip_witness:
  "written_then_read demo_draws demo_db
     [demo_write ''s1'' ''user'' ''hi'', demo_write ''s2'' ''user'' ''hello'',
      demo_write ''s1'' ''assistant'' ''Welcome!''] ''s1'' 2
   = Inr [\<lparr>msg_role = ''user'', msg_content = ''hi''\<rparr>,
          \<lparr>msg_role = ''assistant'', msg_content = ''Welcome!''\<rparr>]
   \<and> filter (\<lambda>m. m_session_id m = ''s1'') (conversation_messages demo_db) = []
   \<and> strict_mono (utcnow demo_draws)"
proof -
  let ?ws = "[demo_write ''s1'' ''user'' ''hi'', demo_write ''s2'' ''user'' ''hello'',
              demo_write ''s1'' ''assistant'' ''Welcome!'']"
  obtain db' where s: "save_all demo_draws demo_db ?ws = Inr db'"
    by (simp add: save_message_def dumps_column_def demo_write_def and_then_def Let_def)
  have e: "filter (\<lambda>m. m_session_id m = ''s1'') (conversation_messages demo_db) = []"
    by (simp add: demo_db_def)
  have m: "strict_mono (utcnow demo_draws)" by (simp add: strict_mono_def demo_draws_def)
  have l: "length (filter (\<lambda>w. w_session_id w = ''s1'') ?ws) \<le> 2"
    by (simp add: demo_write_def)
  from message_log_round_trip [OF s e l] m
  have "get_conversation_history db' ''s1'' 2
              = [\<lparr>msg_role = ''user'', msg_content = ''hi''\<rparr>,
                 \<lparr>msg_role = ''assistant'', msg_content = ''Welcome!''\<rparr>]"
    by (simp add: demo_write_def)
  with s have "written_then_read demo_draws demo_db ?ws ''s1'' 2
      = Inr [\<lparr>msg_role = ''user'', msg_content = ''hi''\<rparr>,
             \<lparr>msg_role = ''assistant'', msg_content = ''Welcome!''\<rparr>]"
    by (simp only: written_then_read_def and_then_def sum.case)
  with e m show ?thesis by (intro conjI)
qed

end
